theory Spec2Isabelle
  imports Complex_Main
begin

section \<open>The Python binding layer of LensTools' topology module\<close>

text \<open>
  The file \<^verbatim>\<open>_topology.c\<close> is the CPython extension module that hands numpy arrays
  to the C kernels of LensTools (\<^verbatim>\<open>peak_count\<close>, \<^verbatim>\<open>gradient_xy\<close>, \<^verbatim>\<open>hessian\<close>,
  \<^verbatim>\<open>minkowski_functionals\<close>, \<^verbatim>\<open>azimuthal_rfft2\<close>, \<^verbatim>\<open>azimuthal_rfft3\<close>). The kernels live in
  other translation units; here each of them is a parameter of the entry point that
  calls it: a function from the memory, the buffers and the numbers it is handed to the
  new contents of the output buffers it may write (and, for the azimuthal kernels, its
  status).

  The element type of a double precision buffer is the type variable \<open>'d\<close> (only its zero
  is used, by \<^verbatim>\<open>PyArray_ZEROS\<close>), the element type of a complex buffer is \<open>'c\<close>.
\<close>

subsection \<open>Arrays, references and the interpreter state\<close>

text \<open>A numpy array: its dimensions (\<^verbatim>\<open>npy_intp\<close> values) and its C-contiguous buffer.\<close>

record 'a ndarray =
  shape :: "nat list"
  data :: "'a list"

text \<open>
  The exceptions the C API raises in this module; the conversion of an argument runs
  methods of the argument, which may raise any other exception.
\<close>

datatype pyerr = TypeError | ValueError | MemoryError | SystemError | IndexError | OverflowError
  | OtherException string

text \<open>
  An argument that is interpreted as an array is given by what \<^verbatim>\<open>PyArray_FROM_OTF\<close>
  makes of it with the type and flags the entry point asks for: the converted array,
  or the exception raised when the object cannot be converted.
\<close>

type_synonym 'a array_like = "pyerr + 'a ndarray"

text \<open>An argument that is compared with \<^verbatim>\<open>Py_None\<close> before it is converted.\<close>

datatype 'a pyarg = Py_None | Obj 'a

text \<open>
  A non-NULL \<^verbatim>\<open>PyObject *\<close> is a handle together with the value it points to; \<open>None\<close>
  stands for \<^verbatim>\<open>NULL\<close>. The output arrays hold doubles or longs; a tuple holds
  references to output arrays (\<^verbatim>\<open>NULL\<close> until an item is set).
\<close>

type_synonym 'a ref = "nat \<times> 'a"

datatype 'd pyarray = DoubleArray "'d ndarray" | LongArray "int ndarray"

type_synonym 'd items = "'d pyarray ref option list"

datatype 'd pyobject = Array "'d pyarray" | Tuple "'d items"

text \<open>
  The state of the interpreter as far as the module touches it: the error indicator,
  the reference count of every object obtained so far (indexed by handle), the outcome
  of the allocations to come (\<open>False\<close>: out of memory; past the end of the list every
  allocation succeeds), and the contents of the memory the module has not initialised
  (by handle and offset): what an allocation hands out uninitialised, and what lies
  past the end of a buffer.
\<close>

type_synonym 'd memory = "nat \<Rightarrow> nat \<Rightarrow> 'd"

record 'd pystate =
  err_indicator :: "pyerr option"
  refcnt :: "int list"
  allocs :: "bool list"
  junk :: "'d memory"

text \<open>
  What a call of an entry point does: it returns a \<^verbatim>\<open>PyObject *\<close> (possibly \<^verbatim>\<open>NULL\<close>) and
  leaves a state, or it runs into behaviour the C language leaves undefined (a read
  past the dimensions of an array, a \<^verbatim>\<open>NULL\<close> tuple handed to \<^verbatim>\<open>PyTuple_SetItem\<close>, a
  signed overflow).
\<close>

datatype 'd outcome = Returns "'d pyobject ref option" "'d pystate" | Undefined

subsection \<open>The C API as the module uses it\<close>

definition PyErr_Set :: "pyerr \<Rightarrow> 'd pystate \<Rightarrow> 'd pystate" where
  "PyErr_Set e s = s\<lparr>err_indicator := Some e\<rparr>"

text \<open>A new object: the next handle, with one reference, owned by the caller.\<close>

definition new_ref :: "'a \<Rightarrow> 'd pystate \<Rightarrow> 'a ref \<times> 'd pystate" where
  "new_ref v s = ((length (refcnt s), v), s\<lparr>refcnt := refcnt s @ [1]\<rparr>)"

definition take_alloc :: "'d pystate \<Rightarrow> bool \<times> 'd pystate" where
  "take_alloc s = (case allocs s of [] \<Rightarrow> (True, s) | b # bs \<Rightarrow> (b, s\<lparr>allocs := bs\<rparr>))"

definition Py_DECREF :: "'a ref \<Rightarrow> 'd pystate \<Rightarrow> 'd pystate" where
  "Py_DECREF r s = s\<lparr>refcnt := (refcnt s)[fst r := refcnt s ! fst r - 1]\<rparr>"

definition Py_XDECREF :: "'a ref option \<Rightarrow> 'd pystate \<Rightarrow> 'd pystate" where
  "Py_XDECREF r s = (case r of None \<Rightarrow> s | Some x \<Rightarrow> Py_DECREF x s)"

text \<open>Statements executed one after the other.\<close>

definition run :: "('s \<Rightarrow> 's) list \<Rightarrow> 's \<Rightarrow> 's" where
  "run fs s = fold (\<lambda>f t. f t) fs s"

text \<open>
  \<^verbatim>\<open>Py_DECREF\<close> of a tuple: when the last reference goes, the tuple is deallocated and
  gives up the references to its items.
\<close>

definition Py_DECREF_tuple :: "'d items ref \<Rightarrow> 'd pystate \<Rightarrow> 'd pystate" where
  "Py_DECREF_tuple r s =
     (let s1 = Py_DECREF r s
      in if refcnt s1 ! fst r = 0 then run (map Py_XDECREF (snd r)) s1 else s1)"

definition Py_XDECREF_tuple :: "'d items ref option \<Rightarrow> 'd pystate \<Rightarrow> 'd pystate" where
  "Py_XDECREF_tuple r s = (case r of None \<Rightarrow> s | Some x \<Rightarrow> Py_DECREF_tuple x s)"

text \<open>\<^verbatim>\<open>PyArray_FROM_OTF\<close>: a new reference to the converted array, or \<^verbatim>\<open>NULL\<close> with the
  exception set.\<close>

definition PyArray_FROM_OTF :: "'a array_like \<Rightarrow> 'd pystate \<Rightarrow> 'a ndarray ref option \<times> 'd pystate" where
  "PyArray_FROM_OTF obj s =
     (case obj of
        Inl e \<Rightarrow> (None, PyErr_Set e s)
      | Inr a \<Rightarrow> (let (r, s1) = new_ref a s in (Some r, s1)))"

text \<open>\<^verbatim>\<open>PyArray_DIM(arr, i)\<close> reads \<^verbatim>\<open>dimensions[i]\<close>; past the number of dimensions the
  read is undefined (\<open>None\<close>).\<close>

definition PyArray_DIM :: "'a ndarray ref \<Rightarrow> nat \<Rightarrow> int option" where
  "PyArray_DIM arr i =
     (if i < length (shape (snd arr)) then Some (int (shape (snd arr) ! i)) else None)"

text \<open>The conversion \<^verbatim>\<open>(int)\<close> of an \<^verbatim>\<open>npy_intp\<close> (64 bits) keeps the low 32 bits, read as
  two's complement.\<close>

definition c_int :: "int \<Rightarrow> int" where
  "c_int x = (x + 2 ^ 31) mod 2 ^ 32 - 2 ^ 31"

definition INT_MIN :: int where
  "INT_MIN = - (2 ^ 31)"

text \<open>
  \<^verbatim>\<open>PyArray_ZEROS(nd, dims, type, 0)\<close> and \<^verbatim>\<open>PyArray_SimpleNew(nd, dims, type)\<close>. Before it
  allocates, numpy goes through the dimensions: it refuses a negative one, and it
  multiplies the element size by the dimensions that are not zero and refuses the array
  when the number of bytes does not fit \<^verbatim>\<open>npy_intp\<close> (64 bits), each with a \<^verbatim>\<open>ValueError\<close>.
  Otherwise the buffer is allocated, filled with zeros by the first and left as it is
  by the second. The element type (\<^verbatim>\<open>NPY_DOUBLE\<close>, \<^verbatim>\<open>NPY_LONG\<close>, of 8 bytes each) is the type
  of the result.
\<close>

definition NPY_MAX_INTP :: int where
  "NPY_MAX_INTP = 2 ^ 63 - 1"

definition elsize :: int where
  "elsize = 8"

definition dims_refused :: "int list \<Rightarrow> bool" where
  "dims_refused dims =
     (list_ex (\<lambda>d. d < 0) dims \<or> NPY_MAX_INTP < elsize * prod_list (filter (\<lambda>d. d \<noteq> 0) dims))"

definition PyArray_ZEROS :: "int list \<Rightarrow> 'd pystate \<Rightarrow> ('a::zero) ndarray ref option \<times> 'd pystate" where
  "PyArray_ZEROS dims s =
     (if dims_refused dims then (None, PyErr_Set ValueError s)
      else let (ok, s1) = take_alloc s
           in if ok
              then (let (r, s2) = new_ref \<lparr>shape = map nat dims, data = replicate (nat (prod_list dims)) 0\<rparr> s1
                    in (Some r, s2))
              else (None, PyErr_Set MemoryError s1))"

definition PyArray_SimpleNew :: "int list \<Rightarrow> 'd pystate \<Rightarrow> 'd ndarray ref option \<times> 'd pystate" where
  "PyArray_SimpleNew dims s =
     (if dims_refused dims then (None, PyErr_Set ValueError s)
      else let (ok, s1) = take_alloc s
           in if ok
              then (let (r, s2) = new_ref \<lparr>shape = map nat dims,
                                           data = map (junk s1 (length (refcnt s1))) [0 ..< nat (prod_list dims)]\<rparr> s1
                    in (Some r, s2))
              else (None, PyErr_Set MemoryError s1))"

text \<open>\<^verbatim>\<open>PyTuple_New(n)\<close>: a tuple of \<open>n\<close> \<^verbatim>\<open>NULL\<close> items, or \<^verbatim>\<open>NULL\<close> when out of memory.\<close>

definition PyTuple_New :: "nat \<Rightarrow> 'd pystate \<Rightarrow> 'd items ref option \<times> 'd pystate" where
  "PyTuple_New n s =
     (let (ok, s1) = take_alloc s
      in if ok then (let (r, s2) = new_ref (replicate n None) s1 in (Some r, s2))
         else (None, PyErr_Set MemoryError s1))"

text \<open>
  \<^verbatim>\<open>PyTuple_SetItem(op, i, newitem)\<close> reads the type and the reference count of \<^verbatim>\<open>op\<close>
  first, which is undefined for \<^verbatim>\<open>NULL\<close> (\<open>None\<close>). It steals the reference to the item:
  on failure (a tuple that is shared, an index out of range) the item is released, an
  exception is set and \<open>-1\<close> is returned; on success the old item is released and the
  result is \<open>0\<close>. The tuple as it is afterwards is returned as well.
\<close>

definition PyTuple_SetItem ::
  "'d items ref option \<Rightarrow> nat \<Rightarrow> 'd pyarray ref \<Rightarrow> 'd pystate \<Rightarrow> (int \<times> 'd items ref option \<times> 'd pystate) option" where
  "PyTuple_SetItem op i newitem s =
     (case op of
        None \<Rightarrow> None
      | Some (h, its) \<Rightarrow>
          if refcnt s ! h = 1
          then (if i < length its
                then Some (0, Some (h, its[i := Some newitem]), Py_XDECREF (its ! i) s)
                else Some (-1, op, PyErr_Set IndexError (Py_DECREF newitem s)))
          else Some (-1, op, PyErr_Set SystemError (Py_DECREF newitem s)))"

text \<open>The object an entry point returns, from the typed reference it holds.\<close>

definition as_double_array :: "'d ndarray ref \<Rightarrow> 'd pyarray ref" where
  "as_double_array r = (fst r, DoubleArray (snd r))"

definition as_long_array :: "int ndarray ref \<Rightarrow> 'd pyarray ref" where
  "as_long_array r = (fst r, LongArray (snd r))"

definition array_object :: "'d pyarray ref \<Rightarrow> 'd pyobject ref" where
  "array_object r = (fst r, Array (snd r))"

definition tuple_object :: "'d items ref \<Rightarrow> 'd pyobject ref" where
  "tuple_object r = (fst r, Tuple (snd r))"

text \<open>The buffer of an array after a kernel has written it.\<close>

definition written :: "'a ndarray ref \<Rightarrow> 'a list \<Rightarrow> 'a ndarray ref" where
  "written r xs = (fst r, (snd r)\<lparr>data := xs\<rparr>)"

text \<open>
  \<^verbatim>\<open>PyArray_DATA\<close> is the address of the buffer of an array. A kernel is handed such
  addresses and no lengths: the only sizes it is told are the side lengths of the map
  (or of the first transform) and the number of bin edges. A pointer argument is given
  here by the contents of the buffer it points to. A kernel that reads more samples
  than a buffer holds reads memory outside the buffer; every kernel is handed that
  memory as its first argument (\<open>junk\<close> of the state at the call), so that its result may
  depend on it. The mask is \<^verbatim>\<open>PyArray_DATA\<close> of the mask array, or \<^verbatim>\<open>NULL\<close> when there is
  no mask.
\<close>

definition mask_profile_of :: "bool ndarray ref option \<Rightarrow> bool list option" where
  "mask_profile_of mask_array = (case mask_array of None \<Rightarrow> None | Some r \<Rightarrow> Some (data (snd r)))"

definition PyArray_DATA :: "'a ndarray ref \<Rightarrow> 'a list" where
  "PyArray_DATA r = data (snd r)"

subsection \<open>The kernels\<close>

text \<open>
  Each kernel is given with the memory outside the buffers, then the arguments of its C
  prototype, in their order; an output buffer is an argument (its contents at the call)
  and a component of the result (its contents at the return). A kernel is taken to
  return, and to write nothing but its output buffers.
\<close>

type_synonym 'd peak_count_fn =
  "'d memory \<Rightarrow> 'd list \<Rightarrow> bool list option \<Rightarrow> int \<Rightarrow> 'd \<Rightarrow> int \<Rightarrow> 'd list \<Rightarrow> 'd list \<Rightarrow> 'd list"

type_synonym 'd gradient_xy_fn =
  "'d memory \<Rightarrow> 'd list \<Rightarrow> 'd list \<Rightarrow> 'd list \<Rightarrow> int \<Rightarrow> 'd list \<times> 'd list"

type_synonym 'd hessian_fn =
  "'d memory \<Rightarrow> 'd list \<Rightarrow> 'd list \<Rightarrow> 'd list \<Rightarrow> 'd list \<Rightarrow> int \<Rightarrow> 'd list \<times> 'd list \<times> 'd list"

type_synonym 'd minkowski_functionals_fn =
  "'d memory \<Rightarrow> 'd list \<Rightarrow> bool list option \<Rightarrow> int \<Rightarrow> 'd \<Rightarrow> 'd list \<Rightarrow> 'd list \<Rightarrow> 'd list \<Rightarrow> 'd list \<Rightarrow> 'd list
     \<Rightarrow> int \<Rightarrow> 'd list \<Rightarrow> 'd list \<Rightarrow> 'd list \<Rightarrow> 'd list \<Rightarrow> 'd list \<times> 'd list \<times> 'd list"

type_synonym ('d, 'c) azimuthal_rfft2_fn =
  "'d memory \<Rightarrow> 'c list \<Rightarrow> 'c list \<Rightarrow> int \<Rightarrow> int \<Rightarrow> 'd \<Rightarrow> int \<Rightarrow> 'd list \<Rightarrow> 'd list \<Rightarrow> int \<times> 'd list"

type_synonym ('d, 'c) azimuthal_rfft3_fn =
  "'d memory \<Rightarrow> 'c list \<Rightarrow> 'c list \<Rightarrow> int \<Rightarrow> int \<Rightarrow> int \<Rightarrow> 'd \<Rightarrow> 'd \<Rightarrow> 'd \<Rightarrow> int \<Rightarrow> 'd list \<Rightarrow> 'd list \<Rightarrow> int list
     \<Rightarrow> int \<times> 'd list \<times> int list"

subsection \<open>The entry points\<close>

text \<open>
  The argument of an entry point is what \<^verbatim>\<open>PyArg_ParseTuple\<close> makes of the arguments of
  the call: the tuple it extracts, in the order of the format string, or the exception
  it leaves when it fails (a \<^verbatim>\<open>TypeError\<close> for a wrong number of arguments; for a \<^verbatim>\<open>d\<close> of
  the format, the exception of the conversion to a double).
\<close>

definition topology_peakCount ::
  "('d::zero) peak_count_fn
     \<Rightarrow> pyerr + ('d array_like \<times> bool array_like pyarg \<times> 'd array_like \<times> 'd)
     \<Rightarrow> 'd pystate \<Rightarrow> 'd outcome" where
  "topology_peakCount peak_count args s =
     (case args of
        Inl e \<Rightarrow> Returns None (PyErr_Set e s)
      | Inr (map_obj, mask_obj, thresholds_obj, sigma) \<Rightarrow>
          let (map_array, s) = PyArray_FROM_OTF map_obj s;
              (thresholds_array, s) = PyArray_FROM_OTF thresholds_obj s
          in (case (map_array, thresholds_array) of
               (Some map_arr, Some thresholds_arr) \<Rightarrow>
                 let (mask_array, s) =
                       (case mask_obj of Py_None \<Rightarrow> (None, s) | Obj m \<Rightarrow> PyArray_FROM_OTF m s)
                 in if (case mask_obj of Py_None \<Rightarrow> False | Obj m \<Rightarrow> mask_array = None)
                    then Returns None (run [Py_DECREF map_arr, Py_DECREF thresholds_arr] s)
                    else
                      (case (PyArray_DIM map_arr 0, PyArray_DIM thresholds_arr 0) of
                         (Some d0, Some n0) \<Rightarrow>
                           let Nside = c_int d0;
                               Nthreshold = c_int n0;
                               dims = [Nthreshold - 1];
                               (peaks_array, s) = PyArray_ZEROS dims s
                           in (case peaks_array of
                                 None \<Rightarrow>
                                   Returns None
                                     (run [Py_DECREF map_arr, Py_DECREF thresholds_arr, Py_XDECREF mask_array] s)
                               | Some peaks_arr \<Rightarrow>
                                   let mask_profile = mask_profile_of mask_array;
                                       peaks =
                                         peak_count (junk s) (PyArray_DATA map_arr) mask_profile Nside sigma Nthreshold
                                           (PyArray_DATA thresholds_arr) (PyArray_DATA peaks_arr)
                                   in Returns (Some (array_object (as_double_array (written peaks_arr peaks))))
                                        (run [Py_DECREF map_arr, Py_DECREF thresholds_arr, Py_XDECREF mask_array] s))
                       | _ \<Rightarrow> Undefined)
             | _ \<Rightarrow> Returns None (run [Py_XDECREF map_array, Py_XDECREF thresholds_array] s)))"

definition topology_gradient ::
  "'d gradient_xy_fn \<Rightarrow> pyerr + 'd array_like \<Rightarrow> 'd pystate \<Rightarrow> 'd outcome" where
  "topology_gradient gradient_xy args s =
     (case args of
        Inl e \<Rightarrow> Returns None (PyErr_Set e s)
      | Inr map_obj \<Rightarrow>
          let (map_array, s) = PyArray_FROM_OTF map_obj s
          in (case map_array of
               None \<Rightarrow> Returns None s
             | Some map_arr \<Rightarrow>
                 (case PyArray_DIM map_arr 0 of
                    None \<Rightarrow> Undefined
                  | Some d0 \<Rightarrow>
                      let Nside = c_int d0;
                          dims = [Nside, Nside];
                          (gradient_x_array, s) = PyArray_SimpleNew dims s;
                          (gradient_y_array, s) = PyArray_SimpleNew dims s
                      in (case (gradient_x_array, gradient_y_array) of
                           (Some gradient_x_arr, Some gradient_y_arr) \<Rightarrow>
                             let (gx, gy) =
                                   gradient_xy (junk s) (PyArray_DATA map_arr) (PyArray_DATA gradient_x_arr)
                                     (PyArray_DATA gradient_y_arr) Nside;
                                 gradient_x = as_double_array (written gradient_x_arr gx);
                                 gradient_y = as_double_array (written gradient_y_arr gy);
                                 (gradient_output, s) = PyTuple_New 2 s
                             in (case PyTuple_SetItem gradient_output 0 gradient_x s of
                                   None \<Rightarrow> Undefined
                                 | Some (rc, gradient_output, s) \<Rightarrow>
                                     if rc \<noteq> 0
                                     then Returns None
                                            (run [Py_DECREF map_arr, Py_DECREF gradient_x, Py_DECREF gradient_y,
                                                  Py_XDECREF_tuple gradient_output] s)
                                     else
                                       (case PyTuple_SetItem gradient_output 1 gradient_y s of
                                          None \<Rightarrow> Undefined
                                        | Some (rc, gradient_output, s) \<Rightarrow>
                                            if rc \<noteq> 0
                                            then Returns None
                                                   (run [Py_DECREF map_arr, Py_DECREF gradient_x, Py_DECREF gradient_y,
                                                         Py_XDECREF_tuple gradient_output] s)
                                            else Returns (map_option tuple_object gradient_output)
                                                   (Py_DECREF map_arr s)))
                         | _ \<Rightarrow>
                             Returns None
                               (run [Py_DECREF map_arr, Py_XDECREF gradient_x_array, Py_XDECREF gradient_y_array] s)))))"

definition topology_hessian ::
  "'d hessian_fn \<Rightarrow> pyerr + 'd array_like \<Rightarrow> 'd pystate \<Rightarrow> 'd outcome" where
  "topology_hessian hessian args s =
     (case args of
        Inl e \<Rightarrow> Returns None (PyErr_Set e s)
      | Inr map_obj \<Rightarrow>
          let (map_array, s) = PyArray_FROM_OTF map_obj s
          in (case map_array of
               None \<Rightarrow> Returns None s
             | Some map_arr \<Rightarrow>
                 (case PyArray_DIM map_arr 0 of
                    None \<Rightarrow> Undefined
                  | Some d0 \<Rightarrow>
                      let Nside = c_int d0;
                          dims = [Nside, Nside];
                          (hessian_xx_array, s) = PyArray_SimpleNew dims s;
                          (hessian_yy_array, s) = PyArray_SimpleNew dims s;
                          (hessian_xy_array, s) = PyArray_SimpleNew dims s
                      in (case (hessian_xx_array, hessian_yy_array, hessian_xy_array) of
                           (Some hessian_xx_arr, Some hessian_yy_arr, Some hessian_xy_arr) \<Rightarrow>
                             let (hxx, hyy, hxy) =
                                   hessian (junk s) (PyArray_DATA map_arr) (PyArray_DATA hessian_xx_arr)
                                     (PyArray_DATA hessian_yy_arr) (PyArray_DATA hessian_xy_arr) Nside;
                                 hessian_xx = as_double_array (written hessian_xx_arr hxx);
                                 hessian_yy = as_double_array (written hessian_yy_arr hyy);
                                 hessian_xy = as_double_array (written hessian_xy_arr hxy);
                                 (hessian_output, s) = PyTuple_New 3 s
                             in (case PyTuple_SetItem hessian_output 0 hessian_xx s of
                                   None \<Rightarrow> Undefined
                                 | Some (rc, hessian_output, s) \<Rightarrow>
                                     if rc \<noteq> 0
                                     then Returns None
                                            (run [Py_DECREF map_arr, Py_DECREF hessian_xx, Py_DECREF hessian_yy,
                                                  Py_DECREF hessian_xy, Py_XDECREF_tuple hessian_output] s)
                                     else
                                       (case PyTuple_SetItem hessian_output 1 hessian_yy s of
                                          None \<Rightarrow> Undefined
                                        | Some (rc, hessian_output, s) \<Rightarrow>
                                            if rc \<noteq> 0
                                            then Returns None
                                                   (run [Py_DECREF map_arr, Py_DECREF hessian_xx, Py_DECREF hessian_yy,
                                                         Py_DECREF hessian_xy, Py_XDECREF_tuple hessian_output] s)
                                            else
                                              (case PyTuple_SetItem hessian_output 2 hessian_xy s of
                                                 None \<Rightarrow> Undefined
                                               | Some (rc, hessian_output, s) \<Rightarrow>
                                                   if rc \<noteq> 0
                                                   then Returns None
                                                          (run [Py_DECREF map_arr, Py_DECREF hessian_xx,
                                                                Py_DECREF hessian_yy, Py_DECREF hessian_xy,
                                                                Py_XDECREF_tuple hessian_output] s)
                                                   else Returns (map_option tuple_object hessian_output)
                                                          (Py_DECREF map_arr s))))
                         | _ \<Rightarrow>
                             Returns None
                               (run [Py_DECREF map_arr, Py_XDECREF hessian_xx_array, Py_XDECREF hessian_yy_array,
                                     Py_XDECREF hessian_xy_array] s)))))"

text \<open>
  In \<^verbatim>\<open>_topology_minkowski\<close> the length of the outputs is computed in \<^verbatim>\<open>int\<close>
  (\<^verbatim>\<open>Nthreshold - 1\<close>, without the cast to \<^verbatim>\<open>npy_intp\<close> of the other entry points), which
  overflows for \<^verbatim>\<open>INT_MIN\<close>.
\<close>

definition topology_minkowski ::
  "('d::zero) minkowski_functionals_fn
     \<Rightarrow> pyerr + ('d array_like \<times> bool array_like pyarg \<times> 'd array_like \<times> 'd array_like \<times> 'd array_like
          \<times> 'd array_like \<times> 'd array_like \<times> 'd array_like \<times> 'd)
     \<Rightarrow> 'd pystate \<Rightarrow> 'd outcome" where
  "topology_minkowski minkowski_functionals args s =
     (case args of
        Inl e \<Rightarrow> Returns None (PyErr_Set e s)
      | Inr (map_obj, mask_obj, grad_x_obj, grad_y_obj, hess_xx_obj, hess_yy_obj, hess_xy_obj,
              thresholds_obj, sigma) \<Rightarrow>
          let (map_array, s) = PyArray_FROM_OTF map_obj s;
              (grad_x_array, s) = PyArray_FROM_OTF grad_x_obj s;
              (grad_y_array, s) = PyArray_FROM_OTF grad_y_obj s;
              (hess_xx_array, s) = PyArray_FROM_OTF hess_xx_obj s;
              (hess_yy_array, s) = PyArray_FROM_OTF hess_yy_obj s;
              (hess_xy_array, s) = PyArray_FROM_OTF hess_xy_obj s;
              (thresholds_array, s) = PyArray_FROM_OTF thresholds_obj s
          in (case (map_array, grad_x_array, grad_y_array, hess_xx_array, hess_yy_array, hess_xy_array,
                   thresholds_array) of
               (Some map_arr, Some grad_x_arr, Some grad_y_arr, Some hess_xx_arr, Some hess_yy_arr,
                Some hess_xy_arr, Some thresholds_arr) \<Rightarrow>
                 let inputs = [Py_DECREF map_arr, Py_DECREF grad_x_arr, Py_DECREF grad_y_arr,
                               Py_DECREF hess_xx_arr, Py_DECREF hess_yy_arr, Py_DECREF hess_xy_arr,
                               Py_DECREF thresholds_arr];
                     (mask_array, s) =
                       (case mask_obj of Py_None \<Rightarrow> (None, s) | Obj m \<Rightarrow> PyArray_FROM_OTF m s)
                 in if (case mask_obj of Py_None \<Rightarrow> False | Obj m \<Rightarrow> mask_array = None)
                    then Returns None (run inputs s)
                    else
                      (case (PyArray_DIM map_arr 0, PyArray_DIM thresholds_arr 0) of
                         (Some d0, Some n0) \<Rightarrow>
                           let Nside = c_int d0;
                               Nthreshold = c_int n0
                           in if Nthreshold = INT_MIN then Undefined
                              else
                                let dims = [Nthreshold - 1];
                                    (mink0_array, s) = PyArray_ZEROS dims s;
                                    (mink1_array, s) = PyArray_ZEROS dims s;
                                    (mink2_array, s) = PyArray_ZEROS dims s;
                                    (mink_output, s) = PyTuple_New 3 s
                                in (case (mink0_array, mink1_array, mink2_array, mink_output) of
                                     (Some mink0_arr, Some mink1_arr, Some mink2_arr, Some mink_out) \<Rightarrow>
                                       let mask_profile = mask_profile_of mask_array;
                                           (v0, v1, v2) =
                                             minkowski_functionals (junk s) (PyArray_DATA map_arr) mask_profile Nside sigma
                                               (PyArray_DATA grad_x_arr) (PyArray_DATA grad_y_arr)
                                               (PyArray_DATA hess_xx_arr) (PyArray_DATA hess_yy_arr)
                                               (PyArray_DATA hess_xy_arr) Nthreshold (PyArray_DATA thresholds_arr)
                                               (PyArray_DATA mink0_arr) (PyArray_DATA mink1_arr)
                                               (PyArray_DATA mink2_arr);
                                           mink0 = as_double_array (written mink0_arr v0);
                                           mink1 = as_double_array (written mink1_arr v1);
                                           mink2 = as_double_array (written mink2_arr v2);
                                           failed = inputs @ [Py_XDECREF mask_array, Py_DECREF mink0,
                                                              Py_DECREF mink1, Py_DECREF mink2]
                                       in (case PyTuple_SetItem mink_output 0 mink0 s of
                                             None \<Rightarrow> Undefined
                                           | Some (rc, mink_output, s) \<Rightarrow>
                                               if rc \<noteq> 0
                                               then Returns None (run (failed @ [Py_XDECREF_tuple mink_output]) s)
                                               else
                                                 (case PyTuple_SetItem mink_output 1 mink1 s of
                                                    None \<Rightarrow> Undefined
                                                  | Some (rc, mink_output, s) \<Rightarrow>
                                                      if rc \<noteq> 0
                                                      then Returns None
                                                             (run (failed @ [Py_XDECREF_tuple mink_output]) s)
                                                      else
                                                        (case PyTuple_SetItem mink_output 2 mink2 s of
                                                           None \<Rightarrow> Undefined
                                                         | Some (rc, mink_output, s) \<Rightarrow>
                                                             if rc \<noteq> 0
                                                             then Returns None
                                                                    (run (failed @ [Py_XDECREF_tuple mink_output]) s)
                                                             else Returns (map_option tuple_object mink_output)
                                                                    (run (inputs @ [Py_XDECREF mask_array]) s))))
                                   | _ \<Rightarrow>
                                       Returns None
                                         (run (inputs @ [Py_XDECREF mask_array, Py_XDECREF mink0_array,
                                                         Py_XDECREF mink1_array, Py_XDECREF mink2_array,
                                                         Py_XDECREF_tuple mink_output]) s))
                       | _ \<Rightarrow> Undefined)
             | _ \<Rightarrow>
                 Returns None
                   (run [Py_XDECREF map_array, Py_XDECREF grad_x_array, Py_XDECREF grad_y_array,
                         Py_XDECREF hess_xx_array, Py_XDECREF hess_yy_array, Py_XDECREF hess_xy_array,
                         Py_XDECREF thresholds_array] s)))"

text \<open>
  The azimuthal kernels return a status; when it is not zero the entry point releases
  what it holds and returns \<^verbatim>\<open>NULL\<close>, setting no exception of its own.
\<close>

definition topology_rfft2_azimuthal ::
  "('d::zero, 'c) azimuthal_rfft2_fn
     \<Rightarrow> pyerr + ('c array_like \<times> 'c array_like \<times> 'd \<times> 'd array_like)
     \<Rightarrow> 'd pystate \<Rightarrow> 'd outcome" where
  "topology_rfft2_azimuthal azimuthal_rfft2 args s =
     (case args of
        Inl e \<Rightarrow> Returns None (PyErr_Set e s)
      | Inr (ft_map1_obj, ft_map2_obj, map_angle_degrees, lvalues_obj) \<Rightarrow>
          let (ft_map1_array, s) = PyArray_FROM_OTF ft_map1_obj s;
              (ft_map2_array, s) = PyArray_FROM_OTF ft_map2_obj s;
              (lvalues_array, s) = PyArray_FROM_OTF lvalues_obj s
          in (case (ft_map1_array, lvalues_array, ft_map2_array) of
               (Some ft_map1_arr, Some lvalues_arr, Some ft_map2_arr) \<Rightarrow>
                 (case (PyArray_DIM ft_map1_arr 0, PyArray_DIM ft_map1_arr 1, PyArray_DIM lvalues_arr 0) of
                    (Some d0, Some d1, Some n0) \<Rightarrow>
                      let Nside_x = c_int d0;
                          Nside_y = c_int d1;
                          Nvalues = c_int n0;
                          dims = [Nvalues - 1];
                          (power_array, s) = PyArray_ZEROS dims s
                      in (case power_array of
                            None \<Rightarrow>
                              Returns None
                                (run [Py_DECREF ft_map1_arr, Py_DECREF ft_map2_arr, Py_DECREF lvalues_arr] s)
                          | Some power_arr \<Rightarrow>
                              let (status, power) =
                                    azimuthal_rfft2 (junk s) (PyArray_DATA ft_map1_arr) (PyArray_DATA ft_map2_arr) Nside_x
                                      Nside_y map_angle_degrees Nvalues (PyArray_DATA lvalues_arr)
                                      (PyArray_DATA power_arr);
                                  power_arr = written power_arr power
                              in if status \<noteq> 0
                                 then Returns None
                                        (run [Py_DECREF ft_map1_arr, Py_DECREF ft_map2_arr, Py_DECREF lvalues_arr,
                                              Py_DECREF power_arr] s)
                                 else Returns (Some (array_object (as_double_array power_arr)))
                                        (run [Py_DECREF ft_map1_arr, Py_DECREF ft_map2_arr, Py_DECREF lvalues_arr] s))
                  | _ \<Rightarrow> Undefined)
             | _ \<Rightarrow>
                 Returns None
                   (run [Py_XDECREF ft_map1_array, Py_XDECREF ft_map2_array, Py_XDECREF lvalues_array] s)))"

definition topology_rfft3_azimuthal ::
  "('d::zero, 'c) azimuthal_rfft3_fn
     \<Rightarrow> pyerr + ('c array_like \<times> 'c array_like \<times> 'd \<times> 'd \<times> 'd \<times> 'd array_like)
     \<Rightarrow> 'd pystate \<Rightarrow> 'd outcome" where
  "topology_rfft3_azimuthal azimuthal_rfft3 args s =
     (case args of
        Inl e \<Rightarrow> Returns None (PyErr_Set e s)
      | Inr (ft_map1_obj, ft_map2_obj, kpixX, kpixY, kpixZ, kvalues_obj) \<Rightarrow>
          let (ft_map1_array, s) = PyArray_FROM_OTF ft_map1_obj s;
              (ft_map2_array, s) = PyArray_FROM_OTF ft_map2_obj s;
              (kvalues_array, s) = PyArray_FROM_OTF kvalues_obj s
          in (case (ft_map1_array, kvalues_array, ft_map2_array) of
               (Some ft_map1_arr, Some kvalues_arr, Some ft_map2_arr) \<Rightarrow>
                 (case (PyArray_DIM ft_map1_arr 0, PyArray_DIM ft_map1_arr 1, PyArray_DIM ft_map1_arr 2,
                        PyArray_DIM kvalues_arr 0) of
                    (Some d0, Some d1, Some d2, Some n0) \<Rightarrow>
                      let Nside_x = c_int d0;
                          Nside_y = c_int d1;
                          Nside_z = c_int d2;
                          Nvalues = c_int n0;
                          dims = [Nvalues - 1];
                          (power_array, s) = PyArray_ZEROS dims s;
                          (hits_array, s) = PyArray_ZEROS dims s
                      in (case (power_array, hits_array) of
                            (Some power_arr, Some hits_arr) \<Rightarrow>
                              let inputs = [Py_DECREF ft_map1_arr, Py_DECREF ft_map2_arr, Py_DECREF kvalues_arr];
                                  (status, power, hits) =
                                    azimuthal_rfft3 (junk s) (PyArray_DATA ft_map1_arr) (PyArray_DATA ft_map2_arr) Nside_x
                                      Nside_y Nside_z kpixX kpixY kpixZ Nvalues (PyArray_DATA kvalues_arr)
                                      (PyArray_DATA power_arr) (PyArray_DATA hits_arr);
                                  power_a = as_double_array (written power_arr power);
                                  hits_a = as_long_array (written hits_arr hits)
                              in if status \<noteq> 0
                                 then Returns None (run (inputs @ [Py_DECREF power_a, Py_DECREF hits_a]) s)
                                 else
                                   let (output, s) = PyTuple_New 2 s
                                   in (case PyTuple_SetItem output 0 hits_a s of
                                         None \<Rightarrow> Undefined
                                       | Some (rc, output, s) \<Rightarrow>
                                           if rc \<noteq> 0
                                           then Returns None (run (inputs @ [Py_DECREF power_a, Py_DECREF hits_a]) s)
                                           else
                                             (case PyTuple_SetItem output 1 power_a s of
                                                None \<Rightarrow> Undefined
                                              | Some (rc, output, s) \<Rightarrow>
                                                  if rc \<noteq> 0
                                                  then Returns None
                                                         (run (inputs @ [Py_DECREF power_a, Py_DECREF hits_a]) s)
                                                  else Returns (map_option tuple_object output) (run inputs s)))
                          | _ \<Rightarrow>
                              Returns None
                                (run [Py_DECREF ft_map1_arr, Py_DECREF ft_map2_arr, Py_DECREF kvalues_arr,
                                      Py_XDECREF power_array, Py_XDECREF hits_array] s))
                  | _ \<Rightarrow> Undefined)
             | _ \<Rightarrow>
                 Returns None
                   (run [Py_XDECREF ft_map1_array, Py_XDECREF ft_map2_array, Py_XDECREF kvalues_array] s)))"

subsection \<open>What the caller sees\<close>

text \<open>
  The value behind the returned pointer, without the handles: one array, or the items
  of a tuple. \<open>returned\<close> is \<open>None\<close> when the call returns \<^verbatim>\<open>NULL\<close> or is undefined.
\<close>

datatype 'd pyvalue = Vector "'d pyarray" | Vectors "'d pyarray option list"

definition value_of :: "'d pyobject ref \<Rightarrow> 'd pyvalue" where
  "value_of r = (case snd r of Array a \<Rightarrow> Vector a | Tuple its \<Rightarrow> Vectors (map (map_option snd) its))"

definition returned :: "'d outcome \<Rightarrow> 'd pyvalue option" where
  "returned out = (case out of Returns r s \<Rightarrow> map_option value_of r | Undefined \<Rightarrow> None)"

definition state_after :: "'d outcome \<Rightarrow> 'd pystate option" where
  "state_after out = (case out of Returns r s \<Rightarrow> Some s | Undefined \<Rightarrow> None)"

definition vectors :: "'d pyvalue \<Rightarrow> 'd pyarray list" where
  "vectors v = (case v of Vector a \<Rightarrow> [a] | Vectors its \<Rightarrow> concat (map (\<lambda>x. case x of None \<Rightarrow> [] | Some a \<Rightarrow> [a]) its))"

definition shape_of :: "'d pyarray \<Rightarrow> nat list" where
  "shape_of a = (case a of DoubleArray x \<Rightarrow> shape x | LongArray x \<Rightarrow> shape x)"

text \<open>The next \<open>k\<close> allocations succeed.\<close>

definition next_allocs_ok :: "nat \<Rightarrow> 'd pystate \<Rightarrow> bool" where
  "next_allocs_ok k s = list_all (\<lambda>b. b) (take k (allocs s))"
section \<open>How the entry points evaluate\<close>

subsection \<open>The allocations and the returned value\<close>

lemma c_int_id: "0 \<le> x \<Longrightarrow> x < 2 ^ 31 \<Longrightarrow> c_int x = x"
  by (simp add: c_int_def)

lemma c_int_bounds: "- (2 ^ 31) \<le> c_int x" "c_int x < 2 ^ 31"
  by (simp_all add: c_int_def)

lemma c_int_huge [simp]:
  "2147483648 \<le> k \<Longrightarrow> (k \<le> c_int x) = False"
  "2147483647 \<le> k \<Longrightarrow> (k < c_int x) = False"
  using c_int_bounds [of x] by simp_all

text \<open>One dimension is refused from \<open>2^60\<close> elements on, a square from the side \<open>2^30\<close> on.\<close>

lemma dims_refused_1: "dims_refused [x] = (x < 0 \<or> 2 ^ 60 \<le> x)"
  by (auto simp: dims_refused_def NPY_MAX_INTP_def elsize_def)

lemma square_too_big: "0 \<le> (x::int) \<Longrightarrow> (2 ^ 63 - 1 < 8 * (x * x)) = (2 ^ 30 \<le> x)"
proof
  assume x: "0 \<le> x" and h: "2 ^ 63 - 1 < 8 * (x * x)"
  show "2 ^ 30 \<le> x"
  proof (rule ccontr)
    assume "\<not> 2 ^ 30 \<le> x"
    then have "x \<le> 2 ^ 30 - 1" by simp
    with x have "x * x \<le> (2 ^ 30 - 1) * (2 ^ 30 - 1)" by (intro mult_mono) simp_all
    with h show False by simp
  qed
next
  assume x: "0 \<le> x" and h: "2 ^ 30 \<le> x"
  then have "(2 ^ 30) * (2 ^ 30) \<le> x * x" by (intro mult_mono) simp_all
  then show "2 ^ 63 - 1 < 8 * (x * x)" by simp
qed

lemma dims_refused_2: "dims_refused [x, x] = (x < 0 \<or> 2 ^ 30 \<le> x)"
proof (cases "x < 0")
  case True
  then show ?thesis by (simp add: dims_refused_def)
next
  case False
  then show ?thesis
    using square_too_big [of x] by (cases "x = 0") (simp_all add: dims_refused_def NPY_MAX_INTP_def elsize_def)
qed

lemma take_alloc_fields [simp]:
  "refcnt (snd (take_alloc s)) = refcnt s"
  "err_indicator (snd (take_alloc s)) = err_indicator s"
  "junk (snd (take_alloc s)) = junk s"
  by (simp_all add: take_alloc_def split: list.splits)

lemma take_alloc_update [simp]:
  "take_alloc (s\<lparr>refcnt := r\<rparr>) = (fst (take_alloc s), (snd (take_alloc s))\<lparr>refcnt := r\<rparr>)"
  "take_alloc (s\<lparr>err_indicator := e\<rparr>) = (fst (take_alloc s), (snd (take_alloc s))\<lparr>err_indicator := e\<rparr>)"
  by (simp_all add: take_alloc_def split: list.splits)

lemma next_allocs_ok_0 [simp]: "next_allocs_ok 0 s"
  by (simp add: next_allocs_ok_def)

lemma next_allocs_ok_Suc:
  "next_allocs_ok (Suc k) s = (fst (take_alloc s) \<and> next_allocs_ok k (snd (take_alloc s)))"
  by (cases "allocs s") (simp_all add: next_allocs_ok_def take_alloc_def)

lemma next_allocs_ok_num:
  "next_allocs_ok (Suc 0) s = fst (take_alloc s)"
  "next_allocs_ok 1 s = fst (take_alloc s)"
  "next_allocs_ok 2 s = (fst (take_alloc s) \<and> next_allocs_ok 1 (snd (take_alloc s)))"
  "next_allocs_ok 3 s = (fst (take_alloc s) \<and> next_allocs_ok 2 (snd (take_alloc s)))"
  "next_allocs_ok 4 s = (fst (take_alloc s) \<and> next_allocs_ok 3 (snd (take_alloc s)))"
  using next_allocs_ok_Suc [of 0 s] next_allocs_ok_Suc [of 1 s] next_allocs_ok_Suc [of 2 s]
    next_allocs_ok_Suc [of 3 s]
  by (simp_all add: eval_nat_numeral)

lemma next_allocs_ok_update [simp]:
  "next_allocs_ok k (s\<lparr>refcnt := r\<rparr>) = next_allocs_ok k s"
  "next_allocs_ok k (s\<lparr>err_indicator := e\<rparr>) = next_allocs_ok k s"
  by (simp_all add: next_allocs_ok_def)

lemma Py_XDECREF_simps [simp]:
  "Py_XDECREF None s = s"
  "Py_XDECREF (Some r) s = Py_DECREF r s"
  "Py_XDECREF_tuple None s = s"
  "Py_XDECREF_tuple (Some t) s = Py_DECREF_tuple t s"
  by (simp_all add: Py_XDECREF_def Py_XDECREF_tuple_def)

lemma returned_simps [simp]:
  "returned (Returns r s) = map_option value_of r"
  "returned Undefined = None"
  by (simp_all add: returned_def)

lemmas eval_defs = PyArray_FROM_OTF_def new_ref_def PyArray_DIM_def PyArray_ZEROS_def PyArray_SimpleNew_def
  PyTuple_New_def PyTuple_SetItem_def PyErr_Set_def PyArray_DATA_def
  as_double_array_def as_long_array_def array_object_def tuple_object_def written_def
  mask_profile_of_def value_of_def Let_def case_prod_unfold nth_append
  numeral_2_eq_2 numeral_3_eq_3 next_allocs_ok_Suc next_allocs_ok_num dims_refused_1 dims_refused_2

lemma peakCount_returned:
  "returned (topology_peakCount peak_count
      (Inr (Inr \<lparr>shape = d0 # dm, data = md\<rparr>, map_pyarg Inr mko, Inr \<lparr>shape = n0 # dt, data = td\<rparr>, sigma)) s) =
   (if 1 \<le> c_int (int n0) \<and> next_allocs_ok 1 s
    then Some (Vector (DoubleArray
           \<lparr>shape = [nat (c_int (int n0) - 1)],
            data = peak_count (junk s) md (case mko of Py_None \<Rightarrow> None | Obj mk \<Rightarrow> Some (data mk)) (c_int (int d0)) sigma
                     (c_int (int n0)) td (replicate (nat (c_int (int n0) - 1)) 0)\<rparr>))
    else None)"
  by (cases mko) (simp_all add: topology_peakCount_def eval_defs next_allocs_ok_num)

lemma minkowski_returned:
  "returned (topology_minkowski mf
      (Inr (Inr \<lparr>shape = d0 # dm, data = md\<rparr>, map_pyarg Inr mko, Inr gx, Inr gy, Inr hxx, Inr hyy, Inr hxy,
             Inr \<lparr>shape = n0 # dt, data = td\<rparr>, sigma)) s) =
   (if 1 \<le> c_int (int n0) \<and> next_allocs_ok 4 s
    then (let n = nat (c_int (int n0) - 1);
              (v0, v1, v2) = mf (junk s) md (case mko of Py_None \<Rightarrow> None | Obj mk \<Rightarrow> Some (data mk)) (c_int (int d0)) sigma
                     (data gx) (data gy) (data hxx) (data hyy) (data hxy)
                     (c_int (int n0)) td (replicate n 0) (replicate n 0) (replicate n 0)
          in Some (Vectors [Some (DoubleArray \<lparr>shape = [n], data = v0\<rparr>),
                            Some (DoubleArray \<lparr>shape = [n], data = v1\<rparr>),
                            Some (DoubleArray \<lparr>shape = [n], data = v2\<rparr>)]))
    else None)"
  by (cases mko) (simp_all add: topology_minkowski_def eval_defs next_allocs_ok_num INT_MIN_def)


lemma gradient_returned:
  "returned (topology_gradient gradient_xy (Inr (Inr \<lparr>shape = d0 # dm, data = md\<rparr>)) s) =
   (if 0 \<le> c_int (int d0) \<and> c_int (int d0) < 2 ^ 30 \<and> next_allocs_ok 3 s
    then (let n = c_int (int d0); h = length (refcnt s);
              (gx, gy) = gradient_xy (junk s) md (map (junk s (Suc h)) [0 ..< nat (n * n)])
                           (map (junk s (Suc (Suc h))) [0 ..< nat (n * n)]) n
          in Some (Vectors [Some (DoubleArray \<lparr>shape = [nat n, nat n], data = gx\<rparr>),
                            Some (DoubleArray \<lparr>shape = [nat n, nat n], data = gy\<rparr>)]))
    else None)"
  by (simp add: topology_gradient_def eval_defs)

lemma hessian_returned:
  "returned (topology_hessian hessian (Inr (Inr \<lparr>shape = d0 # dm, data = md\<rparr>)) s) =
   (if 0 \<le> c_int (int d0) \<and> c_int (int d0) < 2 ^ 30 \<and> next_allocs_ok 4 s
    then (let n = c_int (int d0); h = length (refcnt s);
              (hxx, hyy, hxy) = hessian (junk s) md (map (junk s (Suc h)) [0 ..< nat (n * n)])
                           (map (junk s (Suc (Suc h))) [0 ..< nat (n * n)])
                           (map (junk s (Suc (Suc (Suc h)))) [0 ..< nat (n * n)]) n
          in Some (Vectors [Some (DoubleArray \<lparr>shape = [nat n, nat n], data = hxx\<rparr>),
                            Some (DoubleArray \<lparr>shape = [nat n, nat n], data = hyy\<rparr>),
                            Some (DoubleArray \<lparr>shape = [nat n, nat n], data = hxy\<rparr>)]))
    else None)"
  by (simp add: topology_hessian_def eval_defs)

lemma rfft2_returned:
  "returned (topology_rfft2_azimuthal azimuthal_rfft2
      (Inr (Inr \<lparr>shape = d0 # d1 # dm, data = f1\<rparr>, Inr ft2, angle, Inr \<lparr>shape = n0 # dt, data = lv\<rparr>)) s) =
   (let n = nat (c_int (int n0) - 1);
        (status, power) = azimuthal_rfft2 (junk s) f1 (data ft2) (c_int (int d0)) (c_int (int d1)) angle (c_int (int n0)) lv
                            (replicate n 0)
    in if 1 \<le> c_int (int n0) \<and> next_allocs_ok 1 s \<and> status = 0
       then Some (Vector (DoubleArray \<lparr>shape = [n], data = power\<rparr>))
       else None)"
  by (simp add: topology_rfft2_azimuthal_def eval_defs)

lemma rfft3_returned:
  "returned (topology_rfft3_azimuthal azimuthal_rfft3
      (Inr (Inr \<lparr>shape = d0 # d1 # d2 # dm, data = f1\<rparr>, Inr ft2, kx, ky, kz, Inr \<lparr>shape = n0 # dt, data = kv\<rparr>)) s) =
   (let n = nat (c_int (int n0) - 1);
        (status, power, hits) = azimuthal_rfft3 (junk s) f1 (data ft2) (c_int (int d0)) (c_int (int d1)) (c_int (int d2))
                                  kx ky kz (c_int (int n0)) kv (replicate n 0) (replicate n 0)
    in if 1 \<le> c_int (int n0) \<and> next_allocs_ok 3 s \<and> status = 0
       then Some (Vectors [Some (LongArray \<lparr>shape = [n], data = hits\<rparr>),
                           Some (DoubleArray \<lparr>shape = [n], data = power\<rparr>)])
       else None)"
  by (simp add: topology_rfft3_azimuthal_def eval_defs)


lemma ndarray_shape_cases:
  obtains d where "a = \<lparr>shape = [], data = d\<rparr>" | n sh d where "a = \<lparr>shape = n # sh, data = d\<rparr>"
  by (cases a; cases "shape a") auto

lemma pyarg_conv_cases:
  obtains e where "mask_obj = Obj (Inl e)" | mko where "mask_obj = map_pyarg Inr mko"
proof (cases mask_obj)
  case Py_None
  then have "mask_obj = map_pyarg Inr Py_None" by simp
  then show ?thesis using that by blast
next
  case (Obj x)
  show ?thesis
  proof (cases x)
    case (Inl e)
    with Obj show ?thesis using that by blast
  next
    case (Inr m)
    with Obj have "mask_obj = map_pyarg Inr (Obj m)" by simp
    then show ?thesis using that by blast
  qed
qed


lemma not_isl_Inr: "\<not> isl x \<Longrightarrow> \<exists>a. x = Inr a"
  by (cases x) simp_all

lemma prod_cases9:
  obtains a b c d e f g h i where "y = (a, b, c, d, e, f, g, h, i)"
  by (cases y, case_tac g) blast

lemma peakCount_unconverted:
  "isl map_obj \<or> isl thresholds_obj \<or> (\<exists>e. mask_obj = Obj (Inl e)) \<Longrightarrow>
   returned (topology_peakCount peak_count (Inr (map_obj, mask_obj, thresholds_obj, sigma)) s) = None"
  by (cases map_obj; cases thresholds_obj) (auto simp: topology_peakCount_def eval_defs)

lemma peakCount_no_dims:
  "shape m = [] \<or> shape t = [] \<Longrightarrow>
   returned (topology_peakCount peak_count (Inr (Inr m, map_pyarg Inr mko, Inr t, sigma)) s) = None"
  by (cases mko) (auto simp: topology_peakCount_def eval_defs)

lemma peakCount_returned_inv:
  assumes "returned (topology_peakCount peak_count args s) = Some v"
  obtains d0 dm md mko n0 dt td sigma where
    "args = Inr (Inr \<lparr>shape = d0 # dm, data = md\<rparr>, map_pyarg Inr mko, Inr \<lparr>shape = n0 # dt, data = td\<rparr>, sigma)"
proof (cases args)
  case (Inl e)
  with assms show ?thesis by (simp add: topology_peakCount_def)
next
  case args: (Inr a)
  obtain map_obj mask_obj thresholds_obj sigma where a: "a = (map_obj, mask_obj, thresholds_obj, sigma)"
    by (cases a)
  from assms args a peakCount_unconverted [of map_obj thresholds_obj mask_obj peak_count sigma s]
  have conv: "\<not> isl map_obj" "\<not> isl thresholds_obj" "\<not> (\<exists>e. mask_obj = Obj (Inl e))"
    by auto
  obtain m where m: "map_obj = Inr m" using conv(1) not_isl_Inr by blast
  obtain t where t: "thresholds_obj = Inr t" using conv(2) not_isl_Inr by blast
  obtain mko where mko: "mask_obj = map_pyarg Inr mko"
    using conv(3) by (cases mask_obj rule: pyarg_conv_cases) auto
  from assms args a m t mko peakCount_no_dims [of m t peak_count mko sigma s]
  have "shape m \<noteq> []" "shape t \<noteq> []" by auto
  then obtain d0 dm md n0 dt td where "m = \<lparr>shape = d0 # dm, data = md\<rparr>" "t = \<lparr>shape = n0 # dt, data = td\<rparr>"
    by (cases m rule: ndarray_shape_cases; cases t rule: ndarray_shape_cases) auto
  with args a m t mko show ?thesis using that by blast
qed


lemma minkowski_unconverted:
  "isl map_obj \<or> isl gx \<or> isl gy \<or> isl hxx \<or> isl hyy \<or> isl hxy \<or> isl t \<Longrightarrow>
   returned (topology_minkowski mf (Inr (map_obj, mask_obj, gx, gy, hxx, hyy, hxy, t, sigma)) s) = None"
  by (cases map_obj; cases gx; cases gy; cases hxx; cases hyy; cases hxy; cases t;
      simp add: topology_minkowski_def PyArray_FROM_OTF_def new_ref_def Let_def)

lemma minkowski_unconverted_mask:
  "returned (topology_minkowski mf (Inr (Inr m, Obj (Inl e), Inr gx, Inr gy, Inr hxx, Inr hyy, Inr hxy, Inr t, sigma)) s) = None"
  by (simp add: topology_minkowski_def eval_defs)

lemma minkowski_no_dims:
  "shape m = [] \<or> shape t = [] \<Longrightarrow>
   returned (topology_minkowski mf (Inr (Inr m, map_pyarg Inr mko, Inr gx, Inr gy, Inr hxx, Inr hyy, Inr hxy, Inr t, sigma)) s) = None"
  by (cases mko) (auto simp: topology_minkowski_def eval_defs)

lemma minkowski_returned_inv:
  assumes "returned (topology_minkowski mf args s) = Some v"
  obtains d0 dm md mko gx gy hxx hyy hxy n0 dt td sigma where
    "args = Inr (Inr \<lparr>shape = d0 # dm, data = md\<rparr>, map_pyarg Inr mko, Inr gx, Inr gy, Inr hxx, Inr hyy, Inr hxy,
                  Inr \<lparr>shape = n0 # dt, data = td\<rparr>, sigma)"
proof (cases args)
  case (Inl e)
  with assms show ?thesis by (simp add: topology_minkowski_def)
next
  case args: (Inr a)
  obtain map_obj mask_obj gxo gyo hxxo hyyo hxyo thresholds_obj sigma
    where a: "a = (map_obj, mask_obj, gxo, gyo, hxxo, hyyo, hxyo, thresholds_obj, sigma)"
    by (rule prod_cases9)
  from assms args a minkowski_unconverted [of map_obj gxo gyo hxxo hyyo hxyo thresholds_obj mf mask_obj sigma s]
  have conv: "\<not> isl map_obj" "\<not> isl gxo" "\<not> isl gyo" "\<not> isl hxxo" "\<not> isl hyyo" "\<not> isl hxyo"
    "\<not> isl thresholds_obj"
    by auto
  obtain m where m: "map_obj = Inr m" using conv(1) not_isl_Inr by blast
  obtain gx where gx: "gxo = Inr gx" using conv(2) not_isl_Inr by blast
  obtain gy where gy: "gyo = Inr gy" using conv(3) not_isl_Inr by blast
  obtain hxx where hxx: "hxxo = Inr hxx" using conv(4) not_isl_Inr by blast
  obtain hyy where hyy: "hyyo = Inr hyy" using conv(5) not_isl_Inr by blast
  obtain hxy where hxy: "hxyo = Inr hxy" using conv(6) not_isl_Inr by blast
  obtain t where t: "thresholds_obj = Inr t" using conv(7) not_isl_Inr by blast
  from assms args a m gx gy hxx hyy hxy t minkowski_unconverted_mask [of mf m _ gx gy hxx hyy hxy t sigma s]
  have "\<not> (\<exists>e. mask_obj = Obj (Inl e))" by auto
  then obtain mko where mko: "mask_obj = map_pyarg Inr mko"
    by (cases mask_obj rule: pyarg_conv_cases) auto
  note conv' = m gx gy hxx hyy hxy t mko
  from assms args a conv' minkowski_no_dims [of m t mf mko gx gy hxx hyy hxy sigma s]
  have "shape m \<noteq> []" "shape t \<noteq> []" by auto
  then obtain d0 dm md n0 dt td where "m = \<lparr>shape = d0 # dm, data = md\<rparr>" "t = \<lparr>shape = n0 # dt, data = td\<rparr>"
    by (cases m rule: ndarray_shape_cases; cases t rule: ndarray_shape_cases) auto
  with args a conv' show ?thesis using that by blast
qed

lemma gradient_returned_inv:
  assumes "returned (topology_gradient gradient_xy args s) = Some v"
  obtains d0 dm md where "args = Inr (Inr \<lparr>shape = d0 # dm, data = md\<rparr>)"
proof (cases args)
  case (Inl e)
  with assms show ?thesis by (simp add: topology_gradient_def)
next
  case args: (Inr map_obj)
  show ?thesis
  proof (cases map_obj)
    case (Inl e)
    with assms args show ?thesis by (simp add: topology_gradient_def eval_defs)
  next
    case (Inr m)
    show ?thesis
    proof (cases m rule: ndarray_shape_cases)
      case (1 d)
      with assms args Inr show ?thesis by (simp add: topology_gradient_def eval_defs)
    next
      case (2 n sh d)
      with args Inr show ?thesis using that by blast
    qed
  qed
qed

lemma hessian_returned_inv:
  assumes "returned (topology_hessian hessian args s) = Some v"
  obtains d0 dm md where "args = Inr (Inr \<lparr>shape = d0 # dm, data = md\<rparr>)"
proof (cases args)
  case (Inl e)
  with assms show ?thesis by (simp add: topology_hessian_def)
next
  case args: (Inr map_obj)
  show ?thesis
  proof (cases map_obj)
    case (Inl e)
    with assms args show ?thesis by (simp add: topology_hessian_def eval_defs)
  next
    case (Inr m)
    show ?thesis
    proof (cases m rule: ndarray_shape_cases)
      case (1 d)
      with assms args Inr show ?thesis by (simp add: topology_hessian_def eval_defs)
    next
      case (2 n sh d)
      with args Inr show ?thesis using that by blast
    qed
  qed
qed

lemma rfft2_unconverted:
  "isl ft1 \<or> isl ft2 \<or> isl lv \<Longrightarrow>
   returned (topology_rfft2_azimuthal k (Inr (ft1, ft2, angle, lv)) s) = None"
  by (cases ft1; cases ft2; cases lv) (auto simp: topology_rfft2_azimuthal_def eval_defs)

lemma rfft2_no_dims:
  "length (shape f1) < 2 \<or> shape lv = [] \<Longrightarrow>
   returned (topology_rfft2_azimuthal k (Inr (Inr f1, Inr f2, angle, Inr lv)) s) = None"
  by (auto simp: topology_rfft2_azimuthal_def eval_defs)

lemma rfft2_returned_inv:
  assumes "returned (topology_rfft2_azimuthal k args s) = Some v"
  obtains d0 d1 dm f1 ft2 angle n0 dt lv where
    "args = Inr (Inr \<lparr>shape = d0 # d1 # dm, data = f1\<rparr>, Inr ft2, angle, Inr \<lparr>shape = n0 # dt, data = lv\<rparr>)"
proof (cases args)
  case (Inl e)
  with assms show ?thesis by (simp add: topology_rfft2_azimuthal_def)
next
  case args: (Inr a)
  obtain o1 o2 angle o3 where a: "a = (o1, o2, angle, o3)" by (cases a)
  from assms args a rfft2_unconverted [of o1 o2 o3 k angle s]
  have conv: "\<not> isl o1" "\<not> isl o2" "\<not> isl o3" by auto
  obtain a1 where a1: "o1 = Inr a1" using conv(1) not_isl_Inr by blast
  obtain a2 where a2: "o2 = Inr a2" using conv(2) not_isl_Inr by blast
  obtain a3 where a3: "o3 = Inr a3" using conv(3) not_isl_Inr by blast
  from assms args a a1 a2 a3 rfft2_no_dims [of a1 a3 k a2 angle s]
  have "\<not> length (shape a1) < 2" "shape a3 \<noteq> []" by auto
  then obtain d0 d1 dm n0 dt where sh: "shape a1 = d0 # d1 # dm" "shape a3 = n0 # dt"
    by (cases "shape a1"; cases "tl (shape a1)"; cases "shape a3") auto
  then have "a1 = \<lparr>shape = d0 # d1 # dm, data = data a1\<rparr>" "a3 = \<lparr>shape = n0 # dt, data = data a3\<rparr>"
    by simp_all
  with args a a1 a2 a3 show ?thesis using that by blast
qed

lemma rfft3_unconverted:
  "isl ft1 \<or> isl ft2 \<or> isl kv \<Longrightarrow>
   returned (topology_rfft3_azimuthal k (Inr (ft1, ft2, kx, ky, kz, kv)) s) = None"
  by (cases ft1; cases ft2; cases kv) (auto simp: topology_rfft3_azimuthal_def eval_defs)

lemma rfft3_no_dims:
  "length (shape f1) < 3 \<or> shape kv = [] \<Longrightarrow>
   returned (topology_rfft3_azimuthal k (Inr (Inr f1, Inr f2, kx, ky, kz, Inr kv)) s) = None"
  by (auto simp: topology_rfft3_azimuthal_def eval_defs)

lemma rfft3_returned_inv:
  assumes "returned (topology_rfft3_azimuthal k args s) = Some v"
  obtains d0 d1 d2 dm f1 ft2 kx ky kz n0 dt kv where
    "args = Inr (Inr \<lparr>shape = d0 # d1 # d2 # dm, data = f1\<rparr>, Inr ft2, kx, ky, kz,
                  Inr \<lparr>shape = n0 # dt, data = kv\<rparr>)"
proof (cases args)
  case (Inl e)
  with assms show ?thesis by (simp add: topology_rfft3_azimuthal_def)
next
  case args: (Inr a)
  obtain o1 o2 kx ky kz o3 where a: "a = (o1, o2, kx, ky, kz, o3)" by (cases a)
  from assms args a rfft3_unconverted [of o1 o2 o3 k kx ky kz s]
  have conv: "\<not> isl o1" "\<not> isl o2" "\<not> isl o3" by auto
  obtain a1 where a1: "o1 = Inr a1" using conv(1) not_isl_Inr by blast
  obtain a2 where a2: "o2 = Inr a2" using conv(2) not_isl_Inr by blast
  obtain a3 where a3: "o3 = Inr a3" using conv(3) not_isl_Inr by blast
  from assms args a a1 a2 a3 rfft3_no_dims [of a1 a3 k a2 kx ky kz s]
  have "\<not> length (shape a1) < 3" "shape a3 \<noteq> []" by auto
  then obtain d0 d1 d2 dm n0 dt where sh: "shape a1 = d0 # d1 # d2 # dm" "shape a3 = n0 # dt"
    by (cases "shape a1"; cases "tl (shape a1)"; cases "tl (tl (shape a1))"; cases "shape a3") auto
  then have "a1 = \<lparr>shape = d0 # d1 # d2 # dm, data = data a1\<rparr>" "a3 = \<lparr>shape = n0 # dt, data = data a3\<rparr>"
    by simp_all
  with args a a1 a2 a3 show ?thesis using that by blast
qed

subsection \<open>The shapes of the returned vectors\<close>

lemma c_int_nat: "N < 2 ^ 31 \<Longrightarrow> c_int (int N) = int N"
  by (simp add: c_int_id)

lemma vectors_simps [simp]:
  "vectors (Vector a) = [a]"
  "vectors (Vectors []) = []"
  "vectors (Vectors (Some a # xs)) = a # vectors (Vectors xs)"
  "vectors (Vectors (None # xs)) = vectors (Vectors xs)"
  by (simp_all add: vectors_def)

lemma shape_of_simps [simp]:
  "shape_of (DoubleArray x) = shape x"
  "shape_of (LongArray y) = shape y"
  by (simp_all add: shape_of_def)

lemma peakCount_shapes:
  assumes "returned (topology_peakCount peak_count
             (Inr (map_obj, mask_obj, Inr \<lparr>shape = N # sh, data = td\<rparr>, sigma)) s) = Some v"
  shows "map shape_of (vectors v) = [[nat (c_int (int N) - 1)]]"
proof -
  from assms obtain d0 dm md mko where
    "map_obj = Inr \<lparr>shape = d0 # dm, data = md\<rparr>" "mask_obj = map_pyarg Inr mko"
    by (auto elim!: peakCount_returned_inv)
  with assms show ?thesis
    by (auto simp: peakCount_returned split: if_splits)
qed

lemma minkowski_shapes:
  assumes "returned (topology_minkowski mf
             (Inr (map_obj, mask_obj, gx, gy, hxx, hyy, hxy, Inr \<lparr>shape = N # sh, data = td\<rparr>, sigma)) s) = Some v"
  shows "map shape_of (vectors v) = replicate 3 [nat (c_int (int N) - 1)]"
proof -
  from assms obtain d0 dm md mko gx' gy' hxx' hyy' hxy' where
    "map_obj = Inr \<lparr>shape = d0 # dm, data = md\<rparr>" "mask_obj = map_pyarg Inr mko"
    "gx = Inr gx'" "gy = Inr gy'" "hxx = Inr hxx'" "hyy = Inr hyy'" "hxy = Inr hxy'"
    by (auto elim!: minkowski_returned_inv)
  with assms show ?thesis
    by (auto simp: minkowski_returned Let_def case_prod_unfold numeral_3_eq_3 split: if_splits)
qed

lemma rfft2_shapes:
  assumes "returned (topology_rfft2_azimuthal k
             (Inr (ft1, ft2, angle, Inr \<lparr>shape = N # sh, data = td\<rparr>)) s) = Some v"
  shows "map shape_of (vectors v) = [[nat (c_int (int N) - 1)]]"
proof -
  from assms obtain d0 d1 dm f1 a2 where
    "ft1 = Inr \<lparr>shape = d0 # d1 # dm, data = f1\<rparr>" "ft2 = Inr a2"
    by (auto elim!: rfft2_returned_inv)
  with assms show ?thesis
    by (auto simp: rfft2_returned Let_def case_prod_unfold split: if_splits)
qed

lemma rfft3_shapes:
  assumes "returned (topology_rfft3_azimuthal k
             (Inr (ft1, ft2, kx, ky, kz, Inr \<lparr>shape = N # sh, data = td\<rparr>)) s) = Some v"
  shows "map shape_of (vectors v) = replicate 2 [nat (c_int (int N) - 1)]"
proof -
  from assms obtain d0 d1 d2 dm f1 a2 where
    "ft1 = Inr \<lparr>shape = d0 # d1 # d2 # dm, data = f1\<rparr>" "ft2 = Inr a2"
    by (auto elim!: rfft3_returned_inv)
  with assms show ?thesis
    by (auto simp: rfft3_returned Let_def case_prod_unfold numeral_2_eq_2 split: if_splits)
qed

subsection \<open>The state an entry point leaves\<close>

lemma run_simps [simp]:
  "run [] s = s"
  "run (f # fs) s = run fs (f s)"
  "run (fs @ gs) s = run gs (run fs s)"
  by (simp_all add: run_def)

lemma Py_DECREF_fields [simp]:
  "err_indicator (Py_DECREF r s) = err_indicator s"
  "allocs (Py_DECREF r s) = allocs s"
  "junk (Py_DECREF r s) = junk s"
  "length (refcnt (Py_DECREF r s)) = length (refcnt s)"
  by (simp_all add: Py_DECREF_def)

lemma run_XDECREF_fields [simp]:
  "err_indicator (run (map Py_XDECREF its) s) = err_indicator s"
  "allocs (run (map Py_XDECREF its) s) = allocs s"
  "junk (run (map Py_XDECREF its) s) = junk s"
  by (induction its arbitrary: s; simp split: option.splits add: Py_XDECREF_def)+

lemma Py_DECREF_tuple_fields [simp]:
  "err_indicator (Py_DECREF_tuple t s) = err_indicator s"
  "allocs (Py_DECREF_tuple t s) = allocs s"
  "junk (Py_DECREF_tuple t s) = junk s"
  by (simp_all add: Py_DECREF_tuple_def Let_def)

lemmas outcome_defs = eval_defs Py_DECREF_def

lemma replicate_2: "replicate 2 x = [x, x]"
  by (simp add: numeral_2_eq_2)

text \<open>Dimensions within the range of \<^verbatim>\<open>int\<close>, and sides of squares that numpy allocates.\<close>

lemma int_args:
  assumes "1 \<le> N" "N < 2 ^ 31"
  shows "c_int (int N) = int N" "nat (int N - 1) = N - 1" "1 \<le> int N" "\<not> 1152921504606846976 < N"
  using assms by (simp_all add: c_int_nat nat_diff_distrib)

lemma side_args:
  assumes "n < 2 ^ 30"
  shows "c_int (int n) = int n" "nat (int n * int n) = n * n" "int n < 1073741824"
proof -
  from assms have "n < 2 ^ 31" by simp
  then show "c_int (int n) = int n" by (rule c_int_nat)
  show "nat (int n * int n) = n * n" by (simp add: nat_mult_distrib)
  from assms show "int n < 1073741824" by simp
qed

section \<open>The claims\<close>

subsection \<open>C1: the length of the statistic vectors\<close>

text \<open>
  C1, as amended. For a thresholds, lvalues or kvalues array whose first dimension \<open>N\<close> is at
  most \<open>2^31 - 1\<close>, every statistic vector that \<^verbatim>\<open>peakCount\<close>, \<^verbatim>\<open>minkowski\<close>,
  \<^verbatim>\<open>rfft2_azimuthal\<close> or \<^verbatim>\<open>rfft3_azimuthal\<close> returns has length exactly \<open>N - 1\<close>: the peak counts;
  \<open>V0\<close>, \<open>V1\<close> and \<open>V2\<close>; the power; the hits and the power. (Nothing is returned for \<open>N = 0\<close>.)
\<close>

theorem C1_output_length:
  "(N < 2 ^ 31 \<and>
    returned (topology_peakCount peak_count
      (Inr (map_obj, mask_obj, Inr \<lparr>shape = N # sh, data = td\<rparr>, sigma)) s) = Some v
    \<longrightarrow> map shape_of (vectors v) = [[N - 1]])
   \<and> (N < 2 ^ 31 \<and>
    returned (topology_minkowski minkowski_functionals
      (Inr (map_obj, mask_obj, grad_x_obj, grad_y_obj, hess_xx_obj, hess_yy_obj, hess_xy_obj,
             Inr \<lparr>shape = N # sh, data = td\<rparr>, sigma)) s) = Some v
    \<longrightarrow> map shape_of (vectors v) = [[N - 1], [N - 1], [N - 1]])
   \<and> (N < 2 ^ 31 \<and>
    returned (topology_rfft2_azimuthal azimuthal_rfft2
      (Inr (ft_map1_obj, ft_map2_obj, map_angle_degrees, Inr \<lparr>shape = N # sh, data = td\<rparr>)) s) = Some v
    \<longrightarrow> map shape_of (vectors v) = [[N - 1]])
   \<and> (N < 2 ^ 31 \<and>
    returned (topology_rfft3_azimuthal azimuthal_rfft3
      (Inr (ft_map1_obj, ft_map2_obj, kpixX, kpixY, kpixZ, Inr \<lparr>shape = N # sh, data = td\<rparr>)) s) = Some v
    \<longrightarrow> map shape_of (vectors v) = [[N - 1], [N - 1]])"
proof -
  have n: "nat (c_int (int N) - 1) = N - 1" if "N < 2 ^ 31"
    using that by (simp add: c_int_nat nat_diff_distrib)
  show ?thesis
    using peakCount_shapes [of peak_count map_obj mask_obj N sh td sigma s v]
      minkowski_shapes [of minkowski_functionals map_obj mask_obj grad_x_obj grad_y_obj hess_xx_obj
        hess_yy_obj hess_xy_obj N sh td sigma s v]
      rfft2_shapes [of azimuthal_rfft2 ft_map1_obj ft_map2_obj map_angle_degrees N sh td s v]
      rfft3_shapes [of azimuthal_rfft3 ft_map1_obj ft_map2_obj kpixX kpixY kpixZ N sh td s v]
    by (simp add: n numeral_3_eq_3 numeral_2_eq_2)
qed

text \<open>The four entry points on three bin edges: each returned vector has length two.\<close>

theorem C1_output_length_witness:
  "returned (topology_peakCount (\<lambda>mem m mp n sg nt t out. out)
        (Inr (Inr \<lparr>shape = [2, 2], data = [0, 0, 0, 0]\<rparr>, Py_None, Inr \<lparr>shape = [3], data = [1, 2, 3]\<rparr>, 1))
        \<lparr>err_indicator = None, refcnt = [], allocs = [], junk = (\<lambda>h i. 0)\<rparr>)
       = Some (Vector (DoubleArray \<lparr>shape = [2], data = [0, 0 :: real]\<rparr>))
   \<and> map shape_of (vectors (Vector (DoubleArray \<lparr>shape = [2], data = [0, 0 :: real]\<rparr>))) = [[3 - 1]]
   \<and> returned (topology_minkowski (\<lambda>mem m mp n sg gx gy hxx hyy hxy nt t v0 v1 v2. (v0, v1, v2))
        (Inr (Inr \<lparr>shape = [1, 1], data = [5]\<rparr>, Py_None, Inr \<lparr>shape = [1, 1], data = [0]\<rparr>,
               Inr \<lparr>shape = [1, 1], data = [0]\<rparr>, Inr \<lparr>shape = [1, 1], data = [0]\<rparr>,
               Inr \<lparr>shape = [1, 1], data = [0]\<rparr>, Inr \<lparr>shape = [1, 1], data = [0]\<rparr>,
               Inr \<lparr>shape = [3], data = [1, 2, 3]\<rparr>, 1))
        \<lparr>err_indicator = None, refcnt = [], allocs = [], junk = (\<lambda>h i. 0)\<rparr>)
       = Some (Vectors [Some (DoubleArray \<lparr>shape = [2], data = [0, 0 :: real]\<rparr>),
                        Some (DoubleArray \<lparr>shape = [2], data = [0, 0]\<rparr>),
                        Some (DoubleArray \<lparr>shape = [2], data = [0, 0]\<rparr>)])
   \<and> returned (topology_rfft2_azimuthal (\<lambda>mem f1 f2 nx ny ang nv lv pw. (0, pw))
        (Inr (Inr \<lparr>shape = [1, 1], data = [0 :: complex]\<rparr>, Inr \<lparr>shape = [1, 1], data = [0]\<rparr>, 1,
               Inr \<lparr>shape = [3], data = [1, 2, 3]\<rparr>))
        \<lparr>err_indicator = None, refcnt = [], allocs = [], junk = (\<lambda>h i. 0)\<rparr>)
       = Some (Vector (DoubleArray \<lparr>shape = [2], data = [0, 0 :: real]\<rparr>))
   \<and> returned (topology_rfft3_azimuthal (\<lambda>mem f1 f2 nx ny nz kx ky kz nv kv pw hits. (0, pw, hits))
        (Inr (Inr \<lparr>shape = [1, 1, 1], data = [0 :: complex]\<rparr>, Inr \<lparr>shape = [1, 1, 1], data = [0]\<rparr>, 1, 1, 1,
               Inr \<lparr>shape = [3], data = [1, 2, 3]\<rparr>))
        \<lparr>err_indicator = None, refcnt = [], allocs = [], junk = (\<lambda>h i. 0)\<rparr>)
       = Some (Vectors [Some (LongArray \<lparr>shape = [2], data = [0, 0]\<rparr>),
                        Some (DoubleArray \<lparr>shape = [2], data = [0, 0 :: real]\<rparr>)])
   \<and> map shape_of (vectors (Vectors [Some (LongArray \<lparr>shape = [2], data = [0, 0]\<rparr>),
                        Some (DoubleArray \<lparr>shape = [2], data = [0, 0 :: real]\<rparr>)])) = [[3 - 1], [3 - 1]]"
proof -
  let ?s = "\<lparr>err_indicator = None, refcnt = [], allocs = [], junk = (\<lambda>h i. 0 :: real)\<rparr>"
  let ?v1 = "Vector (DoubleArray \<lparr>shape = [2], data = [0, 0 :: real]\<rparr>)"
  let ?v2 = "Vectors [Some (DoubleArray \<lparr>shape = [2], data = [0, 0 :: real]\<rparr>),
                        Some (DoubleArray \<lparr>shape = [2], data = [0, 0]\<rparr>),
                        Some (DoubleArray \<lparr>shape = [2], data = [0, 0]\<rparr>)]"
  let ?v4 = "Vectors [Some (LongArray \<lparr>shape = [2], data = [0, 0]\<rparr>),
                        Some (DoubleArray \<lparr>shape = [2], data = [0, 0 :: real]\<rparr>)]"
  have c: "c_int 3 = 3" "c_int 1 = 1" "c_int 2 = 2" by (simp_all add: c_int_def)
  have n: "replicate 2 x = [x, x]" for x :: 'z by (simp add: numeral_2_eq_2)
  have r1: "returned (topology_peakCount (\<lambda>mem m mp n sg nt t out. out)
        (Inr (Inr \<lparr>shape = [2, 2], data = [0, 0, 0, 0]\<rparr>, Py_None, Inr \<lparr>shape = [3], data = [1, 2, 3]\<rparr>, 1)) ?s)
       = Some ?v1"
    using peakCount_returned [where mko = Py_None and s = ?s, simplified]
    by (simp add: c n next_allocs_ok_def)
  have r2: "returned (topology_minkowski (\<lambda>mem m mp n sg gx gy hxx hyy hxy nt t v0 v1 v2. (v0, v1, v2))
        (Inr (Inr \<lparr>shape = [1, 1], data = [5]\<rparr>, Py_None, Inr \<lparr>shape = [1, 1], data = [0]\<rparr>,
               Inr \<lparr>shape = [1, 1], data = [0]\<rparr>, Inr \<lparr>shape = [1, 1], data = [0]\<rparr>,
               Inr \<lparr>shape = [1, 1], data = [0]\<rparr>, Inr \<lparr>shape = [1, 1], data = [0]\<rparr>,
               Inr \<lparr>shape = [3], data = [1, 2, 3]\<rparr>, 1)) ?s)
       = Some ?v2"
    using minkowski_returned [where mko = Py_None and s = ?s, simplified]
    by (simp add: c n next_allocs_ok_def)
  have r3: "returned (topology_rfft2_azimuthal (\<lambda>mem f1 f2 nx ny ang nv lv pw. (0, pw))
        (Inr (Inr \<lparr>shape = [1, 1], data = [0 :: complex]\<rparr>, Inr \<lparr>shape = [1, 1], data = [0]\<rparr>, 1,
               Inr \<lparr>shape = [3], data = [1, 2, 3]\<rparr>)) ?s)
       = Some ?v1"
    by (simp add: rfft2_returned c n next_allocs_ok_def)
  have r4: "returned (topology_rfft3_azimuthal (\<lambda>mem f1 f2 nx ny nz kx ky kz nv kv pw hits. (0, pw, hits))
        (Inr (Inr \<lparr>shape = [1, 1, 1], data = [0 :: complex]\<rparr>, Inr \<lparr>shape = [1, 1, 1], data = [0]\<rparr>, 1, 1, 1,
               Inr \<lparr>shape = [3], data = [1, 2, 3]\<rparr>)) ?s)
       = Some ?v4"
    by (simp add: rfft3_returned c n next_allocs_ok_def)
  have b: "(3 :: nat) < 2 ^ 31" by simp
  note t = C1_output_length [where N = 3 and sh = "[]" and td = "[1, 2, 3 :: real]" and s = ?s]
  from t [where v = ?v1, THEN conjunct1] r1 b
  have s1: "map shape_of (vectors ?v1) = [[3 - 1]]" by blast
  from t [where v = ?v4, THEN conjunct2, THEN conjunct2, THEN conjunct2] r4 b
  have s4: "map shape_of (vectors ?v4) = [[3 - 1], [3 - 1]]" by blast
  from r1 r2 r3 r4 s1 s4 show ?thesis by blast
qed

text \<open>
  The claim as stated, for every \<open>N\<close>, fails past the range of \<^verbatim>\<open>int\<close>: the entry points
  convert the dimension with \<^verbatim>\<open>(int)\<close>, so a thresholds array of \<open>2^32 + 2\<close> edges is taken
  for one of two edges and the vector returned has length one.
\<close>

theorem C1_counterexample:
  "returned (topology_peakCount (\<lambda>mem m mp n sg nt t out. out)
        (Inr (Inr \<lparr>shape = [2, 2], data = [0, 0, 0, 0]\<rparr>, Py_None,
               Inr \<lparr>shape = [4294967298], data = replicate 4294967298 0\<rparr>, 1))
        \<lparr>err_indicator = None, refcnt = [], allocs = [], junk = (\<lambda>h i. 0)\<rparr>)
     = Some (Vector (DoubleArray \<lparr>shape = [1], data = [0 :: real]\<rparr>))
   \<and> length (replicate 4294967298 (0 :: real)) = 4294967298
   \<and> (1 :: nat) \<noteq> 4294967298 - 1"
  using peakCount_returned [where mko = Py_None and 'a = real, simplified]
  by (simp add: c_int_def next_allocs_ok_def)

subsection \<open>C5: what \<^verbatim>\<open>rfft3_azimuthal\<close> returns\<close>






subsection \<open>C7: the output vectors start from zero\<close>

lemma peakCount_result:
  assumes "returned (topology_peakCount peak_count args s) = Some v"
  shows "\<exists>mem md mp Nside sigma Nthreshold td n.
           v = Vector (DoubleArray \<lparr>shape = [n],
                 data = peak_count mem md mp Nside sigma Nthreshold td (replicate n 0)\<rparr>)"
proof -
  from assms obtain d0 dm md mko n0 dt td sigma where
    "args = Inr (Inr \<lparr>shape = d0 # dm, data = md\<rparr>, map_pyarg Inr mko, Inr \<lparr>shape = n0 # dt, data = td\<rparr>, sigma)"
    by (rule peakCount_returned_inv)
  with assms have "v = Vector (DoubleArray
           \<lparr>shape = [nat (c_int (int n0) - 1)],
            data = peak_count (junk s) md (case mko of Py_None \<Rightarrow> None | Obj mk \<Rightarrow> Some (data mk)) (c_int (int d0)) sigma
                     (c_int (int n0)) td (replicate (nat (c_int (int n0) - 1)) 0)\<rparr>)"
    by (auto simp: peakCount_returned split: if_splits)
  then show ?thesis by blast
qed

lemma minkowski_result:
  assumes "returned (topology_minkowski mf args s) = Some v"
  shows "\<exists>mem md mp Nside sigma gx gy hxx hyy hxy Nthreshold td n.
           v = Vectors
             [Some (DoubleArray \<lparr>shape = [n],
                data = fst (mf mem md mp Nside sigma gx gy hxx hyy hxy Nthreshold td
                              (replicate n 0) (replicate n 0) (replicate n 0))\<rparr>),
              Some (DoubleArray \<lparr>shape = [n],
                data = fst (snd (mf mem md mp Nside sigma gx gy hxx hyy hxy Nthreshold td
                              (replicate n 0) (replicate n 0) (replicate n 0)))\<rparr>),
              Some (DoubleArray \<lparr>shape = [n],
                data = snd (snd (mf mem md mp Nside sigma gx gy hxx hyy hxy Nthreshold td
                              (replicate n 0) (replicate n 0) (replicate n 0)))\<rparr>)]"
proof -
  from assms obtain d0 dm md mko gx gy hxx hyy hxy n0 dt td sigma where
    "args = Inr (Inr \<lparr>shape = d0 # dm, data = md\<rparr>, map_pyarg Inr mko, Inr gx, Inr gy, Inr hxx, Inr hyy, Inr hxy,
                  Inr \<lparr>shape = n0 # dt, data = td\<rparr>, sigma)"
    by (rule minkowski_returned_inv)
  with assms show ?thesis
    by (simp add: minkowski_returned Let_def case_prod_unfold split: if_splits) blast
qed

lemma rfft2_result:
  assumes "returned (topology_rfft2_azimuthal azimuthal_rfft2 args s) = Some v"
  shows "\<exists>mem f1 f2 Nside_x Nside_y angle Nvalues lv n.
           v = Vector (DoubleArray \<lparr>shape = [n],
                 data = snd (azimuthal_rfft2 mem f1 f2 Nside_x Nside_y angle Nvalues lv (replicate n 0))\<rparr>)"
proof -
  from assms obtain d0 d1 dm f1 ft2 angle n0 dt lv where
    "args = Inr (Inr \<lparr>shape = d0 # d1 # dm, data = f1\<rparr>, Inr ft2, angle, Inr \<lparr>shape = n0 # dt, data = lv\<rparr>)"
    by (rule rfft2_returned_inv)
  with assms show ?thesis
    by (simp add: rfft2_returned Let_def case_prod_unfold split: if_splits) blast
qed

lemma rfft3_result_zeros:
  assumes "returned (topology_rfft3_azimuthal azimuthal_rfft3 args s) = Some v"
  shows "\<exists>mem f1 f2 Nside_x Nside_y Nside_z kx ky kz Nvalues kv n.
           v = Vectors
             [Some (LongArray \<lparr>shape = [n],
                data = snd (snd (azimuthal_rfft3 mem f1 f2 Nside_x Nside_y Nside_z kx ky kz Nvalues kv
                                   (replicate n 0) (replicate n 0)))\<rparr>),
              Some (DoubleArray \<lparr>shape = [n],
                data = fst (snd (azimuthal_rfft3 mem f1 f2 Nside_x Nside_y Nside_z kx ky kz Nvalues kv
                                   (replicate n 0) (replicate n 0)))\<rparr>)]"
proof -
  from assms obtain d0 d1 d2 dm f1 ft2 kx ky kz n0 dt kv where
    "args = Inr (Inr \<lparr>shape = d0 # d1 # d2 # dm, data = f1\<rparr>, Inr ft2, kx, ky, kz,
                  Inr \<lparr>shape = n0 # dt, data = kv\<rparr>)"
    by (rule rfft3_returned_inv)
  with assms show ?thesis
    by (simp add: rfft3_returned Let_def case_prod_unfold split: if_splits) blast
qed

text \<open>
  C7. Every statistic vector that \<^verbatim>\<open>peakCount\<close>, \<^verbatim>\<open>minkowski\<close>, \<^verbatim>\<open>rfft2_azimuthal\<close> or
  \<^verbatim>\<open>rfft3_azimuthal\<close> returns is the buffer its kernel was handed filled with zeros
  (\<^verbatim>\<open>PyArray_ZEROS\<close>), as the kernel left it. So a bin that the kernel leaves as it
  finds it (a bin that receives no contribution) holds exactly zero in the returned
  vector.
\<close>

theorem C7_zero_initialised:
  "(returned (topology_peakCount peak_count args1 s) = Some v1 \<longrightarrow>
      (\<exists>mem md mp Nside sigma Nthreshold td n out.
         out = peak_count mem md mp Nside sigma Nthreshold td (replicate n 0) \<and>
         v1 = Vector (DoubleArray \<lparr>shape = [n], data = out\<rparr>) \<and>
         (\<forall>k<n. (\<forall>buf. length buf = n \<longrightarrow> peak_count mem md mp Nside sigma Nthreshold td buf ! k = buf ! k)
                 \<longrightarrow> out ! k = 0)))
   \<and> (returned (topology_minkowski minkowski_functionals args2 s) = Some v2 \<longrightarrow>
      (\<exists>mem md mp Nside sigma gx gy hxx hyy hxy Nthreshold td n out.
         out = minkowski_functionals mem md mp Nside sigma gx gy hxx hyy hxy Nthreshold td
                 (replicate n 0) (replicate n 0) (replicate n 0) \<and>
         v2 = Vectors [Some (DoubleArray \<lparr>shape = [n], data = fst out\<rparr>),
                      Some (DoubleArray \<lparr>shape = [n], data = fst (snd out)\<rparr>),
                      Some (DoubleArray \<lparr>shape = [n], data = snd (snd out)\<rparr>)] \<and>
         (\<forall>k<n. (\<forall>b0 b1 b2. length b0 = n \<longrightarrow>
                     fst (minkowski_functionals mem md mp Nside sigma gx gy hxx hyy hxy Nthreshold td b0 b1 b2) ! k = b0 ! k)
                 \<longrightarrow> fst out ! k = 0) \<and>
         (\<forall>k<n. (\<forall>b0 b1 b2. length b1 = n \<longrightarrow>
                     fst (snd (minkowski_functionals mem md mp Nside sigma gx gy hxx hyy hxy Nthreshold td b0 b1 b2)) ! k = b1 ! k)
                 \<longrightarrow> fst (snd out) ! k = 0) \<and>
         (\<forall>k<n. (\<forall>b0 b1 b2. length b2 = n \<longrightarrow>
                     snd (snd (minkowski_functionals mem md mp Nside sigma gx gy hxx hyy hxy Nthreshold td b0 b1 b2)) ! k = b2 ! k)
                 \<longrightarrow> snd (snd out) ! k = 0)))
   \<and> (returned (topology_rfft2_azimuthal azimuthal_rfft2 args3 s) = Some v3 \<longrightarrow>
      (\<exists>mem f1 f2 Nside_x Nside_y angle Nvalues lv n out.
         out = snd (azimuthal_rfft2 mem f1 f2 Nside_x Nside_y angle Nvalues lv (replicate n 0)) \<and>
         v3 = Vector (DoubleArray \<lparr>shape = [n], data = out\<rparr>) \<and>
         (\<forall>k<n. (\<forall>buf. length buf = n \<longrightarrow>
                     snd (azimuthal_rfft2 mem f1 f2 Nside_x Nside_y angle Nvalues lv buf) ! k = buf ! k)
                 \<longrightarrow> out ! k = 0)))
   \<and> (returned (topology_rfft3_azimuthal azimuthal_rfft3 args4 s) = Some v4 \<longrightarrow>
      (\<exists>mem f1 f2 Nside_x Nside_y Nside_z kx ky kz Nvalues kv n out.
         out = snd (azimuthal_rfft3 mem f1 f2 Nside_x Nside_y Nside_z kx ky kz Nvalues kv
                      (replicate n 0) (replicate n 0)) \<and>
         v4 = Vectors [Some (LongArray \<lparr>shape = [n], data = snd out\<rparr>),
                      Some (DoubleArray \<lparr>shape = [n], data = fst out\<rparr>)] \<and>
         (\<forall>k<n. (\<forall>pw hits. length pw = n \<longrightarrow>
                     fst (snd (azimuthal_rfft3 mem f1 f2 Nside_x Nside_y Nside_z kx ky kz Nvalues kv pw hits)) ! k = pw ! k)
                 \<longrightarrow> fst out ! k = 0) \<and>
         (\<forall>k<n. (\<forall>pw hits. length hits = n \<longrightarrow>
                     snd (snd (azimuthal_rfft3 mem f1 f2 Nside_x Nside_y Nside_z kx ky kz Nvalues kv pw hits)) ! k = hits ! k)
                 \<longrightarrow> snd out ! k = 0)))"
proof (intro conjI impI)
  assume "returned (topology_peakCount peak_count args1 s) = Some v1"
  from peakCount_result [OF this] show "(\<exists>mem md mp Nside sigma Nthreshold td n out.
         out = peak_count mem md mp Nside sigma Nthreshold td (replicate n 0) \<and>
         v1 = Vector (DoubleArray \<lparr>shape = [n], data = out\<rparr>) \<and>
         (\<forall>k<n. (\<forall>buf. length buf = n \<longrightarrow> peak_count mem md mp Nside sigma Nthreshold td buf ! k = buf ! k)
                 \<longrightarrow> out ! k = 0))"
    by (elim exE) (intro exI conjI, rule refl, assumption, simp)
next
  assume "returned (topology_minkowski minkowski_functionals args2 s) = Some v2"
  from minkowski_result [OF this] show "(\<exists>mem md mp Nside sigma gx gy hxx hyy hxy Nthreshold td n out.
         out = minkowski_functionals mem md mp Nside sigma gx gy hxx hyy hxy Nthreshold td
                 (replicate n 0) (replicate n 0) (replicate n 0) \<and>
         v2 = Vectors [Some (DoubleArray \<lparr>shape = [n], data = fst out\<rparr>),
                      Some (DoubleArray \<lparr>shape = [n], data = fst (snd out)\<rparr>),
                      Some (DoubleArray \<lparr>shape = [n], data = snd (snd out)\<rparr>)] \<and>
         (\<forall>k<n. (\<forall>b0 b1 b2. length b0 = n \<longrightarrow>
                     fst (minkowski_functionals mem md mp Nside sigma gx gy hxx hyy hxy Nthreshold td b0 b1 b2) ! k = b0 ! k)
                 \<longrightarrow> fst out ! k = 0) \<and>
         (\<forall>k<n. (\<forall>b0 b1 b2. length b1 = n \<longrightarrow>
                     fst (snd (minkowski_functionals mem md mp Nside sigma gx gy hxx hyy hxy Nthreshold td b0 b1 b2)) ! k = b1 ! k)
                 \<longrightarrow> fst (snd out) ! k = 0) \<and>
         (\<forall>k<n. (\<forall>b0 b1 b2. length b2 = n \<longrightarrow>
                     snd (snd (minkowski_functionals mem md mp Nside sigma gx gy hxx hyy hxy Nthreshold td b0 b1 b2)) ! k = b2 ! k)
                 \<longrightarrow> snd (snd out) ! k = 0))"
    by (elim exE) (intro exI conjI, rule refl, assumption, simp_all)
next
  assume "returned (topology_rfft2_azimuthal azimuthal_rfft2 args3 s) = Some v3"
  from rfft2_result [OF this] show "(\<exists>mem f1 f2 Nside_x Nside_y angle Nvalues lv n out.
         out = snd (azimuthal_rfft2 mem f1 f2 Nside_x Nside_y angle Nvalues lv (replicate n 0)) \<and>
         v3 = Vector (DoubleArray \<lparr>shape = [n], data = out\<rparr>) \<and>
         (\<forall>k<n. (\<forall>buf. length buf = n \<longrightarrow>
                     snd (azimuthal_rfft2 mem f1 f2 Nside_x Nside_y angle Nvalues lv buf) ! k = buf ! k)
                 \<longrightarrow> out ! k = 0))"
    by (elim exE) (intro exI conjI, rule refl, assumption, simp)
next
  assume "returned (topology_rfft3_azimuthal azimuthal_rfft3 args4 s) = Some v4"
  from rfft3_result_zeros [OF this] show "(\<exists>mem f1 f2 Nside_x Nside_y Nside_z kx ky kz Nvalues kv n out.
         out = snd (azimuthal_rfft3 mem f1 f2 Nside_x Nside_y Nside_z kx ky kz Nvalues kv
                      (replicate n 0) (replicate n 0)) \<and>
         v4 = Vectors [Some (LongArray \<lparr>shape = [n], data = snd out\<rparr>),
                      Some (DoubleArray \<lparr>shape = [n], data = fst out\<rparr>)] \<and>
         (\<forall>k<n. (\<forall>pw hits. length pw = n \<longrightarrow>
                     fst (snd (azimuthal_rfft3 mem f1 f2 Nside_x Nside_y Nside_z kx ky kz Nvalues kv pw hits)) ! k = pw ! k)
                 \<longrightarrow> fst out ! k = 0) \<and>
         (\<forall>k<n. (\<forall>pw hits. length hits = n \<longrightarrow>
                     snd (snd (azimuthal_rfft3 mem f1 f2 Nside_x Nside_y Nside_z kx ky kz Nvalues kv pw hits)) ! k = hits ! k)
                 \<longrightarrow> snd out ! k = 0))"
    by (elim exE) (intro exI conjI, rule refl, assumption, simp_all)
qed

text \<open>
  Kernels that write one bin only, on three bin edges: the other bin of each returned
  vector is zero.
\<close>

theorem C7_zero_initialised_witness:
  "returned (topology_peakCount (\<lambda>(mem :: nat \<Rightarrow> nat \<Rightarrow> real) (m :: real list) (mp :: bool list option) (n :: int) (sg :: real) (nt :: int) (t :: real list) (out :: real list). out[0 := out ! 0 + 1]) (Inr (Inr \<lparr>shape = [2, 2], data = [0, 0, 9, 0]\<rparr>, Py_None, Inr \<lparr>shape = [3], data = [1, 2, 3]\<rparr>, 1)) \<lparr>err_indicator = None, refcnt = [], allocs = [], junk = (\<lambda>h i. 0)\<rparr>) = Some (Vector (DoubleArray \<lparr>shape = [2], data = [1, 0 :: real]\<rparr>))
   \<and> (\<exists>mem md mp Nside sigma Nthreshold td n out.
         out = (\<lambda>(mem :: nat \<Rightarrow> nat \<Rightarrow> real) (m :: real list) (mp :: bool list option) (n :: int) (sg :: real) (nt :: int) (t :: real list) (out :: real list). out[0 := out ! 0 + 1]) mem md mp Nside sigma Nthreshold td (replicate n 0) \<and>
         (Vector (DoubleArray \<lparr>shape = [2], data = [1, 0 :: real]\<rparr>)) = Vector (DoubleArray \<lparr>shape = [n], data = out\<rparr>) \<and>
         (\<forall>k<n. (\<forall>buf. length buf = n \<longrightarrow> (\<lambda>(mem :: nat \<Rightarrow> nat \<Rightarrow> real) (m :: real list) (mp :: bool list option) (n :: int) (sg :: real) (nt :: int) (t :: real list) (out :: real list). out[0 := out ! 0 + 1]) mem md mp Nside sigma Nthreshold td buf ! k = buf ! k)
                 \<longrightarrow> out ! k = 0))
   \<and> returned (topology_minkowski (\<lambda>(mem :: nat \<Rightarrow> nat \<Rightarrow> real) (m :: real list) (mp :: bool list option) (n :: int) (sg :: real) (gx :: real list) (gy :: real list) (hxx :: real list) (hyy :: real list) (hxy :: real list) (nt :: int) (t :: real list) (v0 :: real list) (v1 :: real list) (v2 :: real list). (v0[0 := 1], v1, v2[1 := 1])) (Inr (Inr \<lparr>shape = [1, 1], data = [5]\<rparr>, Py_None, Inr \<lparr>shape = [1, 1], data = [0]\<rparr>, Inr \<lparr>shape = [1, 1], data = [0]\<rparr>, Inr \<lparr>shape = [1, 1], data = [0]\<rparr>, Inr \<lparr>shape = [1, 1], data = [0]\<rparr>, Inr \<lparr>shape = [1, 1], data = [0]\<rparr>, Inr \<lparr>shape = [3], data = [1, 2, 3]\<rparr>, 1)) \<lparr>err_indicator = None, refcnt = [], allocs = [], junk = (\<lambda>h i. 0)\<rparr>) = Some (Vectors [Some (DoubleArray \<lparr>shape = [2], data = [1, 0 :: real]\<rparr>), Some (DoubleArray \<lparr>shape = [2], data = [0, 0]\<rparr>), Some (DoubleArray \<lparr>shape = [2], data = [0, 1]\<rparr>)])
   \<and> (\<exists>mem md mp Nside sigma gx gy hxx hyy hxy Nthreshold td n out.
         out = (\<lambda>(mem :: nat \<Rightarrow> nat \<Rightarrow> real) (m :: real list) (mp :: bool list option) (n :: int) (sg :: real) (gx :: real list) (gy :: real list) (hxx :: real list) (hyy :: real list) (hxy :: real list) (nt :: int) (t :: real list) (v0 :: real list) (v1 :: real list) (v2 :: real list). (v0[0 := 1], v1, v2[1 := 1])) mem md mp Nside sigma gx gy hxx hyy hxy Nthreshold td
                 (replicate n 0) (replicate n 0) (replicate n 0) \<and>
         (Vectors [Some (DoubleArray \<lparr>shape = [2], data = [1, 0 :: real]\<rparr>), Some (DoubleArray \<lparr>shape = [2], data = [0, 0]\<rparr>), Some (DoubleArray \<lparr>shape = [2], data = [0, 1]\<rparr>)]) = Vectors [Some (DoubleArray \<lparr>shape = [n], data = fst out\<rparr>),
                      Some (DoubleArray \<lparr>shape = [n], data = fst (snd out)\<rparr>),
                      Some (DoubleArray \<lparr>shape = [n], data = snd (snd out)\<rparr>)] \<and>
         (\<forall>k<n. (\<forall>b0 b1 b2. length b0 = n \<longrightarrow>
                     fst ((\<lambda>(mem :: nat \<Rightarrow> nat \<Rightarrow> real) (m :: real list) (mp :: bool list option) (n :: int) (sg :: real) (gx :: real list) (gy :: real list) (hxx :: real list) (hyy :: real list) (hxy :: real list) (nt :: int) (t :: real list) (v0 :: real list) (v1 :: real list) (v2 :: real list). (v0[0 := 1], v1, v2[1 := 1])) mem md mp Nside sigma gx gy hxx hyy hxy Nthreshold td b0 b1 b2) ! k = b0 ! k)
                 \<longrightarrow> fst out ! k = 0) \<and>
         (\<forall>k<n. (\<forall>b0 b1 b2. length b1 = n \<longrightarrow>
                     fst (snd ((\<lambda>(mem :: nat \<Rightarrow> nat \<Rightarrow> real) (m :: real list) (mp :: bool list option) (n :: int) (sg :: real) (gx :: real list) (gy :: real list) (hxx :: real list) (hyy :: real list) (hxy :: real list) (nt :: int) (t :: real list) (v0 :: real list) (v1 :: real list) (v2 :: real list). (v0[0 := 1], v1, v2[1 := 1])) mem md mp Nside sigma gx gy hxx hyy hxy Nthreshold td b0 b1 b2)) ! k = b1 ! k)
                 \<longrightarrow> fst (snd out) ! k = 0) \<and>
         (\<forall>k<n. (\<forall>b0 b1 b2. length b2 = n \<longrightarrow>
                     snd (snd ((\<lambda>(mem :: nat \<Rightarrow> nat \<Rightarrow> real) (m :: real list) (mp :: bool list option) (n :: int) (sg :: real) (gx :: real list) (gy :: real list) (hxx :: real list) (hyy :: real list) (hxy :: real list) (nt :: int) (t :: real list) (v0 :: real list) (v1 :: real list) (v2 :: real list). (v0[0 := 1], v1, v2[1 := 1])) mem md mp Nside sigma gx gy hxx hyy hxy Nthreshold td b0 b1 b2)) ! k = b2 ! k)
                 \<longrightarrow> snd (snd out) ! k = 0))
   \<and> returned (topology_rfft2_azimuthal (\<lambda>(mem :: nat \<Rightarrow> nat \<Rightarrow> real) (f1 :: complex list) (f2 :: complex list) (nx :: int) (ny :: int) (ang :: real) (nv :: int) (lv :: real list) (pw :: real list). (0 :: int, pw[1 := 4])) (Inr (Inr \<lparr>shape = [1, 1], data = [0 :: complex]\<rparr>, Inr \<lparr>shape = [1, 1], data = [0]\<rparr>, 1, Inr \<lparr>shape = [3], data = [1, 2, 3]\<rparr>)) \<lparr>err_indicator = None, refcnt = [], allocs = [], junk = (\<lambda>h i. 0)\<rparr>) = Some (Vector (DoubleArray \<lparr>shape = [2], data = [0, 4 :: real]\<rparr>))
   \<and> (\<exists>mem f1 f2 Nside_x Nside_y angle Nvalues lv n out.
         out = snd ((\<lambda>(mem :: nat \<Rightarrow> nat \<Rightarrow> real) (f1 :: complex list) (f2 :: complex list) (nx :: int) (ny :: int) (ang :: real) (nv :: int) (lv :: real list) (pw :: real list). (0 :: int, pw[1 := 4])) mem f1 f2 Nside_x Nside_y angle Nvalues lv (replicate n 0)) \<and>
         (Vector (DoubleArray \<lparr>shape = [2], data = [0, 4 :: real]\<rparr>)) = Vector (DoubleArray \<lparr>shape = [n], data = out\<rparr>) \<and>
         (\<forall>k<n. (\<forall>buf. length buf = n \<longrightarrow>
                     snd ((\<lambda>(mem :: nat \<Rightarrow> nat \<Rightarrow> real) (f1 :: complex list) (f2 :: complex list) (nx :: int) (ny :: int) (ang :: real) (nv :: int) (lv :: real list) (pw :: real list). (0 :: int, pw[1 := 4])) mem f1 f2 Nside_x Nside_y angle Nvalues lv buf) ! k = buf ! k)
                 \<longrightarrow> out ! k = 0))
   \<and> returned (topology_rfft3_azimuthal (\<lambda>(mem :: nat \<Rightarrow> nat \<Rightarrow> real) (f1 :: complex list) (f2 :: complex list) (nx :: int) (ny :: int) (nz :: int) (kx :: real) (ky :: real) (kz :: real) (nv :: int) (kv :: real list) (pw :: real list) (hits :: int list). (0 :: int, pw[1 := 4], hits[1 := 1])) (Inr (Inr \<lparr>shape = [1, 1, 1], data = [0 :: complex]\<rparr>, Inr \<lparr>shape = [1, 1, 1], data = [0]\<rparr>, 1, 1, 1, Inr \<lparr>shape = [3], data = [1, 2, 3]\<rparr>)) \<lparr>err_indicator = None, refcnt = [], allocs = [], junk = (\<lambda>h i. 0)\<rparr>) = Some (Vectors [Some (LongArray \<lparr>shape = [2], data = [0, 1]\<rparr>), Some (DoubleArray \<lparr>shape = [2], data = [0, 4 :: real]\<rparr>)])
   \<and> (\<exists>mem f1 f2 Nside_x Nside_y Nside_z kx ky kz Nvalues kv n out.
         out = snd ((\<lambda>(mem :: nat \<Rightarrow> nat \<Rightarrow> real) (f1 :: complex list) (f2 :: complex list) (nx :: int) (ny :: int) (nz :: int) (kx :: real) (ky :: real) (kz :: real) (nv :: int) (kv :: real list) (pw :: real list) (hits :: int list). (0 :: int, pw[1 := 4], hits[1 := 1])) mem f1 f2 Nside_x Nside_y Nside_z kx ky kz Nvalues kv
                      (replicate n 0) (replicate n 0)) \<and>
         (Vectors [Some (LongArray \<lparr>shape = [2], data = [0, 1]\<rparr>), Some (DoubleArray \<lparr>shape = [2], data = [0, 4 :: real]\<rparr>)]) = Vectors [Some (LongArray \<lparr>shape = [n], data = snd out\<rparr>),
                      Some (DoubleArray \<lparr>shape = [n], data = fst out\<rparr>)] \<and>
         (\<forall>k<n. (\<forall>pw hits. length pw = n \<longrightarrow>
                     fst (snd ((\<lambda>(mem :: nat \<Rightarrow> nat \<Rightarrow> real) (f1 :: complex list) (f2 :: complex list) (nx :: int) (ny :: int) (nz :: int) (kx :: real) (ky :: real) (kz :: real) (nv :: int) (kv :: real list) (pw :: real list) (hits :: int list). (0 :: int, pw[1 := 4], hits[1 := 1])) mem f1 f2 Nside_x Nside_y Nside_z kx ky kz Nvalues kv pw hits)) ! k = pw ! k)
                 \<longrightarrow> fst out ! k = 0) \<and>
         (\<forall>k<n. (\<forall>pw hits. length hits = n \<longrightarrow>
                     snd (snd ((\<lambda>(mem :: nat \<Rightarrow> nat \<Rightarrow> real) (f1 :: complex list) (f2 :: complex list) (nx :: int) (ny :: int) (nz :: int) (kx :: real) (ky :: real) (kz :: real) (nv :: int) (kv :: real list) (pw :: real list) (hits :: int list). (0 :: int, pw[1 := 4], hits[1 := 1])) mem f1 f2 Nside_x Nside_y Nside_z kx ky kz Nvalues kv pw hits)) ! k = hits ! k)
                 \<longrightarrow> snd out ! k = 0))"
proof -
  have c: "c_int 3 = 3" "c_int 1 = 1" "c_int 2 = 2" by (simp_all add: c_int_def)
  have r1: "returned (topology_peakCount (\<lambda>(mem :: nat \<Rightarrow> nat \<Rightarrow> real) (m :: real list) (mp :: bool list option) (n :: int) (sg :: real) (nt :: int) (t :: real list) (out :: real list). out[0 := out ! 0 + 1]) (Inr (Inr \<lparr>shape = [2, 2], data = [0, 0, 9, 0]\<rparr>, Py_None, Inr \<lparr>shape = [3], data = [1, 2, 3]\<rparr>, 1)) \<lparr>err_indicator = None, refcnt = [], allocs = [], junk = (\<lambda>h i. 0)\<rparr>) = Some (Vector (DoubleArray \<lparr>shape = [2], data = [1, 0 :: real]\<rparr>))"
    using peakCount_returned [where mko = Py_None and s = "\<lparr>err_indicator = None, refcnt = [], allocs = [], junk = (\<lambda>h i. 0 :: real)\<rparr>", simplified]
    by (simp add: c replicate_2 next_allocs_ok_def)
  have r2: "returned (topology_minkowski (\<lambda>(mem :: nat \<Rightarrow> nat \<Rightarrow> real) (m :: real list) (mp :: bool list option) (n :: int) (sg :: real) (gx :: real list) (gy :: real list) (hxx :: real list) (hyy :: real list) (hxy :: real list) (nt :: int) (t :: real list) (v0 :: real list) (v1 :: real list) (v2 :: real list). (v0[0 := 1], v1, v2[1 := 1])) (Inr (Inr \<lparr>shape = [1, 1], data = [5]\<rparr>, Py_None, Inr \<lparr>shape = [1, 1], data = [0]\<rparr>, Inr \<lparr>shape = [1, 1], data = [0]\<rparr>, Inr \<lparr>shape = [1, 1], data = [0]\<rparr>, Inr \<lparr>shape = [1, 1], data = [0]\<rparr>, Inr \<lparr>shape = [1, 1], data = [0]\<rparr>, Inr \<lparr>shape = [3], data = [1, 2, 3]\<rparr>, 1)) \<lparr>err_indicator = None, refcnt = [], allocs = [], junk = (\<lambda>h i. 0)\<rparr>) = Some (Vectors [Some (DoubleArray \<lparr>shape = [2], data = [1, 0 :: real]\<rparr>), Some (DoubleArray \<lparr>shape = [2], data = [0, 0]\<rparr>), Some (DoubleArray \<lparr>shape = [2], data = [0, 1]\<rparr>)])"
    using minkowski_returned [where mko = Py_None and s = "\<lparr>err_indicator = None, refcnt = [], allocs = [], junk = (\<lambda>h i. 0 :: real)\<rparr>", simplified]
    by (simp add: c replicate_2 next_allocs_ok_def)
  have r3: "returned (topology_rfft2_azimuthal (\<lambda>(mem :: nat \<Rightarrow> nat \<Rightarrow> real) (f1 :: complex list) (f2 :: complex list) (nx :: int) (ny :: int) (ang :: real) (nv :: int) (lv :: real list) (pw :: real list). (0 :: int, pw[1 := 4])) (Inr (Inr \<lparr>shape = [1, 1], data = [0 :: complex]\<rparr>, Inr \<lparr>shape = [1, 1], data = [0]\<rparr>, 1, Inr \<lparr>shape = [3], data = [1, 2, 3]\<rparr>)) \<lparr>err_indicator = None, refcnt = [], allocs = [], junk = (\<lambda>h i. 0)\<rparr>) = Some (Vector (DoubleArray \<lparr>shape = [2], data = [0, 4 :: real]\<rparr>))"
    by (simp add: rfft2_returned c replicate_2 next_allocs_ok_def)
  have r4: "returned (topology_rfft3_azimuthal (\<lambda>(mem :: nat \<Rightarrow> nat \<Rightarrow> real) (f1 :: complex list) (f2 :: complex list) (nx :: int) (ny :: int) (nz :: int) (kx :: real) (ky :: real) (kz :: real) (nv :: int) (kv :: real list) (pw :: real list) (hits :: int list). (0 :: int, pw[1 := 4], hits[1 := 1])) (Inr (Inr \<lparr>shape = [1, 1, 1], data = [0 :: complex]\<rparr>, Inr \<lparr>shape = [1, 1, 1], data = [0]\<rparr>, 1, 1, 1, Inr \<lparr>shape = [3], data = [1, 2, 3]\<rparr>)) \<lparr>err_indicator = None, refcnt = [], allocs = [], junk = (\<lambda>h i. 0)\<rparr>) = Some (Vectors [Some (LongArray \<lparr>shape = [2], data = [0, 1]\<rparr>), Some (DoubleArray \<lparr>shape = [2], data = [0, 4 :: real]\<rparr>)])"
    by (simp add: rfft3_returned c replicate_2 next_allocs_ok_def)
  note t = C7_zero_initialised [where s = "\<lparr>err_indicator = None, refcnt = [], allocs = [], junk = (\<lambda>h i. 0 :: real)\<rparr>"]
  from t [THEN conjunct1, rule_format, OF r1]
  have q1: "(\<exists>mem md mp Nside sigma Nthreshold td n out.
         out = (\<lambda>(mem :: nat \<Rightarrow> nat \<Rightarrow> real) (m :: real list) (mp :: bool list option) (n :: int) (sg :: real) (nt :: int) (t :: real list) (out :: real list). out[0 := out ! 0 + 1]) mem md mp Nside sigma Nthreshold td (replicate n 0) \<and>
         (Vector (DoubleArray \<lparr>shape = [2], data = [1, 0 :: real]\<rparr>)) = Vector (DoubleArray \<lparr>shape = [n], data = out\<rparr>) \<and>
         (\<forall>k<n. (\<forall>buf. length buf = n \<longrightarrow> (\<lambda>(mem :: nat \<Rightarrow> nat \<Rightarrow> real) (m :: real list) (mp :: bool list option) (n :: int) (sg :: real) (nt :: int) (t :: real list) (out :: real list). out[0 := out ! 0 + 1]) mem md mp Nside sigma Nthreshold td buf ! k = buf ! k)
                 \<longrightarrow> out ! k = 0))" .
  from t [THEN conjunct2, THEN conjunct1, rule_format, OF r2]
  have q2: "(\<exists>mem md mp Nside sigma gx gy hxx hyy hxy Nthreshold td n out.
         out = (\<lambda>(mem :: nat \<Rightarrow> nat \<Rightarrow> real) (m :: real list) (mp :: bool list option) (n :: int) (sg :: real) (gx :: real list) (gy :: real list) (hxx :: real list) (hyy :: real list) (hxy :: real list) (nt :: int) (t :: real list) (v0 :: real list) (v1 :: real list) (v2 :: real list). (v0[0 := 1], v1, v2[1 := 1])) mem md mp Nside sigma gx gy hxx hyy hxy Nthreshold td
                 (replicate n 0) (replicate n 0) (replicate n 0) \<and>
         (Vectors [Some (DoubleArray \<lparr>shape = [2], data = [1, 0 :: real]\<rparr>), Some (DoubleArray \<lparr>shape = [2], data = [0, 0]\<rparr>), Some (DoubleArray \<lparr>shape = [2], data = [0, 1]\<rparr>)]) = Vectors [Some (DoubleArray \<lparr>shape = [n], data = fst out\<rparr>),
                      Some (DoubleArray \<lparr>shape = [n], data = fst (snd out)\<rparr>),
                      Some (DoubleArray \<lparr>shape = [n], data = snd (snd out)\<rparr>)] \<and>
         (\<forall>k<n. (\<forall>b0 b1 b2. length b0 = n \<longrightarrow>
                     fst ((\<lambda>(mem :: nat \<Rightarrow> nat \<Rightarrow> real) (m :: real list) (mp :: bool list option) (n :: int) (sg :: real) (gx :: real list) (gy :: real list) (hxx :: real list) (hyy :: real list) (hxy :: real list) (nt :: int) (t :: real list) (v0 :: real list) (v1 :: real list) (v2 :: real list). (v0[0 := 1], v1, v2[1 := 1])) mem md mp Nside sigma gx gy hxx hyy hxy Nthreshold td b0 b1 b2) ! k = b0 ! k)
                 \<longrightarrow> fst out ! k = 0) \<and>
         (\<forall>k<n. (\<forall>b0 b1 b2. length b1 = n \<longrightarrow>
                     fst (snd ((\<lambda>(mem :: nat \<Rightarrow> nat \<Rightarrow> real) (m :: real list) (mp :: bool list option) (n :: int) (sg :: real) (gx :: real list) (gy :: real list) (hxx :: real list) (hyy :: real list) (hxy :: real list) (nt :: int) (t :: real list) (v0 :: real list) (v1 :: real list) (v2 :: real list). (v0[0 := 1], v1, v2[1 := 1])) mem md mp Nside sigma gx gy hxx hyy hxy Nthreshold td b0 b1 b2)) ! k = b1 ! k)
                 \<longrightarrow> fst (snd out) ! k = 0) \<and>
         (\<forall>k<n. (\<forall>b0 b1 b2. length b2 = n \<longrightarrow>
                     snd (snd ((\<lambda>(mem :: nat \<Rightarrow> nat \<Rightarrow> real) (m :: real list) (mp :: bool list option) (n :: int) (sg :: real) (gx :: real list) (gy :: real list) (hxx :: real list) (hyy :: real list) (hxy :: real list) (nt :: int) (t :: real list) (v0 :: real list) (v1 :: real list) (v2 :: real list). (v0[0 := 1], v1, v2[1 := 1])) mem md mp Nside sigma gx gy hxx hyy hxy Nthreshold td b0 b1 b2)) ! k = b2 ! k)
                 \<longrightarrow> snd (snd out) ! k = 0))" .
  from t [THEN conjunct2, THEN conjunct2, THEN conjunct1, rule_format, OF r3]
  have q3: "(\<exists>mem f1 f2 Nside_x Nside_y angle Nvalues lv n out.
         out = snd ((\<lambda>(mem :: nat \<Rightarrow> nat \<Rightarrow> real) (f1 :: complex list) (f2 :: complex list) (nx :: int) (ny :: int) (ang :: real) (nv :: int) (lv :: real list) (pw :: real list). (0 :: int, pw[1 := 4])) mem f1 f2 Nside_x Nside_y angle Nvalues lv (replicate n 0)) \<and>
         (Vector (DoubleArray \<lparr>shape = [2], data = [0, 4 :: real]\<rparr>)) = Vector (DoubleArray \<lparr>shape = [n], data = out\<rparr>) \<and>
         (\<forall>k<n. (\<forall>buf. length buf = n \<longrightarrow>
                     snd ((\<lambda>(mem :: nat \<Rightarrow> nat \<Rightarrow> real) (f1 :: complex list) (f2 :: complex list) (nx :: int) (ny :: int) (ang :: real) (nv :: int) (lv :: real list) (pw :: real list). (0 :: int, pw[1 := 4])) mem f1 f2 Nside_x Nside_y angle Nvalues lv buf) ! k = buf ! k)
                 \<longrightarrow> out ! k = 0))" .
  from t [THEN conjunct2, THEN conjunct2, THEN conjunct2, rule_format, OF r4]
  have q4: "(\<exists>mem f1 f2 Nside_x Nside_y Nside_z kx ky kz Nvalues kv n out.
         out = snd ((\<lambda>(mem :: nat \<Rightarrow> nat \<Rightarrow> real) (f1 :: complex list) (f2 :: complex list) (nx :: int) (ny :: int) (nz :: int) (kx :: real) (ky :: real) (kz :: real) (nv :: int) (kv :: real list) (pw :: real list) (hits :: int list). (0 :: int, pw[1 := 4], hits[1 := 1])) mem f1 f2 Nside_x Nside_y Nside_z kx ky kz Nvalues kv
                      (replicate n 0) (replicate n 0)) \<and>
         (Vectors [Some (LongArray \<lparr>shape = [2], data = [0, 1]\<rparr>), Some (DoubleArray \<lparr>shape = [2], data = [0, 4 :: real]\<rparr>)]) = Vectors [Some (LongArray \<lparr>shape = [n], data = snd out\<rparr>),
                      Some (DoubleArray \<lparr>shape = [n], data = fst out\<rparr>)] \<and>
         (\<forall>k<n. (\<forall>pw hits. length pw = n \<longrightarrow>
                     fst (snd ((\<lambda>(mem :: nat \<Rightarrow> nat \<Rightarrow> real) (f1 :: complex list) (f2 :: complex list) (nx :: int) (ny :: int) (nz :: int) (kx :: real) (ky :: real) (kz :: real) (nv :: int) (kv :: real list) (pw :: real list) (hits :: int list). (0 :: int, pw[1 := 4], hits[1 := 1])) mem f1 f2 Nside_x Nside_y Nside_z kx ky kz Nvalues kv pw hits)) ! k = pw ! k)
                 \<longrightarrow> fst out ! k = 0) \<and>
         (\<forall>k<n. (\<forall>pw hits. length hits = n \<longrightarrow>
                     snd (snd ((\<lambda>(mem :: nat \<Rightarrow> nat \<Rightarrow> real) (f1 :: complex list) (f2 :: complex list) (nx :: int) (ny :: int) (nz :: int) (kx :: real) (ky :: real) (kz :: real) (nv :: int) (kv :: real list) (pw :: real list) (hits :: int list). (0 :: int, pw[1 := 4], hits[1 := 1])) mem f1 f2 Nside_x Nside_y Nside_z kx ky kz Nvalues kv pw hits)) ! k = hits ! k)
                 \<longrightarrow> snd out ! k = 0))" .
  from r1 q1 r2 q2 r3 q3 r4 q4 show ?thesis by (intro conjI)
qed

subsection \<open>C8: the absent mask\<close>

lemma peakCount_no_mask:
  assumes "1 \<le> c_int (int N)" "next_allocs_ok 1 s"
  shows "\<exists>r s'. topology_peakCount peak_count
            (Inr (Inr \<lparr>shape = d0 # dm, data = md\<rparr>, Py_None, Inr \<lparr>shape = N # dt, data = td\<rparr>, sigma)) s
              = Returns (Some r) s'
          \<and> err_indicator s' = err_indicator s
          \<and> value_of r = Vector (DoubleArray \<lparr>shape = [nat (c_int (int N) - 1)],
               data = peak_count (junk s) md None (c_int (int d0)) sigma (c_int (int N)) td
                        (replicate (nat (c_int (int N) - 1)) 0)\<rparr>)"
  using assms by (simp add: topology_peakCount_def eval_defs)

lemma minkowski_no_mask:
  assumes "1 \<le> c_int (int N)" "next_allocs_ok 4 s"
  shows "\<exists>r s'. topology_minkowski minkowski_functionals
            (Inr (Inr \<lparr>shape = d0 # dm, data = md\<rparr>, Py_None, Inr gx, Inr gy, Inr hxx, Inr hyy, Inr hxy,
                   Inr \<lparr>shape = N # dt, data = td\<rparr>, sigma)) s
              = Returns (Some r) s'
          \<and> err_indicator s' = err_indicator s
          \<and> (let n = nat (c_int (int N) - 1);
                  out = minkowski_functionals (junk s) md None (c_int (int d0)) sigma (data gx) (data gy) (data hxx)
                          (data hyy) (data hxy) (c_int (int N)) td (replicate n 0) (replicate n 0) (replicate n 0)
              in value_of r = Vectors [Some (DoubleArray \<lparr>shape = [n], data = fst out\<rparr>),
                                       Some (DoubleArray \<lparr>shape = [n], data = fst (snd out)\<rparr>),
                                       Some (DoubleArray \<lparr>shape = [n], data = snd (snd out)\<rparr>)])"
  using assms by (simp add: topology_minkowski_def eval_defs INT_MIN_def)

lemma peakCount_mask_optional:
  "(returned (topology_peakCount peak_count (Inr (map_obj, Py_None, thresholds_obj, sigma)) s) = None) =
   (returned (topology_peakCount peak_count (Inr (map_obj, Obj (Inr mk), thresholds_obj, sigma)) s) = None)"
proof -
  have *: "returned (topology_peakCount peak_count (Inr (map_obj, map_pyarg Inr b, thresholds_obj, sigma)) s) \<noteq> None"
    if "returned (topology_peakCount peak_count (Inr (map_obj, map_pyarg Inr a, thresholds_obj, sigma)) s) = Some v"
    for a b :: "bool ndarray pyarg" and v
  proof -
    from that obtain d0 dm md n0 dt td where
      "map_obj = Inr \<lparr>shape = d0 # dm, data = md\<rparr>" "thresholds_obj = Inr \<lparr>shape = n0 # dt, data = td\<rparr>"
      by (auto elim!: peakCount_returned_inv)
    with that show ?thesis by (simp add: peakCount_returned split: if_splits)
  qed
  from * [of Py_None _ "Obj mk"] * [of "Obj mk" _ Py_None] show ?thesis
    by (cases "returned (topology_peakCount peak_count (Inr (map_obj, Py_None, thresholds_obj, sigma)) s)";
        cases "returned (topology_peakCount peak_count (Inr (map_obj, Obj (Inr mk), thresholds_obj, sigma)) s)")
       simp_all
qed

lemma minkowski_mask_optional:
  "(returned (topology_minkowski mf (Inr (map_obj, Py_None, gx, gy, hxx, hyy, hxy, thresholds_obj, sigma)) s) = None) =
   (returned (topology_minkowski mf (Inr (map_obj, Obj (Inr mk), gx, gy, hxx, hyy, hxy, thresholds_obj, sigma)) s) = None)"
proof -
  have *: "returned (topology_minkowski mf (Inr (map_obj, map_pyarg Inr b, gx, gy, hxx, hyy, hxy, thresholds_obj, sigma)) s) \<noteq> None"
    if "returned (topology_minkowski mf (Inr (map_obj, map_pyarg Inr a, gx, gy, hxx, hyy, hxy, thresholds_obj, sigma)) s) = Some v"
    for a b :: "bool ndarray pyarg" and v
  proof -
    from that obtain d0 dm md n0 dt td gx' gy' hxx' hyy' hxy' where
      "map_obj = Inr \<lparr>shape = d0 # dm, data = md\<rparr>" "thresholds_obj = Inr \<lparr>shape = n0 # dt, data = td\<rparr>"
      "gx = Inr gx'" "gy = Inr gy'" "hxx = Inr hxx'" "hyy = Inr hyy'" "hxy = Inr hxy'"
      by (auto elim!: minkowski_returned_inv)
    with that show ?thesis by (simp add: minkowski_returned Let_def case_prod_unfold split: if_splits)
  qed
  from * [of Py_None _ "Obj mk"] * [of "Obj mk" _ Py_None] show ?thesis
    by (cases "returned (topology_minkowski mf (Inr (map_obj, Py_None, gx, gy, hxx, hyy, hxy, thresholds_obj, sigma)) s)";
        cases "returned (topology_minkowski mf (Inr (map_obj, Obj (Inr mk), gx, gy, hxx, hyy, hxy, thresholds_obj, sigma)) s)")
       simp_all
qed

text \<open>
  C8. A call of \<^verbatim>\<open>peakCount\<close> or \<^verbatim>\<open>minkowski\<close> whose mask is \<^verbatim>\<open>None\<close> raises no error on
  account of the mask: when the other arguments are arrays, there is at least one
  threshold and the outputs can be allocated, the call succeeds, the error indicator is
  as it was, and the vectors returned are those of the kernel invoked with no mask
  (\<^verbatim>\<open>NULL\<close>), all samples being valid. Whatever the other arguments are, the call with
  no mask returns a result exactly when the call with a mask would.
\<close>

theorem C8_absent_mask:
  "(1 \<le> c_int (int N) \<and> next_allocs_ok 1 s \<longrightarrow>
      (\<exists>r s'. topology_peakCount peak_count
            (Inr (Inr \<lparr>shape = side # dm, data = md\<rparr>, Py_None, Inr \<lparr>shape = N # dt, data = td\<rparr>, sigma)) s
              = Returns (Some r) s'
          \<and> err_indicator s' = err_indicator s
          \<and> value_of r = Vector (DoubleArray \<lparr>shape = [nat (c_int (int N) - 1)],
               data = peak_count (junk s) md None (c_int (int side)) sigma (c_int (int N)) td
                        (replicate (nat (c_int (int N) - 1)) 0)\<rparr>)))
   \<and> (1 \<le> c_int (int N) \<and> next_allocs_ok 4 s \<longrightarrow>
      (\<exists>r s'. topology_minkowski minkowski_functionals
            (Inr (Inr \<lparr>shape = side # dm, data = md\<rparr>, Py_None, Inr gx, Inr gy, Inr hxx, Inr hyy, Inr hxy,
                   Inr \<lparr>shape = N # dt, data = td\<rparr>, sigma)) s
              = Returns (Some r) s'
          \<and> err_indicator s' = err_indicator s
          \<and> (let n = nat (c_int (int N) - 1);
                  out = minkowski_functionals (junk s) md None (c_int (int side)) sigma (data gx) (data gy) (data hxx)
                          (data hyy) (data hxy) (c_int (int N)) td (replicate n 0) (replicate n 0) (replicate n 0)
              in value_of r = Vectors [Some (DoubleArray \<lparr>shape = [n], data = fst out\<rparr>),
                                       Some (DoubleArray \<lparr>shape = [n], data = fst (snd out)\<rparr>),
                                       Some (DoubleArray \<lparr>shape = [n], data = snd (snd out)\<rparr>)])))
   \<and> (returned (topology_peakCount peak_count (Inr (map_obj, Py_None, thresholds_obj, sigma)) s) = None) =
     (returned (topology_peakCount peak_count (Inr (map_obj, Obj (Inr mk), thresholds_obj, sigma)) s) = None)
   \<and> (returned (topology_minkowski minkowski_functionals
          (Inr (map_obj, Py_None, grad_x_obj, grad_y_obj, hess_xx_obj, hess_yy_obj, hess_xy_obj,
                 thresholds_obj, sigma)) s) = None) =
     (returned (topology_minkowski minkowski_functionals
          (Inr (map_obj, Obj (Inr mk), grad_x_obj, grad_y_obj, hess_xx_obj, hess_yy_obj, hess_xy_obj,
                 thresholds_obj, sigma)) s) = None)"
  using peakCount_no_mask [of N s peak_count side dm md dt td sigma]
    minkowski_no_mask [of N s minkowski_functionals side dm md gx gy hxx hyy hxy dt td sigma]
    peakCount_mask_optional [of peak_count map_obj thresholds_obj sigma s mk]
    minkowski_mask_optional [of minkowski_functionals map_obj grad_x_obj grad_y_obj hess_xx_obj hess_yy_obj
      hess_xy_obj thresholds_obj sigma s mk]
  by blast

text \<open>A \<open>2 \<times> 2\<close> map, three thresholds and kernels that mark the first bin when they are
  handed no mask.\<close>

theorem C8_absent_mask_witness:
  "1 \<le> c_int (int 3) \<and> next_allocs_ok 4 \<lparr>err_indicator = None, refcnt = [], allocs = [], junk = (\<lambda>h i. 0 :: real)\<rparr> \<and> next_allocs_ok 1 \<lparr>err_indicator = None, refcnt = [], allocs = [], junk = (\<lambda>h i. 0 :: real)\<rparr>
   \<and> (\<exists>r s'. topology_peakCount (\<lambda>(mem :: nat \<Rightarrow> nat \<Rightarrow> real) (m :: real list) (mp :: bool list option) (n :: int) (sg :: real) (nt :: int) (t :: real list) (out :: real list). case mp of None \<Rightarrow> out[0 := 1] | Some x \<Rightarrow> out)
            (Inr (Inr \<lparr>shape = 2 # [2], data = [0, 0, 9, 0 :: real]\<rparr>, Py_None, Inr \<lparr>shape = 3 # [], data = [1, 2, 3 :: real]\<rparr>, (1 :: real))) \<lparr>err_indicator = None, refcnt = [], allocs = [], junk = (\<lambda>h i. 0 :: real)\<rparr>
              = Returns (Some r) s'
          \<and> err_indicator s' = err_indicator \<lparr>err_indicator = None, refcnt = [], allocs = [], junk = (\<lambda>h i. 0 :: real)\<rparr>
          \<and> value_of r = Vector (DoubleArray \<lparr>shape = [nat (c_int (int 3) - 1)],
               data = (\<lambda>(mem :: nat \<Rightarrow> nat \<Rightarrow> real) (m :: real list) (mp :: bool list option) (n :: int) (sg :: real) (nt :: int) (t :: real list) (out :: real list). case mp of None \<Rightarrow> out[0 := 1] | Some x \<Rightarrow> out) (junk \<lparr>err_indicator = None, refcnt = [], allocs = [], junk = (\<lambda>h i. 0 :: real)\<rparr>) [0, 0, 9, 0 :: real] None (c_int (int 2)) (1 :: real) (c_int (int 3)) [1, 2, 3 :: real]
                        (replicate (nat (c_int (int 3) - 1)) 0)\<rparr>))
   \<and> (\<exists>r s'. topology_minkowski (\<lambda>(mem :: nat \<Rightarrow> nat \<Rightarrow> real) (m :: real list) (mp :: bool list option) (n :: int) (sg :: real) (gx :: real list) (gy :: real list) (hxx :: real list) (hyy :: real list) (hxy :: real list) (nt :: int) (t :: real list) (v0 :: real list) (v1 :: real list) (v2 :: real list). case mp of None \<Rightarrow> (v0[0 := 1], v1, v2) | Some x \<Rightarrow> (v0, v1, v2))
            (Inr (Inr \<lparr>shape = 1 # [1], data = [5 :: real]\<rparr>, Py_None, Inr \<lparr>shape = [1, 1], data = [0 :: real]\<rparr>, Inr \<lparr>shape = [1, 1], data = [0 :: real]\<rparr>, Inr \<lparr>shape = [1, 1], data = [0 :: real]\<rparr>, Inr \<lparr>shape = [1, 1], data = [0 :: real]\<rparr>, Inr \<lparr>shape = [1, 1], data = [0 :: real]\<rparr>,
                   Inr \<lparr>shape = 3 # [], data = [1, 2, 3 :: real]\<rparr>, (1 :: real))) \<lparr>err_indicator = None, refcnt = [], allocs = [], junk = (\<lambda>h i. 0 :: real)\<rparr>
              = Returns (Some r) s'
          \<and> err_indicator s' = err_indicator \<lparr>err_indicator = None, refcnt = [], allocs = [], junk = (\<lambda>h i. 0 :: real)\<rparr>
          \<and> (let n = nat (c_int (int 3) - 1);
                  out = (\<lambda>(mem :: nat \<Rightarrow> nat \<Rightarrow> real) (m :: real list) (mp :: bool list option) (n :: int) (sg :: real) (gx :: real list) (gy :: real list) (hxx :: real list) (hyy :: real list) (hxy :: real list) (nt :: int) (t :: real list) (v0 :: real list) (v1 :: real list) (v2 :: real list). case mp of None \<Rightarrow> (v0[0 := 1], v1, v2) | Some x \<Rightarrow> (v0, v1, v2)) (junk \<lparr>err_indicator = None, refcnt = [], allocs = [], junk = (\<lambda>h i. 0 :: real)\<rparr>) [5 :: real] None (c_int (int 1)) (1 :: real) (data \<lparr>shape = [1, 1], data = [0 :: real]\<rparr>) (data \<lparr>shape = [1, 1], data = [0 :: real]\<rparr>) (data \<lparr>shape = [1, 1], data = [0 :: real]\<rparr>)
                          (data \<lparr>shape = [1, 1], data = [0 :: real]\<rparr>) (data \<lparr>shape = [1, 1], data = [0 :: real]\<rparr>) (c_int (int 3)) [1, 2, 3 :: real] (replicate n 0) (replicate n 0) (replicate n 0)
              in value_of r = Vectors [Some (DoubleArray \<lparr>shape = [n], data = fst out\<rparr>),
                                       Some (DoubleArray \<lparr>shape = [n], data = fst (snd out)\<rparr>),
                                       Some (DoubleArray \<lparr>shape = [n], data = snd (snd out)\<rparr>)]))"
proof -
  have h: "1 \<le> c_int (int 3)" "next_allocs_ok 4 \<lparr>err_indicator = None, refcnt = [], allocs = [], junk = (\<lambda>h i. 0 :: real)\<rparr>" "next_allocs_ok 1 \<lparr>err_indicator = None, refcnt = [], allocs = [], junk = (\<lambda>h i. 0 :: real)\<rparr>"
    by (simp_all add: c_int_def next_allocs_ok_def)
  note t = C8_absent_mask [where N = 3 and s = "\<lparr>err_indicator = None, refcnt = [], allocs = [], junk = (\<lambda>h i. 0 :: real)\<rparr>" and dt = "[]" and td = "[1, 2, 3 :: real]"
      and sigma = "1 :: real"]
  from t [where peak_count = "(\<lambda>(mem :: nat \<Rightarrow> nat \<Rightarrow> real) (m :: real list) (mp :: bool list option) (n :: int) (sg :: real) (nt :: int) (t :: real list) (out :: real list). case mp of None \<Rightarrow> out[0 := 1] | Some x \<Rightarrow> out)" and side = 2 and dm = "[2]" and md = "[0, 0, 9, 0 :: real]",
      THEN conjunct1] h
  have p: "(\<exists>r s'. topology_peakCount (\<lambda>(mem :: nat \<Rightarrow> nat \<Rightarrow> real) (m :: real list) (mp :: bool list option) (n :: int) (sg :: real) (nt :: int) (t :: real list) (out :: real list). case mp of None \<Rightarrow> out[0 := 1] | Some x \<Rightarrow> out)
            (Inr (Inr \<lparr>shape = 2 # [2], data = [0, 0, 9, 0 :: real]\<rparr>, Py_None, Inr \<lparr>shape = 3 # [], data = [1, 2, 3 :: real]\<rparr>, (1 :: real))) \<lparr>err_indicator = None, refcnt = [], allocs = [], junk = (\<lambda>h i. 0 :: real)\<rparr>
              = Returns (Some r) s'
          \<and> err_indicator s' = err_indicator \<lparr>err_indicator = None, refcnt = [], allocs = [], junk = (\<lambda>h i. 0 :: real)\<rparr>
          \<and> value_of r = Vector (DoubleArray \<lparr>shape = [nat (c_int (int 3) - 1)],
               data = (\<lambda>(mem :: nat \<Rightarrow> nat \<Rightarrow> real) (m :: real list) (mp :: bool list option) (n :: int) (sg :: real) (nt :: int) (t :: real list) (out :: real list). case mp of None \<Rightarrow> out[0 := 1] | Some x \<Rightarrow> out) (junk \<lparr>err_indicator = None, refcnt = [], allocs = [], junk = (\<lambda>h i. 0 :: real)\<rparr>) [0, 0, 9, 0 :: real] None (c_int (int 2)) (1 :: real) (c_int (int 3)) [1, 2, 3 :: real]
                        (replicate (nat (c_int (int 3) - 1)) 0)\<rparr>))" by blast
  from t [where minkowski_functionals = "(\<lambda>(mem :: nat \<Rightarrow> nat \<Rightarrow> real) (m :: real list) (mp :: bool list option) (n :: int) (sg :: real) (gx :: real list) (gy :: real list) (hxx :: real list) (hyy :: real list) (hxy :: real list) (nt :: int) (t :: real list) (v0 :: real list) (v1 :: real list) (v2 :: real list). case mp of None \<Rightarrow> (v0[0 := 1], v1, v2) | Some x \<Rightarrow> (v0, v1, v2))" and side = 1 and dm = "[1]" and md = "[5 :: real]"
      and gx = "\<lparr>shape = [1, 1], data = [0 :: real]\<rparr>" and gy = "\<lparr>shape = [1, 1], data = [0 :: real]\<rparr>" and hxx = "\<lparr>shape = [1, 1], data = [0 :: real]\<rparr>" and hyy = "\<lparr>shape = [1, 1], data = [0 :: real]\<rparr>" and hxy = "\<lparr>shape = [1, 1], data = [0 :: real]\<rparr>",
      THEN conjunct2, THEN conjunct1] h
  have m: "(\<exists>r s'. topology_minkowski (\<lambda>(mem :: nat \<Rightarrow> nat \<Rightarrow> real) (m :: real list) (mp :: bool list option) (n :: int) (sg :: real) (gx :: real list) (gy :: real list) (hxx :: real list) (hyy :: real list) (hxy :: real list) (nt :: int) (t :: real list) (v0 :: real list) (v1 :: real list) (v2 :: real list). case mp of None \<Rightarrow> (v0[0 := 1], v1, v2) | Some x \<Rightarrow> (v0, v1, v2))
            (Inr (Inr \<lparr>shape = 1 # [1], data = [5 :: real]\<rparr>, Py_None, Inr \<lparr>shape = [1, 1], data = [0 :: real]\<rparr>, Inr \<lparr>shape = [1, 1], data = [0 :: real]\<rparr>, Inr \<lparr>shape = [1, 1], data = [0 :: real]\<rparr>, Inr \<lparr>shape = [1, 1], data = [0 :: real]\<rparr>, Inr \<lparr>shape = [1, 1], data = [0 :: real]\<rparr>,
                   Inr \<lparr>shape = 3 # [], data = [1, 2, 3 :: real]\<rparr>, (1 :: real))) \<lparr>err_indicator = None, refcnt = [], allocs = [], junk = (\<lambda>h i. 0 :: real)\<rparr>
              = Returns (Some r) s'
          \<and> err_indicator s' = err_indicator \<lparr>err_indicator = None, refcnt = [], allocs = [], junk = (\<lambda>h i. 0 :: real)\<rparr>
          \<and> (let n = nat (c_int (int 3) - 1);
                  out = (\<lambda>(mem :: nat \<Rightarrow> nat \<Rightarrow> real) (m :: real list) (mp :: bool list option) (n :: int) (sg :: real) (gx :: real list) (gy :: real list) (hxx :: real list) (hyy :: real list) (hxy :: real list) (nt :: int) (t :: real list) (v0 :: real list) (v1 :: real list) (v2 :: real list). case mp of None \<Rightarrow> (v0[0 := 1], v1, v2) | Some x \<Rightarrow> (v0, v1, v2)) (junk \<lparr>err_indicator = None, refcnt = [], allocs = [], junk = (\<lambda>h i. 0 :: real)\<rparr>) [5 :: real] None (c_int (int 1)) (1 :: real) (data \<lparr>shape = [1, 1], data = [0 :: real]\<rparr>) (data \<lparr>shape = [1, 1], data = [0 :: real]\<rparr>) (data \<lparr>shape = [1, 1], data = [0 :: real]\<rparr>)
                          (data \<lparr>shape = [1, 1], data = [0 :: real]\<rparr>) (data \<lparr>shape = [1, 1], data = [0 :: real]\<rparr>) (c_int (int 3)) [1, 2, 3 :: real] (replicate n 0) (replicate n 0) (replicate n 0)
              in value_of r = Vectors [Some (DoubleArray \<lparr>shape = [n], data = fst out\<rparr>),
                                       Some (DoubleArray \<lparr>shape = [n], data = fst (snd out)\<rparr>),
                                       Some (DoubleArray \<lparr>shape = [n], data = snd (snd out)\<rparr>)]))" by blast
  from h p m show ?thesis by (intro conjI)
qed

subsection \<open>C3: the bin edges are not inspected\<close>

lemma peakCount_no_thresholds:
  "\<exists>s'. (\<forall>k. topology_peakCount k
            (Inr (Inr \<lparr>shape = side # dm, data = md\<rparr>, map_pyarg Inr mko, Inr \<lparr>shape = 0 # dt, data = td\<rparr>, sigma)) s
              = Returns None s')
        \<and> err_indicator s' = Some ValueError"
  by (cases mko) (simp_all add: topology_peakCount_def eval_defs c_int_def)

lemma minkowski_no_thresholds:
  "\<exists>s'. (\<forall>k. topology_minkowski k
            (Inr (Inr \<lparr>shape = side # dm, data = md\<rparr>, map_pyarg Inr mko, Inr gx, Inr gy, Inr hxx, Inr hyy, Inr hxy,
                   Inr \<lparr>shape = 0 # dt, data = td\<rparr>, sigma)) s
              = Returns None s')
        \<and> err_indicator s' = Some (if next_allocs_ok 1 s then ValueError else MemoryError)"
  by (cases mko) (simp_all add: topology_minkowski_def eval_defs c_int_def INT_MIN_def)

lemma peakCount_empty_thresholds:
  "returned (topology_peakCount peak_count
     (Inr (map_obj, mask_obj, Inr \<lparr>shape = 0 # dt, data = td\<rparr>, sigma)) s) = None"
proof (rule ccontr)
  assume "returned (topology_peakCount peak_count
     (Inr (map_obj, mask_obj, Inr \<lparr>shape = 0 # dt, data = td\<rparr>, sigma)) s) \<noteq> None"
  then obtain v where v: "returned (topology_peakCount peak_count
     (Inr (map_obj, mask_obj, Inr \<lparr>shape = 0 # dt, data = td\<rparr>, sigma)) s) = Some v" by blast
  then obtain d0 dm md mko where
    "map_obj = Inr \<lparr>shape = d0 # dm, data = md\<rparr>" "mask_obj = map_pyarg Inr mko"
    by (auto elim!: peakCount_returned_inv)
  with v show False by (simp add: peakCount_returned c_int_def)
qed

lemma minkowski_empty_thresholds:
  "returned (topology_minkowski mf
     (Inr (map_obj, mask_obj, gx, gy, hxx, hyy, hxy, Inr \<lparr>shape = 0 # dt, data = td\<rparr>, sigma)) s) = None"
proof (rule ccontr)
  assume "returned (topology_minkowski mf
     (Inr (map_obj, mask_obj, gx, gy, hxx, hyy, hxy, Inr \<lparr>shape = 0 # dt, data = td\<rparr>, sigma)) s) \<noteq> None"
  then obtain v where v: "returned (topology_minkowski mf
     (Inr (map_obj, mask_obj, gx, gy, hxx, hyy, hxy, Inr \<lparr>shape = 0 # dt, data = td\<rparr>, sigma)) s) = Some v" by blast
  then obtain d0 dm md mko gx' gy' hxx' hyy' hxy' where
    "map_obj = Inr \<lparr>shape = d0 # dm, data = md\<rparr>" "mask_obj = map_pyarg Inr mko"
    "gx = Inr gx'" "gy = Inr gy'" "hxx = Inr hxx'" "hyy = Inr hyy'" "hxy = Inr hxy'"
    by (auto elim!: minkowski_returned_inv)
  with v show False by (simp add: minkowski_returned c_int_def)
qed

lemma peakCount_any_thresholds:
  assumes "1 \<le> N" "N < 2 ^ 31" "next_allocs_ok 1 s"
  shows "returned (topology_peakCount peak_count
        (Inr (Inr \<lparr>shape = side # dm, data = md\<rparr>, map_pyarg Inr mko, Inr \<lparr>shape = N # dt, data = td\<rparr>, sigma)) s)
        = Some (Vector (DoubleArray \<lparr>shape = [N - 1],
             data = peak_count (junk s) md (case mko of Py_None \<Rightarrow> None | Obj mk \<Rightarrow> Some (data mk))
                      (c_int (int side)) sigma (int N) td (replicate (N - 1) 0)\<rparr>))"
proof -
  from assms have "c_int (int N) = int N" "nat (int N - 1) = N - 1" "1 \<le> int N"
    by (simp_all add: c_int_nat nat_diff_distrib)
  with assms(3) show ?thesis by (simp add: peakCount_returned)
qed

lemma minkowski_any_thresholds:
  assumes "1 \<le> N" "N < 2 ^ 31" "next_allocs_ok 4 s"
  shows "returned (topology_minkowski minkowski_functionals
        (Inr (Inr \<lparr>shape = side # dm, data = md\<rparr>, map_pyarg Inr mko, Inr gx, Inr gy, Inr hxx, Inr hyy, Inr hxy,
               Inr \<lparr>shape = N # dt, data = td\<rparr>, sigma)) s)
        = (let out = minkowski_functionals (junk s) md (case mko of Py_None \<Rightarrow> None | Obj mk \<Rightarrow> Some (data mk))
                       (c_int (int side)) sigma (data gx) (data gy) (data hxx) (data hyy) (data hxy) (int N) td
                       (replicate (N - 1) 0) (replicate (N - 1) 0) (replicate (N - 1) 0)
           in Some (Vectors [Some (DoubleArray \<lparr>shape = [N - 1], data = fst out\<rparr>),
                             Some (DoubleArray \<lparr>shape = [N - 1], data = fst (snd out)\<rparr>),
                             Some (DoubleArray \<lparr>shape = [N - 1], data = snd (snd out)\<rparr>)]))"
proof -
  from assms have "c_int (int N) = int N" "nat (int N - 1) = N - 1" "1 \<le> int N"
    by (simp_all add: c_int_nat nat_diff_distrib)
  with assms(3) show ?thesis by (simp add: minkowski_returned Let_def case_prod_unfold)
qed

text \<open>
  C3, as amended. \<^verbatim>\<open>peakCount\<close> and \<^verbatim>\<open>minkowski\<close> never look at the values of the bin
  edges. With arguments that are arrays and outputs that can be allocated, a call with
  \<open>N\<close> edges, \<open>1 \<le> N \<le> 2^31 - 1\<close>, hands the edges as they are (a single edge, edges in any
  order) to the kernel, with \<open>N\<close> and zero-filled outputs of length \<open>N - 1\<close>, and returns the
  vectors the kernel computed. Only an empty thresholds array makes the call fail:
  nothing is returned, and with array arguments the failure is the \<^verbatim>\<open>ValueError\<close> of the
  output that cannot have the length \<open>-1\<close> (in \<^verbatim>\<open>minkowski\<close> a \<^verbatim>\<open>MemoryError\<close> when the result
  tuple cannot be allocated either), before the kernel is invoked (the outcome is the
  same for every kernel).
\<close>

theorem C3_thresholds_not_validated:
  "(1 \<le> N \<and> N < 2 ^ 31 \<and> next_allocs_ok 1 s \<longrightarrow>
      returned (topology_peakCount peak_count
        (Inr (Inr \<lparr>shape = side # dm, data = md\<rparr>, map_pyarg Inr mko, Inr \<lparr>shape = N # dt, data = td\<rparr>, sigma)) s)
        = Some (Vector (DoubleArray \<lparr>shape = [N - 1],
             data = peak_count (junk s) md (case mko of Py_None \<Rightarrow> None | Obj mk \<Rightarrow> Some (data mk))
                      (c_int (int side)) sigma (int N) td (replicate (N - 1) 0)\<rparr>)))
   \<and> (1 \<le> N \<and> N < 2 ^ 31 \<and> next_allocs_ok 4 s \<longrightarrow>
      returned (topology_minkowski minkowski_functionals
        (Inr (Inr \<lparr>shape = side # dm, data = md\<rparr>, map_pyarg Inr mko, Inr gx, Inr gy, Inr hxx, Inr hyy, Inr hxy,
               Inr \<lparr>shape = N # dt, data = td\<rparr>, sigma)) s)
        = (let out = minkowski_functionals (junk s) md (case mko of Py_None \<Rightarrow> None | Obj mk \<Rightarrow> Some (data mk))
                       (c_int (int side)) sigma (data gx) (data gy) (data hxx) (data hyy) (data hxy) (int N) td
                       (replicate (N - 1) 0) (replicate (N - 1) 0) (replicate (N - 1) 0)
           in Some (Vectors [Some (DoubleArray \<lparr>shape = [N - 1], data = fst out\<rparr>),
                             Some (DoubleArray \<lparr>shape = [N - 1], data = fst (snd out)\<rparr>),
                             Some (DoubleArray \<lparr>shape = [N - 1], data = snd (snd out)\<rparr>)])))
   \<and> returned (topology_peakCount peak_count
        (Inr (map_obj, mask_obj, Inr \<lparr>shape = 0 # dt, data = td\<rparr>, sigma)) s) = None
   \<and> returned (topology_minkowski minkowski_functionals
        (Inr (map_obj, mask_obj, grad_x_obj, grad_y_obj, hess_xx_obj, hess_yy_obj, hess_xy_obj,
               Inr \<lparr>shape = 0 # dt, data = td\<rparr>, sigma)) s) = None
   \<and> (\<exists>s'. (\<forall>k. topology_peakCount k
            (Inr (Inr \<lparr>shape = side # dm, data = md\<rparr>, map_pyarg Inr mko, Inr \<lparr>shape = 0 # dt, data = td\<rparr>, sigma)) s
              = Returns None s')
        \<and> err_indicator s' = Some ValueError)
   \<and> (\<exists>s'. (\<forall>k. topology_minkowski k
            (Inr (Inr \<lparr>shape = side # dm, data = md\<rparr>, map_pyarg Inr mko, Inr gx, Inr gy, Inr hxx, Inr hyy, Inr hxy,
                   Inr \<lparr>shape = 0 # dt, data = td\<rparr>, sigma)) s
              = Returns None s')
        \<and> err_indicator s' = Some (if next_allocs_ok 1 s then ValueError else MemoryError))"
  using peakCount_any_thresholds [of N s peak_count side dm md mko dt td sigma]
    minkowski_any_thresholds [of N s minkowski_functionals side dm md mko gx gy hxx hyy hxy dt td sigma]
    peakCount_no_thresholds [of side dm md mko dt td sigma s]
    minkowski_no_thresholds [of side dm md mko gx gy hxx hyy hxy dt td sigma s]
    peakCount_empty_thresholds [of peak_count map_obj mask_obj dt td sigma s]
    minkowski_empty_thresholds [of minkowski_functionals map_obj mask_obj grad_x_obj grad_y_obj
      hess_xx_obj hess_yy_obj hess_xy_obj dt td sigma s]
  by blast

text \<open>
  Two edges in descending order, \<open>[2, 1]\<close>, and kernels that copy edges into their
  outputs: \<^verbatim>\<open>peakCount\<close> returns \<open>[2]\<close>, \<^verbatim>\<open>minkowski\<close> returns \<open>[2]\<close>, \<open>[1]\<close> and \<open>[0]\<close>.
\<close>

theorem C3_thresholds_not_validated_witness:
  "1 \<le> (2 :: nat) \<and> (2 :: nat) < 2 ^ 31 \<and> next_allocs_ok 1 \<lparr>err_indicator = None, refcnt = [], allocs = [], junk = (\<lambda>h i. 0 :: real)\<rparr> \<and> next_allocs_ok 4 \<lparr>err_indicator = None, refcnt = [], allocs = [], junk = (\<lambda>h i. 0 :: real)\<rparr>
   \<and> returned (topology_peakCount (\<lambda>(mem :: nat \<Rightarrow> nat \<Rightarrow> real) (m :: real list) (mp :: bool list option) (n :: int) (sg :: real) (nt :: int) (t :: real list) (out :: real list). out[0 := t ! 0])
        (Inr (Inr \<lparr>shape = [2, 2], data = [0, 0, 9, 0 :: real]\<rparr>, Py_None, Inr \<lparr>shape = [2], data = [2, 1 :: real]\<rparr>, 1)) \<lparr>err_indicator = None, refcnt = [], allocs = [], junk = (\<lambda>h i. 0 :: real)\<rparr>)
     = Some (Vector (DoubleArray \<lparr>shape = [1], data = [2]\<rparr>))
   \<and> returned (topology_minkowski (\<lambda>(mem :: nat \<Rightarrow> nat \<Rightarrow> real) (m :: real list) (mp :: bool list option) (n :: int) (sg :: real) (gx :: real list) (gy :: real list) (hxx :: real list) (hyy :: real list) (hxy :: real list) (nt :: int) (t :: real list) (v0 :: real list) (v1 :: real list) (v2 :: real list). (v0[0 := t ! 0], v1[0 := t ! 1], v2))
        (Inr (Inr \<lparr>shape = [1, 1], data = [5 :: real]\<rparr>, Py_None, Inr \<lparr>shape = [1, 1], data = [0 :: real]\<rparr>, Inr \<lparr>shape = [1, 1], data = [0 :: real]\<rparr>, Inr \<lparr>shape = [1, 1], data = [0 :: real]\<rparr>, Inr \<lparr>shape = [1, 1], data = [0 :: real]\<rparr>, Inr \<lparr>shape = [1, 1], data = [0 :: real]\<rparr>, Inr \<lparr>shape = [2], data = [2, 1 :: real]\<rparr>, 1)) \<lparr>err_indicator = None, refcnt = [], allocs = [], junk = (\<lambda>h i. 0 :: real)\<rparr>)
     = Some (Vectors [Some (DoubleArray \<lparr>shape = [1], data = [2]\<rparr>), Some (DoubleArray \<lparr>shape = [1], data = [1]\<rparr>), Some (DoubleArray \<lparr>shape = [1], data = [0]\<rparr>)])"
proof -
  have h: "1 \<le> (2 :: nat)" "(2 :: nat) < 2 ^ 31" "next_allocs_ok 1 \<lparr>err_indicator = None, refcnt = [], allocs = [], junk = (\<lambda>h i. 0 :: real)\<rparr>" "next_allocs_ok 4 \<lparr>err_indicator = None, refcnt = [], allocs = [], junk = (\<lambda>h i. 0 :: real)\<rparr>"
    by (simp_all add: next_allocs_ok_def)
  have c: "c_int 2 = 2" "c_int 1 = 1" by (simp_all add: c_int_def)
  note t = C3_thresholds_not_validated [where N = 2 and s = "\<lparr>err_indicator = None, refcnt = [], allocs = [], junk = (\<lambda>h i. 0 :: real)\<rparr>" and mko = Py_None and dt = "[]"
      and td = "[2, 1 :: real]" and sigma = "1 :: real"]
  from t [where peak_count = "(\<lambda>(mem :: nat \<Rightarrow> nat \<Rightarrow> real) (m :: real list) (mp :: bool list option) (n :: int) (sg :: real) (nt :: int) (t :: real list) (out :: real list). out[0 := t ! 0])" and side = 2 and dm = "[2]" and md = "[0, 0, 9, 0 :: real]", THEN conjunct1] h
  have p: "returned (topology_peakCount (\<lambda>(mem :: nat \<Rightarrow> nat \<Rightarrow> real) (m :: real list) (mp :: bool list option) (n :: int) (sg :: real) (nt :: int) (t :: real list) (out :: real list). out[0 := t ! 0])
        (Inr (Inr \<lparr>shape = [2, 2], data = [0, 0, 9, 0 :: real]\<rparr>, Py_None, Inr \<lparr>shape = [2], data = [2, 1 :: real]\<rparr>, 1)) \<lparr>err_indicator = None, refcnt = [], allocs = [], junk = (\<lambda>h i. 0 :: real)\<rparr>)
     = Some (Vector (DoubleArray \<lparr>shape = [1], data = [2]\<rparr>))" by (simp add: c)
  from t [where minkowski_functionals = "(\<lambda>(mem :: nat \<Rightarrow> nat \<Rightarrow> real) (m :: real list) (mp :: bool list option) (n :: int) (sg :: real) (gx :: real list) (gy :: real list) (hxx :: real list) (hyy :: real list) (hxy :: real list) (nt :: int) (t :: real list) (v0 :: real list) (v1 :: real list) (v2 :: real list). (v0[0 := t ! 0], v1[0 := t ! 1], v2))" and side = 1 and dm = "[1]" and md = "[5 :: real]"
      and gx = "\<lparr>shape = [1, 1], data = [0 :: real]\<rparr>" and gy = "\<lparr>shape = [1, 1], data = [0 :: real]\<rparr>" and hxx = "\<lparr>shape = [1, 1], data = [0 :: real]\<rparr>" and hyy = "\<lparr>shape = [1, 1], data = [0 :: real]\<rparr>" and hxy = "\<lparr>shape = [1, 1], data = [0 :: real]\<rparr>",
      THEN conjunct2, THEN conjunct1] h
  have m: "returned (topology_minkowski (\<lambda>(mem :: nat \<Rightarrow> nat \<Rightarrow> real) (m :: real list) (mp :: bool list option) (n :: int) (sg :: real) (gx :: real list) (gy :: real list) (hxx :: real list) (hyy :: real list) (hxy :: real list) (nt :: int) (t :: real list) (v0 :: real list) (v1 :: real list) (v2 :: real list). (v0[0 := t ! 0], v1[0 := t ! 1], v2))
        (Inr (Inr \<lparr>shape = [1, 1], data = [5 :: real]\<rparr>, Py_None, Inr \<lparr>shape = [1, 1], data = [0 :: real]\<rparr>, Inr \<lparr>shape = [1, 1], data = [0 :: real]\<rparr>, Inr \<lparr>shape = [1, 1], data = [0 :: real]\<rparr>, Inr \<lparr>shape = [1, 1], data = [0 :: real]\<rparr>, Inr \<lparr>shape = [1, 1], data = [0 :: real]\<rparr>, Inr \<lparr>shape = [2], data = [2, 1 :: real]\<rparr>, 1)) \<lparr>err_indicator = None, refcnt = [], allocs = [], junk = (\<lambda>h i. 0 :: real)\<rparr>)
     = Some (Vectors [Some (DoubleArray \<lparr>shape = [1], data = [2]\<rparr>), Some (DoubleArray \<lparr>shape = [1], data = [1]\<rparr>), Some (DoubleArray \<lparr>shape = [1], data = [0]\<rparr>)])" by (simp add: c)
  from h p m show ?thesis by (intro conjI)
qed

text \<open>
  The claim as stated fails: with the edges \<open>[2, 1]\<close>, which are not increasing, and with
  the single edge \<open>[5]\<close>, \<^verbatim>\<open>peakCount\<close> invokes the kernel (which writes the first edge into
  the first bin here) and returns a vector: of one bin, and of no bin.
\<close>

theorem C3_counterexample:
  "returned (topology_peakCount (\<lambda>(mem :: nat \<Rightarrow> nat \<Rightarrow> real) (m :: real list) (mp :: bool list option) (n :: int) (sg :: real) (nt :: int) (t :: real list) (out :: real list). out[0 := t ! 0])
        (Inr (Inr \<lparr>shape = [2, 2], data = [0, 0, 9, 0 :: real]\<rparr>, Py_None, Inr \<lparr>shape = [2], data = [2, 1 :: real]\<rparr>, 1)) \<lparr>err_indicator = None, refcnt = [], allocs = [], junk = (\<lambda>h i. 0 :: real)\<rparr>)
     = Some (Vector (DoubleArray \<lparr>shape = [1], data = [2]\<rparr>))
   \<and> \<not> (2 :: real) < 1
   \<and> returned (topology_peakCount (\<lambda>(mem :: nat \<Rightarrow> nat \<Rightarrow> real) (m :: real list) (mp :: bool list option) (n :: int) (sg :: real) (nt :: int) (t :: real list) (out :: real list). out[0 := t ! 0])
        (Inr (Inr \<lparr>shape = [2, 2], data = [0, 0, 9, 0 :: real]\<rparr>, Py_None, Inr \<lparr>shape = [1], data = [5 :: real]\<rparr>, 1)) \<lparr>err_indicator = None, refcnt = [], allocs = [], junk = (\<lambda>h i. 0 :: real)\<rparr>)
     = Some (Vector (DoubleArray \<lparr>shape = [0], data = []\<rparr>))"
  using peakCount_returned [where mko = Py_None and s = "\<lparr>err_indicator = None, refcnt = [], allocs = [], junk = (\<lambda>h i. 0 :: real)\<rparr>", simplified]
  by (simp add: c_int_def next_allocs_ok_def)
subsection \<open>C4: what \<^verbatim>\<open>gradient\<close> returns, and when it fails\<close>

lemma gradient_shapes:
  assumes "side < 2 ^ 31"
    and "returned (topology_gradient gradient_xy (Inr (Inr \<lparr>shape = side # dm, data = md\<rparr>)) s) = Some v"
  shows "map shape_of (vectors v) = [[side, side], [side, side]]"
  using assms by (auto simp: gradient_returned c_int_nat Let_def case_prod_unfold split: if_splits)

lemma gradient_succeeds:
  assumes "side < 2 ^ 30" and "next_allocs_ok 3 s"
  shows "returned (topology_gradient gradient_xy (Inr (Inr \<lparr>shape = side # dm, data = md\<rparr>)) s)
           = (let h = length (refcnt s);
                  out = gradient_xy (junk s) md (map (junk s (Suc h)) [0 ..< side * side])
                          (map (junk s (Suc (Suc h))) [0 ..< side * side]) (int side)
              in Some (Vectors [Some (DoubleArray \<lparr>shape = [side, side], data = fst out\<rparr>),
                                Some (DoubleArray \<lparr>shape = [side, side], data = snd out\<rparr>)]))"
proof -
  from assms(1) have "side < 2 ^ 31" by simp
  then have c: "c_int (int side) = int side" by (rule c_int_nat)
  have n: "nat (int side * int side) = side * side" by (simp add: nat_mult_distrib)
  from assms have "int side < 2 ^ 30" by simp
  with assms(2) show ?thesis
    by (simp add: gradient_returned c n Let_def case_prod_unfold)
qed

lemma gradient_unparsed:
  "topology_gradient gradient_xy (Inl e) s = Returns None (PyErr_Set e s)"
  by (simp add: topology_gradient_def)

lemma gradient_unconverted:
  "topology_gradient gradient_xy (Inr (Inl e)) s = Returns None (PyErr_Set e s)"
  by (simp add: topology_gradient_def PyArray_FROM_OTF_def)

lemma gradient_out_of_memory:
  assumes "side < 2 ^ 30" and "\<not> next_allocs_ok 2 s"
  shows "\<exists>s'. topology_gradient gradient_xy (Inr (Inr \<lparr>shape = side # dm, data = md\<rparr>)) s = Returns None s'
           \<and> err_indicator s' = Some MemoryError"
proof -
  from assms(1) have "side < 2 ^ 31" by simp
  then have c: "c_int (int side) = int side" by (rule c_int_nat)
  from assms have "int side < 2 ^ 30" by simp
  with assms(2) show ?thesis
    by (auto simp: topology_gradient_def eval_defs c)
qed

lemma gradient_too_big:
  assumes "2 ^ 30 \<le> side" and "side < 2 ^ 31"
  shows "\<exists>s'. topology_gradient gradient_xy (Inr (Inr \<lparr>shape = side # dm, data = md\<rparr>)) s = Returns None s'
           \<and> err_indicator s' = Some ValueError"
proof -
  from assms(2) have c: "c_int (int side) = int side" by (rule c_int_nat)
  from assms have "2 ^ 30 \<le> int side" by simp
  then show ?thesis
    by (simp add: topology_gradient_def eval_defs c)
qed

text \<open>
  C4, as amended. For an input whose first dimension \<open>n\<close> is at most \<open>2^30 - 1\<close>, \<^verbatim>\<open>gradient\<close>
  returns, whenever the argument is an array and the three allocations succeed, the pair
  (grad_x, grad_y) of two \<open>n \<times> n\<close> arrays, as the kernel \<^verbatim>\<open>gradient_xy\<close> left them when it was
  handed the map and the side \<open>n\<close>; and every pair it returns has these shapes: the shape
  of the input when the input is a square 2D field. No shape is compared and no failure
  comes from a mismatch of shapes. The call returns \<^verbatim>\<open>NULL\<close> with the exception that
  \<^verbatim>\<open>PyArg_ParseTuple\<close> left when the arguments do not parse, with the exception of the
  conversion when the argument is not an array, with a \<^verbatim>\<open>MemoryError\<close> when one of the two
  output arrays cannot be allocated, and with the \<^verbatim>\<open>ValueError\<close> of numpy for an array that
  is too big when \<open>n\<close> is \<open>2^30\<close> or more (up to \<open>2^31 - 1\<close>).
\<close>

theorem C4_gradient:
  "(side < 2 ^ 30 \<and> next_allocs_ok 3 s \<longrightarrow>
      returned (topology_gradient gradient_xy (Inr (Inr \<lparr>shape = side # dm, data = md\<rparr>)) s)
           = (let h = length (refcnt s);
                  out = gradient_xy (junk s) md (map (junk s (Suc h)) [0 ..< side * side])
                          (map (junk s (Suc (Suc h))) [0 ..< side * side]) (int side)
              in Some (Vectors [Some (DoubleArray \<lparr>shape = [side, side], data = fst out\<rparr>),
                                Some (DoubleArray \<lparr>shape = [side, side], data = snd out\<rparr>)])))
   \<and> (side < 2 ^ 31 \<and>
        returned (topology_gradient gradient_xy (Inr (Inr \<lparr>shape = side # dm, data = md\<rparr>)) s) = Some v \<longrightarrow>
      map shape_of (vectors v) = [[side, side], [side, side]])
   \<and> topology_gradient gradient_xy (Inl e) s = Returns None (PyErr_Set e s)
   \<and> topology_gradient gradient_xy (Inr (Inl e)) s = Returns None (PyErr_Set e s)
   \<and> (side < 2 ^ 30 \<and> \<not> next_allocs_ok 2 s \<longrightarrow>
      (\<exists>s'. topology_gradient gradient_xy (Inr (Inr \<lparr>shape = side # dm, data = md\<rparr>)) s = Returns None s'
           \<and> err_indicator s' = Some MemoryError))
   \<and> (2 ^ 30 \<le> side \<and> side < 2 ^ 31 \<longrightarrow>
      (\<exists>s'. topology_gradient gradient_xy (Inr (Inr \<lparr>shape = side # dm, data = md\<rparr>)) s = Returns None s'
           \<and> err_indicator s' = Some ValueError))"
  using gradient_succeeds [of side s gradient_xy dm md] gradient_shapes [of side gradient_xy dm md s v]
    gradient_unparsed [of gradient_xy e s] gradient_unconverted [of gradient_xy e s]
    gradient_out_of_memory [of side s gradient_xy dm md] gradient_too_big [of side gradient_xy dm md s]
  by blast

text \<open>
  A \<open>2 \<times> 2\<close> map and a kernel that fills grad_x with 1 and grad_y with 2: two \<open>2 \<times> 2\<close>
  arrays; no result when the second array cannot be allocated; and no result for a map
  of \<open>2^30\<close> rows (and no column).
\<close>

theorem C4_gradient_witness:
  "(2 :: nat) < 2 ^ 30 \<and> (2 :: nat) < 2 ^ 31 \<and> next_allocs_ok 3 \<lparr>err_indicator = None, refcnt = [], allocs = [], junk = (\<lambda>h i. 0 :: real)\<rparr> \<and> \<not> next_allocs_ok 2 \<lparr>err_indicator = None, refcnt = [], allocs = [True, False], junk = (\<lambda>h i. 0 :: real)\<rparr> \<and> 2 ^ 30 \<le> (1073741824 :: nat) \<and> (1073741824 :: nat) < 2 ^ 31
   \<and> returned (topology_gradient (\<lambda>(mem :: nat \<Rightarrow> nat \<Rightarrow> real) (m :: real list) (gx :: real list) (gy :: real list) (n :: int). (map (\<lambda>x. 1 :: real) gx, map (\<lambda>x. 2 :: real) gy)) (Inr (Inr \<lparr>shape = [2, 2], data = [0, 0, 9, 0 :: real]\<rparr>)) \<lparr>err_indicator = None, refcnt = [], allocs = [], junk = (\<lambda>h i. 0 :: real)\<rparr>)
       = Some (Vectors [Some (DoubleArray \<lparr>shape = [2, 2], data = [1, 1, 1, 1 :: real]\<rparr>), Some (DoubleArray \<lparr>shape = [2, 2], data = [2, 2, 2, 2]\<rparr>)])
   \<and> map shape_of (vectors (Vectors [Some (DoubleArray \<lparr>shape = [2, 2], data = [1, 1, 1, 1 :: real]\<rparr>), Some (DoubleArray \<lparr>shape = [2, 2], data = [2, 2, 2, 2]\<rparr>)])) = [[2, 2], [2, 2]]
   \<and> (\<exists>s'. topology_gradient (\<lambda>(mem :: nat \<Rightarrow> nat \<Rightarrow> real) (m :: real list) (gx :: real list) (gy :: real list) (n :: int). (map (\<lambda>x. 1 :: real) gx, map (\<lambda>x. 2 :: real) gy)) (Inr (Inr \<lparr>shape = [2, 2], data = [0, 0, 9, 0 :: real]\<rparr>)) \<lparr>err_indicator = None, refcnt = [], allocs = [True, False], junk = (\<lambda>h i. 0 :: real)\<rparr> = Returns None s'
           \<and> err_indicator s' = Some MemoryError)
   \<and> (\<exists>s'. topology_gradient (\<lambda>(mem :: nat \<Rightarrow> nat \<Rightarrow> real) (m :: real list) (gx :: real list) (gy :: real list) (n :: int). (map (\<lambda>x. 1 :: real) gx, map (\<lambda>x. 2 :: real) gy)) (Inr (Inr \<lparr>shape = [1073741824, 0], data = ([] :: real list)\<rparr>)) \<lparr>err_indicator = None, refcnt = [], allocs = [], junk = (\<lambda>h i. 0 :: real)\<rparr> = Returns None s'
           \<and> err_indicator s' = Some ValueError)"
proof -
  have h: "(2 :: nat) < 2 ^ 30" "(2 :: nat) < 2 ^ 31" "next_allocs_ok 3 \<lparr>err_indicator = None, refcnt = [], allocs = [], junk = (\<lambda>h i. 0 :: real)\<rparr>" "\<not> next_allocs_ok 2 \<lparr>err_indicator = None, refcnt = [], allocs = [True, False], junk = (\<lambda>h i. 0 :: real)\<rparr>" "2 ^ 30 \<le> (1073741824 :: nat)" "(1073741824 :: nat) < 2 ^ 31"
    by (simp_all add: next_allocs_ok_def)
  note t = C4_gradient [where gradient_xy = "(\<lambda>(mem :: nat \<Rightarrow> nat \<Rightarrow> real) (m :: real list) (gx :: real list) (gy :: real list) (n :: int). (map (\<lambda>x. 1 :: real) gx, map (\<lambda>x. 2 :: real) gy))"]
  note u = t [where side = 2 and dm = "[2]" and md = "[0, 0, 9, 0 :: real]"]
  from u [where s = "\<lparr>err_indicator = None, refcnt = [], allocs = [], junk = (\<lambda>h i. 0 :: real)\<rparr>", THEN conjunct1] h
  have r: "returned (topology_gradient (\<lambda>(mem :: nat \<Rightarrow> nat \<Rightarrow> real) (m :: real list) (gx :: real list) (gy :: real list) (n :: int). (map (\<lambda>x. 1 :: real) gx, map (\<lambda>x. 2 :: real) gy)) (Inr (Inr \<lparr>shape = [2, 2], data = [0, 0, 9, 0 :: real]\<rparr>)) \<lparr>err_indicator = None, refcnt = [], allocs = [], junk = (\<lambda>h i. 0 :: real)\<rparr>)
       = Some (Vectors [Some (DoubleArray \<lparr>shape = [2, 2], data = [1, 1, 1, 1 :: real]\<rparr>), Some (DoubleArray \<lparr>shape = [2, 2], data = [2, 2, 2, 2]\<rparr>)])"
    by (simp add: upt_rec)
  from u [where s = "\<lparr>err_indicator = None, refcnt = [], allocs = [], junk = (\<lambda>h i. 0 :: real)\<rparr>" and v = "Vectors [Some (DoubleArray \<lparr>shape = [2, 2], data = [1, 1, 1, 1 :: real]\<rparr>), Some (DoubleArray \<lparr>shape = [2, 2], data = [2, 2, 2, 2]\<rparr>)]", THEN conjunct2, THEN conjunct1] h r
  have a: "map shape_of (vectors (Vectors [Some (DoubleArray \<lparr>shape = [2, 2], data = [1, 1, 1, 1 :: real]\<rparr>), Some (DoubleArray \<lparr>shape = [2, 2], data = [2, 2, 2, 2]\<rparr>)])) = [[2, 2], [2, 2]]" by blast
  from u [where s = "\<lparr>err_indicator = None, refcnt = [], allocs = [True, False], junk = (\<lambda>h i. 0 :: real)\<rparr>", THEN conjunct2, THEN conjunct2, THEN conjunct2, THEN conjunct2, THEN conjunct1] h
  have b: "(\<exists>s'. topology_gradient (\<lambda>(mem :: nat \<Rightarrow> nat \<Rightarrow> real) (m :: real list) (gx :: real list) (gy :: real list) (n :: int). (map (\<lambda>x. 1 :: real) gx, map (\<lambda>x. 2 :: real) gy)) (Inr (Inr \<lparr>shape = [2, 2], data = [0, 0, 9, 0 :: real]\<rparr>)) \<lparr>err_indicator = None, refcnt = [], allocs = [True, False], junk = (\<lambda>h i. 0 :: real)\<rparr> = Returns None s'
           \<and> err_indicator s' = Some MemoryError)" by blast
  from t [where side = 1073741824 and dm = "[0]" and md = "[] :: real list" and s = "\<lparr>err_indicator = None, refcnt = [], allocs = [], junk = (\<lambda>h i. 0 :: real)\<rparr>",
      THEN conjunct2, THEN conjunct2, THEN conjunct2, THEN conjunct2, THEN conjunct2] h
  have c: "(\<exists>s'. topology_gradient (\<lambda>(mem :: nat \<Rightarrow> nat \<Rightarrow> real) (m :: real list) (gx :: real list) (gy :: real list) (n :: int). (map (\<lambda>x. 1 :: real) gx, map (\<lambda>x. 2 :: real) gy)) (Inr (Inr \<lparr>shape = [1073741824, 0], data = ([] :: real list)\<rparr>)) \<lparr>err_indicator = None, refcnt = [], allocs = [], junk = (\<lambda>h i. 0 :: real)\<rparr> = Returns None s'
           \<and> err_indicator s' = Some ValueError)" by blast
  from h r a b c show ?thesis by (intro conjI)
qed

text \<open>
  The claim as stated fails. For a field that is not square the shapes differ: for a
  \<open>2 \<times> 3\<close> field the two arrays returned are \<open>2 \<times> 2\<close>. And failures come without any
  mismatch of shapes: for a \<open>2 \<times> 2\<close> field when the first output cannot be allocated (a
  \<^verbatim>\<open>MemoryError\<close>), and for a field of \<open>2^30\<close> rows and no column (a \<^verbatim>\<open>ValueError\<close>).
\<close>

theorem C4_counterexample:
  "returned (topology_gradient (\<lambda>(mem :: nat \<Rightarrow> nat \<Rightarrow> real) (m :: real list) (gx :: real list) (gy :: real list) (n :: int). (map (\<lambda>x. 1 :: real) gx, map (\<lambda>x. 2 :: real) gy)) (Inr (Inr \<lparr>shape = [2, 3], data = [0, 0, 0, 0, 9, 0 :: real]\<rparr>)) \<lparr>err_indicator = None, refcnt = [], allocs = [], junk = (\<lambda>h i. 0 :: real)\<rparr>)
       = Some (Vectors [Some (DoubleArray \<lparr>shape = [2, 2], data = [1, 1, 1, 1 :: real]\<rparr>), Some (DoubleArray \<lparr>shape = [2, 2], data = [2, 2, 2, 2]\<rparr>)])
   \<and> [2, 2] \<noteq> [2, 3 :: nat]
   \<and> returned (topology_gradient (\<lambda>(mem :: nat \<Rightarrow> nat \<Rightarrow> real) (m :: real list) (gx :: real list) (gy :: real list) (n :: int). (map (\<lambda>x. 1 :: real) gx, map (\<lambda>x. 2 :: real) gy)) (Inr (Inr \<lparr>shape = [2, 2], data = [0, 0, 9, 0 :: real]\<rparr>)) \<lparr>err_indicator = None, refcnt = [], allocs = [False], junk = (\<lambda>h i. 0 :: real)\<rparr>) = None
   \<and> map_option err_indicator (state_after (topology_gradient (\<lambda>(mem :: nat \<Rightarrow> nat \<Rightarrow> real) (m :: real list) (gx :: real list) (gy :: real list) (n :: int). (map (\<lambda>x. 1 :: real) gx, map (\<lambda>x. 2 :: real) gy)) (Inr (Inr \<lparr>shape = [2, 2], data = [0, 0, 9, 0 :: real]\<rparr>)) \<lparr>err_indicator = None, refcnt = [], allocs = [False], junk = (\<lambda>h i. 0 :: real)\<rparr>)) = Some (Some MemoryError)
   \<and> returned (topology_gradient (\<lambda>(mem :: nat \<Rightarrow> nat \<Rightarrow> real) (m :: real list) (gx :: real list) (gy :: real list) (n :: int). (map (\<lambda>x. 1 :: real) gx, map (\<lambda>x. 2 :: real) gy)) (Inr (Inr \<lparr>shape = [1073741824, 0], data = ([] :: real list)\<rparr>)) \<lparr>err_indicator = None, refcnt = [], allocs = [], junk = (\<lambda>h i. 0 :: real)\<rparr>) = None
   \<and> map_option err_indicator (state_after (topology_gradient (\<lambda>(mem :: nat \<Rightarrow> nat \<Rightarrow> real) (m :: real list) (gx :: real list) (gy :: real list) (n :: int). (map (\<lambda>x. 1 :: real) gx, map (\<lambda>x. 2 :: real) gy)) (Inr (Inr \<lparr>shape = [1073741824, 0], data = ([] :: real list)\<rparr>)) \<lparr>err_indicator = None, refcnt = [], allocs = [], junk = (\<lambda>h i. 0 :: real)\<rparr>)) = Some (Some ValueError)"
  by (simp add: gradient_returned c_int_def next_allocs_ok_def upt_rec)
     (simp add: topology_gradient_def outcome_defs state_after_def c_int_def take_alloc_def)
subsection \<open>C2: no shape is compared\<close>

lemma peakCount_mask_shape:
  "topology_peakCount peak_count (Inr (map_obj, Obj (Inr \<lparr>shape = sh, data = d\<rparr>), thresholds_obj, sigma)) s =
   topology_peakCount peak_count (Inr (map_obj, Obj (Inr \<lparr>shape = sh', data = d\<rparr>), thresholds_obj, sigma)) s"
  by (cases map_obj; cases thresholds_obj)
     (simp_all add: topology_peakCount_def outcome_defs cong: if_cong)

lemma rfft2_ft2_shape:
  "topology_rfft2_azimuthal k (Inr (ft1, Inr \<lparr>shape = sh, data = d\<rparr>, angle, lv)) s =
   topology_rfft2_azimuthal k (Inr (ft1, Inr \<lparr>shape = sh', data = d\<rparr>, angle, lv)) s"
  by (cases ft1; cases lv)
     (simp_all add: topology_rfft2_azimuthal_def outcome_defs cong: if_cong)

lemma rfft3_ft2_shape:
  "topology_rfft3_azimuthal k (Inr (ft1, Inr \<lparr>shape = sh, data = d\<rparr>, kx, ky, kz, kv)) s =
   topology_rfft3_azimuthal k (Inr (ft1, Inr \<lparr>shape = sh', data = d\<rparr>, kx, ky, kz, kv)) s"
  by (cases ft1; cases kv)
     (simp_all add: topology_rfft3_azimuthal_def outcome_defs cong: if_cong)

lemma minkowski_mask_shape_converted:
  "topology_minkowski mf
     (Inr (Inr m, Obj (Inr \<lparr>shape = sh, data = d\<rparr>), Inr gx, Inr gy, Inr hxx, Inr hyy, Inr hxy, Inr t, sigma)) s =
   topology_minkowski mf
     (Inr (Inr m, Obj (Inr \<lparr>shape = sh', data = d\<rparr>), Inr gx, Inr gy, Inr hxx, Inr hyy, Inr hxy, Inr t, sigma)) s"
  by (simp add: topology_minkowski_def outcome_defs)

lemma minkowski_mask_unconverted:
  "isl map_obj \<or> isl gx \<or> isl gy \<or> isl hxx \<or> isl hyy \<or> isl hxy \<or> isl t \<Longrightarrow>
   topology_minkowski mf (Inr (map_obj, mask1, gx, gy, hxx, hyy, hxy, t, sigma)) s =
   topology_minkowski mf (Inr (map_obj, mask2, gx, gy, hxx, hyy, hxy, t, sigma)) s"
  by (cases map_obj; cases gx; cases gy; cases hxx; cases hyy; cases hxy; cases t; simp;
      simp add: topology_minkowski_def PyArray_FROM_OTF_def new_ref_def Let_def)

lemma minkowski_mask_shape:
  "topology_minkowski mf
     (Inr (map_obj, Obj (Inr \<lparr>shape = sh, data = d\<rparr>), gx, gy, hxx, hyy, hxy, thresholds_obj, sigma)) s =
   topology_minkowski mf
     (Inr (map_obj, Obj (Inr \<lparr>shape = sh', data = d\<rparr>), gx, gy, hxx, hyy, hxy, thresholds_obj, sigma)) s"
proof (cases "isl map_obj \<or> isl gx \<or> isl gy \<or> isl hxx \<or> isl hyy \<or> isl hxy \<or> isl thresholds_obj")
  case True
  then show ?thesis by (rule minkowski_mask_unconverted)
next
  case False
  then have "\<exists>a. map_obj = Inr a" "\<exists>a. gx = Inr a" "\<exists>a. gy = Inr a" "\<exists>a. hxx = Inr a"
    "\<exists>a. hyy = Inr a" "\<exists>a. hxy = Inr a" "\<exists>a. thresholds_obj = Inr a"
    by (simp_all add: not_isl_Inr)
  then show ?thesis by (auto simp: minkowski_mask_shape_converted)
qed

lemma peakCount_any_mask:
  assumes "1 \<le> N" "N < 2 ^ 31" "side < 2 ^ 31" "next_allocs_ok 1 s"
  shows "\<exists>r s'. topology_peakCount peak_count
            (Inr (Inr \<lparr>shape = side # dm, data = md\<rparr>, Obj (Inr \<lparr>shape = sh, data = mask_data\<rparr>),
                  Inr \<lparr>shape = N # dt, data = td\<rparr>, sigma)) s
              = Returns (Some r) s'
          \<and> err_indicator s' = err_indicator s
          \<and> value_of r = Vector (DoubleArray \<lparr>shape = [N - 1],
               data = peak_count (junk s) md (Some mask_data) (int side) sigma (int N) td (replicate (N - 1) 0)\<rparr>)"
  using assms(4) int_args [OF assms(1,2)] c_int_nat [OF assms(3)]
  by (simp add: topology_peakCount_def eval_defs)

lemma minkowski_any_mask:
  assumes "1 \<le> N" "N < 2 ^ 31" "side < 2 ^ 31" "next_allocs_ok 4 s"
  shows "\<exists>r s'. topology_minkowski minkowski_functionals
            (Inr (Inr \<lparr>shape = side # dm, data = md\<rparr>, Obj (Inr \<lparr>shape = sh, data = mask_data\<rparr>),
                  Inr gx, Inr gy, Inr hxx, Inr hyy, Inr hxy, Inr \<lparr>shape = N # dt, data = td\<rparr>, sigma)) s
              = Returns (Some r) s'
          \<and> err_indicator s' = err_indicator s
          \<and> (let out = minkowski_functionals (junk s) md (Some mask_data) (int side) sigma (data gx) (data gy)
                          (data hxx) (data hyy) (data hxy) (int N) td
                          (replicate (N - 1) 0) (replicate (N - 1) 0) (replicate (N - 1) 0)
              in value_of r = Vectors [Some (DoubleArray \<lparr>shape = [N - 1], data = fst out\<rparr>),
                                       Some (DoubleArray \<lparr>shape = [N - 1], data = fst (snd out)\<rparr>),
                                       Some (DoubleArray \<lparr>shape = [N - 1], data = snd (snd out)\<rparr>)])"
  using assms(4) int_args [OF assms(1,2)] c_int_nat [OF assms(3)]
  by (simp add: topology_minkowski_def eval_defs INT_MIN_def)

lemma rfft2_any_ft2:
  assumes "1 \<le> N" "N < 2 ^ 31" "nx < 2 ^ 31" "ny < 2 ^ 31" "next_allocs_ok 1 s"
    and "fst (azimuthal_rfft (junk s) ft1_data ft2_data (int nx) (int ny) angle (int N) lv (replicate (N - 1) 0)) = 0"
  shows "\<exists>r s'. topology_rfft2_azimuthal azimuthal_rfft
            (Inr (Inr \<lparr>shape = nx # ny # dm, data = ft1_data\<rparr>, Inr \<lparr>shape = sh, data = ft2_data\<rparr>, angle,
                  Inr \<lparr>shape = N # dt, data = lv\<rparr>)) s
              = Returns (Some r) s'
          \<and> err_indicator s' = err_indicator s
          \<and> value_of r = Vector (DoubleArray \<lparr>shape = [N - 1],
               data = snd (azimuthal_rfft (junk s) ft1_data ft2_data (int nx) (int ny) angle (int N) lv
                             (replicate (N - 1) 0))\<rparr>)"
  using assms(5,6) int_args [OF assms(1,2)] c_int_nat [OF assms(3)] c_int_nat [OF assms(4)]
  by (simp add: topology_rfft2_azimuthal_def eval_defs)

lemma rfft3_any_ft2:
  assumes "1 \<le> N" "N < 2 ^ 31" "nx < 2 ^ 31" "ny < 2 ^ 31" "nz < 2 ^ 31" "next_allocs_ok 3 s"
    and "fst (azimuthal_rfft (junk s) ft1_data ft2_data (int nx) (int ny) (int nz) kx ky kz (int N) kv
                (replicate (N - 1) 0) (replicate (N - 1) 0)) = 0"
  shows "\<exists>r s'. topology_rfft3_azimuthal azimuthal_rfft
            (Inr (Inr \<lparr>shape = nx # ny # nz # dm, data = ft1_data\<rparr>, Inr \<lparr>shape = sh, data = ft2_data\<rparr>, kx, ky, kz,
                  Inr \<lparr>shape = N # dt, data = kv\<rparr>)) s
              = Returns (Some r) s'
          \<and> err_indicator s' = err_indicator s
          \<and> (let out = snd (azimuthal_rfft (junk s) ft1_data ft2_data (int nx) (int ny) (int nz) kx ky kz (int N) kv
                               (replicate (N - 1) 0) (replicate (N - 1) 0))
              in value_of r = Vectors [Some (LongArray \<lparr>shape = [N - 1], data = snd out\<rparr>),
                                       Some (DoubleArray \<lparr>shape = [N - 1], data = fst out\<rparr>)])"
  using assms(6,7) int_args [OF assms(1,2)] c_int_nat [OF assms(3)] c_int_nat [OF assms(4)] c_int_nat [OF assms(5)]
  by (simp add: topology_rfft3_azimuthal_def eval_defs)

text \<open>
  C2, as amended. No entry point compares the shapes of its arrays. A mask
  (\<^verbatim>\<open>peakCount\<close>, \<^verbatim>\<open>minkowski\<close>) or a second transform (\<^verbatim>\<open>rfft2_azimuthal\<close>,
  \<^verbatim>\<open>rfft3_azimuthal\<close>) of any shape is accepted. When the arguments are arrays, there
  are \<open>N\<close> bin edges, \<open>1 \<le> N \<le> 2^31 - 1\<close>, the side lengths read from the map or from the
  first transform are at most \<open>2^31 - 1\<close>, the outputs can be allocated and (for the
  azimuthal entry points) the kernel returns the status 0, the call returns its result
  and leaves the error indicator as it was; the result is what the kernel computed when
  it was handed the buffer of that mask or second transform together with those side
  lengths. And the outcome of any call (the value returned, the error, the state left)
  is the same whatever that shape is.
\<close>

theorem C2_shapes_not_compared:
  "(1 \<le> N \<and> N < 2 ^ 31 \<and> side < 2 ^ 31 \<and> next_allocs_ok 1 s \<longrightarrow>
      (\<exists>r s'. topology_peakCount peak_count
            (Inr (Inr \<lparr>shape = side # dm, data = md\<rparr>, Obj (Inr \<lparr>shape = sh, data = mask_data\<rparr>),
                  Inr \<lparr>shape = N # dt, data = td\<rparr>, sigma)) s
              = Returns (Some r) s'
          \<and> err_indicator s' = err_indicator s
          \<and> value_of r = Vector (DoubleArray \<lparr>shape = [N - 1],
               data = peak_count (junk s) md (Some mask_data) (int side) sigma (int N) td (replicate (N - 1) 0)\<rparr>)))
   \<and> (1 \<le> N \<and> N < 2 ^ 31 \<and> side < 2 ^ 31 \<and> next_allocs_ok 4 s \<longrightarrow>
      (\<exists>r s'. topology_minkowski minkowski_functionals
            (Inr (Inr \<lparr>shape = side # dm, data = md\<rparr>, Obj (Inr \<lparr>shape = sh, data = mask_data\<rparr>),
                  Inr gx, Inr gy, Inr hxx, Inr hyy, Inr hxy, Inr \<lparr>shape = N # dt, data = td\<rparr>, sigma)) s
              = Returns (Some r) s'
          \<and> err_indicator s' = err_indicator s
          \<and> (let out = minkowski_functionals (junk s) md (Some mask_data) (int side) sigma (data gx) (data gy)
                          (data hxx) (data hyy) (data hxy) (int N) td
                          (replicate (N - 1) 0) (replicate (N - 1) 0) (replicate (N - 1) 0)
              in value_of r = Vectors [Some (DoubleArray \<lparr>shape = [N - 1], data = fst out\<rparr>),
                                       Some (DoubleArray \<lparr>shape = [N - 1], data = fst (snd out)\<rparr>),
                                       Some (DoubleArray \<lparr>shape = [N - 1], data = snd (snd out)\<rparr>)])))
   \<and> (1 \<le> N \<and> N < 2 ^ 31 \<and> nx < 2 ^ 31 \<and> ny < 2 ^ 31 \<and> next_allocs_ok 1 s \<and>
      fst (azimuthal_2d (junk s) ft1_data ft2_data (int nx) (int ny) map_angle_degrees (int N) lv (replicate (N - 1) 0)) = 0 \<longrightarrow>
      (\<exists>r s'. topology_rfft2_azimuthal azimuthal_2d
            (Inr (Inr \<lparr>shape = nx # ny # dm, data = ft1_data\<rparr>, Inr \<lparr>shape = sh, data = ft2_data\<rparr>, map_angle_degrees,
                  Inr \<lparr>shape = N # dt, data = lv\<rparr>)) s
              = Returns (Some r) s'
          \<and> err_indicator s' = err_indicator s
          \<and> value_of r = Vector (DoubleArray \<lparr>shape = [N - 1],
               data = snd (azimuthal_2d (junk s) ft1_data ft2_data (int nx) (int ny) map_angle_degrees (int N) lv
                             (replicate (N - 1) 0))\<rparr>)))
   \<and> (1 \<le> N \<and> N < 2 ^ 31 \<and> nx < 2 ^ 31 \<and> ny < 2 ^ 31 \<and> nz < 2 ^ 31 \<and> next_allocs_ok 3 s \<and>
      fst (azimuthal_3d (junk s) ft1_data ft2_data (int nx) (int ny) (int nz) kpixX kpixY kpixZ (int N) kv
             (replicate (N - 1) 0) (replicate (N - 1) 0)) = 0 \<longrightarrow>
      (\<exists>r s'. topology_rfft3_azimuthal azimuthal_3d
            (Inr (Inr \<lparr>shape = nx # ny # nz # dm, data = ft1_data\<rparr>, Inr \<lparr>shape = sh, data = ft2_data\<rparr>, kpixX, kpixY, kpixZ,
                  Inr \<lparr>shape = N # dt, data = kv\<rparr>)) s
              = Returns (Some r) s'
          \<and> err_indicator s' = err_indicator s
          \<and> (let out = snd (azimuthal_3d (junk s) ft1_data ft2_data (int nx) (int ny) (int nz) kpixX kpixY kpixZ (int N) kv
                               (replicate (N - 1) 0) (replicate (N - 1) 0))
              in value_of r = Vectors [Some (LongArray \<lparr>shape = [N - 1], data = snd out\<rparr>),
                                       Some (DoubleArray \<lparr>shape = [N - 1], data = fst out\<rparr>)])))
   \<and> topology_peakCount peak_count
     (Inr (map_obj, Obj (Inr \<lparr>shape = sh, data = mask_data\<rparr>), thresholds_obj, sigma)) s =
   topology_peakCount peak_count
     (Inr (map_obj, Obj (Inr \<lparr>shape = sh', data = mask_data\<rparr>), thresholds_obj, sigma)) s
   \<and> topology_minkowski minkowski_functionals
     (Inr (map_obj, Obj (Inr \<lparr>shape = sh, data = mask_data\<rparr>), grad_x_obj, grad_y_obj, hess_xx_obj, hess_yy_obj,
            hess_xy_obj, thresholds_obj, sigma)) s =
   topology_minkowski minkowski_functionals
     (Inr (map_obj, Obj (Inr \<lparr>shape = sh', data = mask_data\<rparr>), grad_x_obj, grad_y_obj, hess_xx_obj, hess_yy_obj,
            hess_xy_obj, thresholds_obj, sigma)) s
   \<and> topology_rfft2_azimuthal azimuthal_2d
     (Inr (ft_map1_obj, Inr \<lparr>shape = sh, data = ft2_data\<rparr>, map_angle_degrees, lvalues_obj)) s =
   topology_rfft2_azimuthal azimuthal_2d
     (Inr (ft_map1_obj, Inr \<lparr>shape = sh', data = ft2_data\<rparr>, map_angle_degrees, lvalues_obj)) s
   \<and> topology_rfft3_azimuthal azimuthal_3d
     (Inr (ft_map1_obj, Inr \<lparr>shape = sh, data = ft2_data\<rparr>, kpixX, kpixY, kpixZ, kvalues_obj)) s =
   topology_rfft3_azimuthal azimuthal_3d
     (Inr (ft_map1_obj, Inr \<lparr>shape = sh', data = ft2_data\<rparr>, kpixX, kpixY, kpixZ, kvalues_obj)) s"
  using peakCount_any_mask [of N side s peak_count dm md sh mask_data dt td sigma]
    minkowski_any_mask [of N side s minkowski_functionals dm md sh mask_data gx gy hxx hyy hxy dt td sigma]
    rfft2_any_ft2 [of N nx ny s azimuthal_2d ft1_data ft2_data map_angle_degrees lv dm sh dt]
    rfft3_any_ft2 [of N nx ny nz s azimuthal_3d ft1_data ft2_data kpixX kpixY kpixZ kv dm sh dt]
    peakCount_mask_shape [of peak_count map_obj sh mask_data thresholds_obj sigma s sh']
    minkowski_mask_shape [of minkowski_functionals map_obj sh mask_data grad_x_obj grad_y_obj hess_xx_obj
      hess_yy_obj hess_xy_obj thresholds_obj sigma s sh']
    rfft2_ft2_shape [of azimuthal_2d ft_map1_obj sh ft2_data map_angle_degrees lvalues_obj s sh']
    rfft3_ft2_shape [of azimuthal_3d ft_map1_obj sh ft2_data kpixX kpixY kpixZ kvalues_obj s sh']
  by blast

text \<open>
  A \<open>2 \<times> 2\<close> map with a \<open>3 \<times> 3\<close> mask, and a \<open>1 \<times> 1\<close> (\<open>1 \<times> 1 \<times> 1\<close>) transform with a second
  transform that is \<open>2 \<times> 2\<close>, on two bin edges; the kernels write the first sample of the
  mask, or of the second transform, into the first bin.
\<close>

theorem C2_shapes_not_compared_witness:
  "1 \<le> (2 :: nat) \<and> (2 :: nat) < 2 ^ 31 \<and> (1 :: nat) < 2 ^ 31 \<and> next_allocs_ok 1 \<lparr>err_indicator = None, refcnt = [], allocs = [], junk = (\<lambda>h i. 0 :: real)\<rparr> \<and> next_allocs_ok 3 \<lparr>err_indicator = None, refcnt = [], allocs = [], junk = (\<lambda>h i. 0 :: real)\<rparr> \<and> next_allocs_ok 4 \<lparr>err_indicator = None, refcnt = [], allocs = [], junk = (\<lambda>h i. 0 :: real)\<rparr>
   \<and> fst ((\<lambda>(mem :: nat \<Rightarrow> nat \<Rightarrow> real) (f1 :: complex list) (f2 :: complex list) (nx :: int) (ny :: int) (ang :: real) (nv :: int) (lv :: real list) (pw :: real list). (0 :: int, pw[0 := Re (f2 ! 0)])) (junk \<lparr>err_indicator = None, refcnt = [], allocs = [], junk = (\<lambda>h i. 0 :: real)\<rparr>) [3] [5, 0, 0, 0] (int 1) (int 1) 1 (int 2) [1, 2] (replicate (2 - 1) 0)) = 0
   \<and> fst ((\<lambda>(mem :: nat \<Rightarrow> nat \<Rightarrow> real) (f1 :: complex list) (f2 :: complex list) (nx :: int) (ny :: int) (nz :: int) (kx :: real) (ky :: real) (kz :: real) (nv :: int) (kv :: real list) (pw :: real list) (hits :: int list). (0 :: int, pw[0 := Re (f2 ! 0)], hits[0 := 1])) (junk \<lparr>err_indicator = None, refcnt = [], allocs = [], junk = (\<lambda>h i. 0 :: real)\<rparr>) [3] [5, 0, 0, 0] (int 1) (int 1) (int 1) 1 1 1 (int 2) [1, 2] (replicate (2 - 1) 0) (replicate (2 - 1) 0)) = 0
   \<and> (\<exists>r s'. topology_peakCount (\<lambda>(mem :: nat \<Rightarrow> nat \<Rightarrow> real) (m :: real list) (mp :: bool list option) (n :: int) (sg :: real) (nt :: int) (t :: real list) (out :: real list). case mp of None \<Rightarrow> out | Some b \<Rightarrow> out[0 := (if b ! 0 then 1 else 0)])
        (Inr (Inr \<lparr>shape = [2, 2], data = [0, 0, 9, 0 :: real]\<rparr>, Obj (Inr \<lparr>shape = [3, 3], data = replicate 9 True\<rparr>), Inr \<lparr>shape = [2], data = [1, 2 :: real]\<rparr>, 1)) \<lparr>err_indicator = None, refcnt = [], allocs = [], junk = (\<lambda>h i. 0 :: real)\<rparr>
          = Returns (Some r) s'
        \<and> err_indicator s' = None
        \<and> value_of r = Vector (DoubleArray \<lparr>shape = [1], data = [1]\<rparr>))
   \<and> (\<exists>r s'. topology_minkowski (\<lambda>(mem :: nat \<Rightarrow> nat \<Rightarrow> real) (m :: real list) (mp :: bool list option) (n :: int) (sg :: real) (gx :: real list) (gy :: real list) (hxx :: real list) (hyy :: real list) (hxy :: real list) (nt :: int) (t :: real list) (v0 :: real list) (v1 :: real list) (v2 :: real list). case mp of None \<Rightarrow> (v0, v1, v2) | Some b \<Rightarrow> (v0[0 := (if b ! 0 then 1 else 0)], v1, v2))
        (Inr (Inr \<lparr>shape = [2, 2], data = [0, 0, 9, 0 :: real]\<rparr>, Obj (Inr \<lparr>shape = [3, 3], data = replicate 9 True\<rparr>), Inr \<lparr>shape = [1, 1], data = [0 :: real]\<rparr>, Inr \<lparr>shape = [1, 1], data = [0 :: real]\<rparr>, Inr \<lparr>shape = [1, 1], data = [0 :: real]\<rparr>, Inr \<lparr>shape = [1, 1], data = [0 :: real]\<rparr>, Inr \<lparr>shape = [1, 1], data = [0 :: real]\<rparr>, Inr \<lparr>shape = [2], data = [1, 2 :: real]\<rparr>, 1)) \<lparr>err_indicator = None, refcnt = [], allocs = [], junk = (\<lambda>h i. 0 :: real)\<rparr>
          = Returns (Some r) s'
        \<and> err_indicator s' = None
        \<and> value_of r = Vectors [Some (DoubleArray \<lparr>shape = [1], data = [1]\<rparr>), Some (DoubleArray \<lparr>shape = [1], data = [0]\<rparr>), Some (DoubleArray \<lparr>shape = [1], data = [0]\<rparr>)])
   \<and> (\<exists>r s'. topology_rfft2_azimuthal (\<lambda>(mem :: nat \<Rightarrow> nat \<Rightarrow> real) (f1 :: complex list) (f2 :: complex list) (nx :: int) (ny :: int) (ang :: real) (nv :: int) (lv :: real list) (pw :: real list). (0 :: int, pw[0 := Re (f2 ! 0)]))
        (Inr (Inr \<lparr>shape = [1, 1], data = [3 :: complex]\<rparr>, Inr \<lparr>shape = [2, 2], data = [5, 0, 0, 0 :: complex]\<rparr>, 1, Inr \<lparr>shape = [2], data = [1, 2 :: real]\<rparr>)) \<lparr>err_indicator = None, refcnt = [], allocs = [], junk = (\<lambda>h i. 0 :: real)\<rparr>
          = Returns (Some r) s'
        \<and> err_indicator s' = None
        \<and> value_of r = Vector (DoubleArray \<lparr>shape = [1], data = [5]\<rparr>))
   \<and> (\<exists>r s'. topology_rfft3_azimuthal (\<lambda>(mem :: nat \<Rightarrow> nat \<Rightarrow> real) (f1 :: complex list) (f2 :: complex list) (nx :: int) (ny :: int) (nz :: int) (kx :: real) (ky :: real) (kz :: real) (nv :: int) (kv :: real list) (pw :: real list) (hits :: int list). (0 :: int, pw[0 := Re (f2 ! 0)], hits[0 := 1]))
        (Inr (Inr \<lparr>shape = [1, 1, 1], data = [3 :: complex]\<rparr>, Inr \<lparr>shape = [2, 2], data = [5, 0, 0, 0 :: complex]\<rparr>, 1, 1, 1, Inr \<lparr>shape = [2], data = [1, 2 :: real]\<rparr>)) \<lparr>err_indicator = None, refcnt = [], allocs = [], junk = (\<lambda>h i. 0 :: real)\<rparr>
          = Returns (Some r) s'
        \<and> err_indicator s' = None
        \<and> value_of r = Vectors [Some (LongArray \<lparr>shape = [1], data = [1]\<rparr>), Some (DoubleArray \<lparr>shape = [1], data = [5]\<rparr>)])"
proof -
  have h: "1 \<le> (2 :: nat)" "(2 :: nat) < 2 ^ 31" "(1 :: nat) < 2 ^ 31" "next_allocs_ok 1 \<lparr>err_indicator = None, refcnt = [], allocs = [], junk = (\<lambda>h i. 0 :: real)\<rparr>" "next_allocs_ok 3 \<lparr>err_indicator = None, refcnt = [], allocs = [], junk = (\<lambda>h i. 0 :: real)\<rparr>" "next_allocs_ok 4 \<lparr>err_indicator = None, refcnt = [], allocs = [], junk = (\<lambda>h i. 0 :: real)\<rparr>"
    by (simp_all add: next_allocs_ok_def)
  have k: "fst ((\<lambda>(mem :: nat \<Rightarrow> nat \<Rightarrow> real) (f1 :: complex list) (f2 :: complex list) (nx :: int) (ny :: int) (ang :: real) (nv :: int) (lv :: real list) (pw :: real list). (0 :: int, pw[0 := Re (f2 ! 0)])) (junk \<lparr>err_indicator = None, refcnt = [], allocs = [], junk = (\<lambda>h i. 0 :: real)\<rparr>) [3] [5, 0, 0, 0] (int 1) (int 1) 1 (int 2) [1, 2] (replicate (2 - 1) 0)) = 0"
    "fst ((\<lambda>(mem :: nat \<Rightarrow> nat \<Rightarrow> real) (f1 :: complex list) (f2 :: complex list) (nx :: int) (ny :: int) (nz :: int) (kx :: real) (ky :: real) (kz :: real) (nv :: int) (kv :: real list) (pw :: real list) (hits :: int list). (0 :: int, pw[0 := Re (f2 ! 0)], hits[0 := 1])) (junk \<lparr>err_indicator = None, refcnt = [], allocs = [], junk = (\<lambda>h i. 0 :: real)\<rparr>) [3] [5, 0, 0, 0] (int 1) (int 1) (int 1) 1 1 1 (int 2) [1, 2] (replicate (2 - 1) 0) (replicate (2 - 1) 0)) = 0"
    by simp_all
  note t = C2_shapes_not_compared [where N = 2 and s = "\<lparr>err_indicator = None, refcnt = [], allocs = [], junk = (\<lambda>h i. 0 :: real)\<rparr>" and dt = "[]" and sh = "[3, 3]" and mask_data = "replicate 9 True"
      and td = "[1, 2 :: real]" and sigma = "1 :: real" and side = 2 and dm = "[2]" and md = "[0, 0, 9, 0 :: real]"]
  note u = C2_shapes_not_compared [where N = 2 and s = "\<lparr>err_indicator = None, refcnt = [], allocs = [], junk = (\<lambda>h i. 0 :: real)\<rparr>" and dt = "[]" and sh = "[2, 2]" and ft2_data = "[5, 0, 0, 0 :: complex]"
      and ft1_data = "[3 :: complex]" and nx = 1 and ny = 1 and nz = 1]
  from t [where peak_count = "(\<lambda>(mem :: nat \<Rightarrow> nat \<Rightarrow> real) (m :: real list) (mp :: bool list option) (n :: int) (sg :: real) (nt :: int) (t :: real list) (out :: real list). case mp of None \<Rightarrow> out | Some b \<Rightarrow> out[0 := (if b ! 0 then 1 else 0)])", THEN conjunct1] h
  have p: "(\<exists>r s'. topology_peakCount (\<lambda>(mem :: nat \<Rightarrow> nat \<Rightarrow> real) (m :: real list) (mp :: bool list option) (n :: int) (sg :: real) (nt :: int) (t :: real list) (out :: real list). case mp of None \<Rightarrow> out | Some b \<Rightarrow> out[0 := (if b ! 0 then 1 else 0)])
        (Inr (Inr \<lparr>shape = [2, 2], data = [0, 0, 9, 0 :: real]\<rparr>, Obj (Inr \<lparr>shape = [3, 3], data = replicate 9 True\<rparr>), Inr \<lparr>shape = [2], data = [1, 2 :: real]\<rparr>, 1)) \<lparr>err_indicator = None, refcnt = [], allocs = [], junk = (\<lambda>h i. 0 :: real)\<rparr>
          = Returns (Some r) s'
        \<and> err_indicator s' = None
        \<and> value_of r = Vector (DoubleArray \<lparr>shape = [1], data = [1]\<rparr>))"
    by simp
  from t [where minkowski_functionals = "(\<lambda>(mem :: nat \<Rightarrow> nat \<Rightarrow> real) (m :: real list) (mp :: bool list option) (n :: int) (sg :: real) (gx :: real list) (gy :: real list) (hxx :: real list) (hyy :: real list) (hxy :: real list) (nt :: int) (t :: real list) (v0 :: real list) (v1 :: real list) (v2 :: real list). case mp of None \<Rightarrow> (v0, v1, v2) | Some b \<Rightarrow> (v0[0 := (if b ! 0 then 1 else 0)], v1, v2))" and gx = "\<lparr>shape = [1, 1], data = [0 :: real]\<rparr>" and gy = "\<lparr>shape = [1, 1], data = [0 :: real]\<rparr>" and hxx = "\<lparr>shape = [1, 1], data = [0 :: real]\<rparr>" and hyy = "\<lparr>shape = [1, 1], data = [0 :: real]\<rparr>" and hxy = "\<lparr>shape = [1, 1], data = [0 :: real]\<rparr>",
      THEN conjunct2, THEN conjunct1] h
  have m: "(\<exists>r s'. topology_minkowski (\<lambda>(mem :: nat \<Rightarrow> nat \<Rightarrow> real) (m :: real list) (mp :: bool list option) (n :: int) (sg :: real) (gx :: real list) (gy :: real list) (hxx :: real list) (hyy :: real list) (hxy :: real list) (nt :: int) (t :: real list) (v0 :: real list) (v1 :: real list) (v2 :: real list). case mp of None \<Rightarrow> (v0, v1, v2) | Some b \<Rightarrow> (v0[0 := (if b ! 0 then 1 else 0)], v1, v2))
        (Inr (Inr \<lparr>shape = [2, 2], data = [0, 0, 9, 0 :: real]\<rparr>, Obj (Inr \<lparr>shape = [3, 3], data = replicate 9 True\<rparr>), Inr \<lparr>shape = [1, 1], data = [0 :: real]\<rparr>, Inr \<lparr>shape = [1, 1], data = [0 :: real]\<rparr>, Inr \<lparr>shape = [1, 1], data = [0 :: real]\<rparr>, Inr \<lparr>shape = [1, 1], data = [0 :: real]\<rparr>, Inr \<lparr>shape = [1, 1], data = [0 :: real]\<rparr>, Inr \<lparr>shape = [2], data = [1, 2 :: real]\<rparr>, 1)) \<lparr>err_indicator = None, refcnt = [], allocs = [], junk = (\<lambda>h i. 0 :: real)\<rparr>
          = Returns (Some r) s'
        \<and> err_indicator s' = None
        \<and> value_of r = Vectors [Some (DoubleArray \<lparr>shape = [1], data = [1]\<rparr>), Some (DoubleArray \<lparr>shape = [1], data = [0]\<rparr>), Some (DoubleArray \<lparr>shape = [1], data = [0]\<rparr>)])"
    by simp
  from u [where azimuthal_2d = "(\<lambda>(mem :: nat \<Rightarrow> nat \<Rightarrow> real) (f1 :: complex list) (f2 :: complex list) (nx :: int) (ny :: int) (ang :: real) (nv :: int) (lv :: real list) (pw :: real list). (0 :: int, pw[0 := Re (f2 ! 0)]))" and dm = "[]" and map_angle_degrees = "1 :: real" and lv = "[1, 2 :: real]",
      THEN conjunct2, THEN conjunct2, THEN conjunct1] h k
  have q2: "(\<exists>r s'. topology_rfft2_azimuthal (\<lambda>(mem :: nat \<Rightarrow> nat \<Rightarrow> real) (f1 :: complex list) (f2 :: complex list) (nx :: int) (ny :: int) (ang :: real) (nv :: int) (lv :: real list) (pw :: real list). (0 :: int, pw[0 := Re (f2 ! 0)]))
        (Inr (Inr \<lparr>shape = [1, 1], data = [3 :: complex]\<rparr>, Inr \<lparr>shape = [2, 2], data = [5, 0, 0, 0 :: complex]\<rparr>, 1, Inr \<lparr>shape = [2], data = [1, 2 :: real]\<rparr>)) \<lparr>err_indicator = None, refcnt = [], allocs = [], junk = (\<lambda>h i. 0 :: real)\<rparr>
          = Returns (Some r) s'
        \<and> err_indicator s' = None
        \<and> value_of r = Vector (DoubleArray \<lparr>shape = [1], data = [5]\<rparr>))"
    by simp
  from u [where azimuthal_3d = "(\<lambda>(mem :: nat \<Rightarrow> nat \<Rightarrow> real) (f1 :: complex list) (f2 :: complex list) (nx :: int) (ny :: int) (nz :: int) (kx :: real) (ky :: real) (kz :: real) (nv :: int) (kv :: real list) (pw :: real list) (hits :: int list). (0 :: int, pw[0 := Re (f2 ! 0)], hits[0 := 1]))" and dm = "[]" and kpixX = "1 :: real" and kpixY = "1 :: real" and kpixZ = "1 :: real"
      and kv = "[1, 2 :: real]",
      THEN conjunct2, THEN conjunct2, THEN conjunct2, THEN conjunct1] h k
  have q3: "(\<exists>r s'. topology_rfft3_azimuthal (\<lambda>(mem :: nat \<Rightarrow> nat \<Rightarrow> real) (f1 :: complex list) (f2 :: complex list) (nx :: int) (ny :: int) (nz :: int) (kx :: real) (ky :: real) (kz :: real) (nv :: int) (kv :: real list) (pw :: real list) (hits :: int list). (0 :: int, pw[0 := Re (f2 ! 0)], hits[0 := 1]))
        (Inr (Inr \<lparr>shape = [1, 1, 1], data = [3 :: complex]\<rparr>, Inr \<lparr>shape = [2, 2], data = [5, 0, 0, 0 :: complex]\<rparr>, 1, 1, 1, Inr \<lparr>shape = [2], data = [1, 2 :: real]\<rparr>)) \<lparr>err_indicator = None, refcnt = [], allocs = [], junk = (\<lambda>h i. 0 :: real)\<rparr>
          = Returns (Some r) s'
        \<and> err_indicator s' = None
        \<and> value_of r = Vectors [Some (LongArray \<lparr>shape = [1], data = [1]\<rparr>), Some (DoubleArray \<lparr>shape = [1], data = [5]\<rparr>)])"
    by simp
  from h k p m q2 q3 show ?thesis by (intro conjI)
qed

text \<open>
  The claim as stated fails: \<^verbatim>\<open>peakCount\<close> on a \<open>2 \<times> 2\<close> map with a \<open>3 \<times> 3\<close> mask returns its
  vector, computed from the mask, and sets no error; so does \<^verbatim>\<open>rfft2_azimuthal\<close> on a
  \<open>1 \<times> 1\<close> transform with a second transform that is \<open>2 \<times> 2\<close>.
\<close>

theorem C2_counterexample:
  "returned (topology_peakCount (\<lambda>(mem :: nat \<Rightarrow> nat \<Rightarrow> real) (m :: real list) (mp :: bool list option) (n :: int) (sg :: real) (nt :: int) (t :: real list) (out :: real list). case mp of None \<Rightarrow> out | Some b \<Rightarrow> out[0 := (if b ! 0 then 1 else 0)])
        (Inr (Inr \<lparr>shape = [2, 2], data = [0, 0, 9, 0 :: real]\<rparr>, Obj (Inr \<lparr>shape = [3, 3], data = replicate 9 True\<rparr>), Inr \<lparr>shape = [2], data = [1, 2 :: real]\<rparr>, 1)) \<lparr>err_indicator = None, refcnt = [], allocs = [], junk = (\<lambda>h i. 0 :: real)\<rparr>)
     = Some (Vector (DoubleArray \<lparr>shape = [1], data = [1]\<rparr>))
   \<and> map_option err_indicator (state_after (topology_peakCount (\<lambda>(mem :: nat \<Rightarrow> nat \<Rightarrow> real) (m :: real list) (mp :: bool list option) (n :: int) (sg :: real) (nt :: int) (t :: real list) (out :: real list). case mp of None \<Rightarrow> out | Some b \<Rightarrow> out[0 := (if b ! 0 then 1 else 0)])
        (Inr (Inr \<lparr>shape = [2, 2], data = [0, 0, 9, 0 :: real]\<rparr>, Obj (Inr \<lparr>shape = [3, 3], data = replicate 9 True\<rparr>), Inr \<lparr>shape = [2], data = [1, 2 :: real]\<rparr>, 1)) \<lparr>err_indicator = None, refcnt = [], allocs = [], junk = (\<lambda>h i. 0 :: real)\<rparr>)) = Some None
   \<and> [2, 2] \<noteq> [3, 3 :: nat]
   \<and> returned (topology_rfft2_azimuthal (\<lambda>(mem :: nat \<Rightarrow> nat \<Rightarrow> real) (f1 :: complex list) (f2 :: complex list) (nx :: int) (ny :: int) (ang :: real) (nv :: int) (lv :: real list) (pw :: real list). (0 :: int, pw[0 := Re (f2 ! 0)]))
        (Inr (Inr \<lparr>shape = [1, 1], data = [3 :: complex]\<rparr>, Inr \<lparr>shape = [2, 2], data = [5, 0, 0, 0 :: complex]\<rparr>, 1, Inr \<lparr>shape = [2], data = [1, 2 :: real]\<rparr>)) \<lparr>err_indicator = None, refcnt = [], allocs = [], junk = (\<lambda>h i. 0 :: real)\<rparr>)
     = Some (Vector (DoubleArray \<lparr>shape = [1], data = [5]\<rparr>))
   \<and> map_option err_indicator (state_after (topology_rfft2_azimuthal (\<lambda>(mem :: nat \<Rightarrow> nat \<Rightarrow> real) (f1 :: complex list) (f2 :: complex list) (nx :: int) (ny :: int) (ang :: real) (nv :: int) (lv :: real list) (pw :: real list). (0 :: int, pw[0 := Re (f2 ! 0)]))
        (Inr (Inr \<lparr>shape = [1, 1], data = [3 :: complex]\<rparr>, Inr \<lparr>shape = [2, 2], data = [5, 0, 0, 0 :: complex]\<rparr>, 1, Inr \<lparr>shape = [2], data = [1, 2 :: real]\<rparr>)) \<lparr>err_indicator = None, refcnt = [], allocs = [], junk = (\<lambda>h i. 0 :: real)\<rparr>)) = Some None
   \<and> [1, 1] \<noteq> [2, 2 :: nat]"
  by (simp add: topology_peakCount_def topology_rfft2_azimuthal_def outcome_defs state_after_def c_int_def take_alloc_def
        eval_nat_numeral)
subsection \<open>C10: the side length is the first dimension of the map\<close>

lemma peakCount_map_shape:
  "topology_peakCount peak_count (Inr (Inr \<lparr>shape = n # sh, data = d\<rparr>, mask_obj, thresholds_obj, sigma)) s =
   topology_peakCount peak_count (Inr (Inr \<lparr>shape = n # sh', data = d\<rparr>, mask_obj, thresholds_obj, sigma)) s"
proof (cases mask_obj)
  case Py_None
  then show ?thesis
    by (cases thresholds_obj) (simp_all add: topology_peakCount_def outcome_defs)
next
  case (Obj x)
  then show ?thesis
    by (cases thresholds_obj; cases x) (simp_all add: topology_peakCount_def outcome_defs)
qed

lemma gradient_map_shape:
  "topology_gradient gradient_xy (Inr (Inr \<lparr>shape = n # sh, data = d\<rparr>)) s =
   topology_gradient gradient_xy (Inr (Inr \<lparr>shape = n # sh', data = d\<rparr>)) s"
  by (simp add: topology_gradient_def outcome_defs)

lemma hessian_map_shape:
  "topology_hessian hessian (Inr (Inr \<lparr>shape = n # sh, data = d\<rparr>)) s =
   topology_hessian hessian (Inr (Inr \<lparr>shape = n # sh', data = d\<rparr>)) s"
  by (simp add: topology_hessian_def outcome_defs)

lemma minkowski_unconverted_outcome:
  "isl gx \<or> isl gy \<or> isl hxx \<or> isl hyy \<or> isl hxy \<or> isl t \<Longrightarrow>
   topology_minkowski mf (Inr (Inr m1, mask1, gx, gy, hxx, hyy, hxy, t, sigma)) s =
   topology_minkowski mf' (Inr (Inr m2, mask2, gx, gy, hxx, hyy, hxy, t, sigma')) s"
  by (cases gx; cases gy; cases hxx; cases hyy; cases hxy; cases t; simp;
      simp add: topology_minkowski_def PyArray_FROM_OTF_def new_ref_def Let_def Py_DECREF_def PyErr_Set_def)

lemma minkowski_map_shape_converted:
  "topology_minkowski mf
     (Inr (Inr \<lparr>shape = n # sh, data = d\<rparr>, mask_obj, Inr gx, Inr gy, Inr hxx, Inr hyy, Inr hxy, Inr t, sigma)) s =
   topology_minkowski mf
     (Inr (Inr \<lparr>shape = n # sh', data = d\<rparr>, mask_obj, Inr gx, Inr gy, Inr hxx, Inr hyy, Inr hxy, Inr t, sigma)) s"
proof (cases mask_obj)
  case Py_None
  then show ?thesis by (simp add: topology_minkowski_def outcome_defs)
next
  case (Obj x)
  then show ?thesis by (cases x) (simp_all add: topology_minkowski_def outcome_defs)
qed

lemma all_converted:
  assumes "\<not> (isl gx \<or> isl gy \<or> isl hxx \<or> isl hyy \<or> isl hxy \<or> isl t)"
  obtains a b c d e f where "gx = Inr a" "gy = Inr b" "hxx = Inr c" "hyy = Inr d" "hxy = Inr e" "t = Inr f"
proof -
  from assms have "\<exists>a. gx = Inr a" "\<exists>a. gy = Inr a" "\<exists>a. hxx = Inr a"
    "\<exists>a. hyy = Inr a" "\<exists>a. hxy = Inr a" "\<exists>a. t = Inr a"
    by (simp_all add: not_isl_Inr)
  then show ?thesis using that by blast
qed

lemma minkowski_map_shape:
  "topology_minkowski mf
     (Inr (Inr \<lparr>shape = n # sh, data = d\<rparr>, mask_obj, gx, gy, hxx, hyy, hxy, t, sigma)) s =
   topology_minkowski mf
     (Inr (Inr \<lparr>shape = n # sh', data = d\<rparr>, mask_obj, gx, gy, hxx, hyy, hxy, t, sigma)) s"
proof (cases "isl gx \<or> isl gy \<or> isl hxx \<or> isl hyy \<or> isl hxy \<or> isl t")
  case True
  then show ?thesis by (rule minkowski_unconverted_outcome)
next
  case False
  then show ?thesis
    by (rule all_converted) (simp add: minkowski_map_shape_converted)
qed

lemma peakCount_side:
  assumes "n < 2 ^ 31"
    and "\<And>mem m mp sg nt t out. k mem m mp (int n) sg nt t out = k' mem m mp (int n) sg nt t out"
  shows "topology_peakCount k (Inr (Inr \<lparr>shape = n # sh, data = d\<rparr>, mask_obj, thresholds_obj, sigma)) s =
         topology_peakCount k' (Inr (Inr \<lparr>shape = n # sh, data = d\<rparr>, mask_obj, thresholds_obj, sigma)) s"
proof (cases mask_obj)
  case Py_None
  with assms show ?thesis
    by (cases thresholds_obj) (simp_all add: topology_peakCount_def outcome_defs c_int_nat)
next
  case (Obj x)
  with assms show ?thesis
    by (cases thresholds_obj; cases x) (simp_all add: topology_peakCount_def outcome_defs c_int_nat)
qed

lemma gradient_side:
  assumes "n < 2 ^ 31"
    and "\<And>mem m gx gy. k mem m gx gy (int n) = k' mem m gx gy (int n)"
  shows "topology_gradient k (Inr (Inr \<lparr>shape = n # sh, data = d\<rparr>)) s =
         topology_gradient k' (Inr (Inr \<lparr>shape = n # sh, data = d\<rparr>)) s"
  using assms by (simp add: topology_gradient_def outcome_defs c_int_nat)

lemma hessian_side:
  assumes "n < 2 ^ 31"
    and "\<And>mem m hxx hyy hxy. k mem m hxx hyy hxy (int n) = k' mem m hxx hyy hxy (int n)"
  shows "topology_hessian k (Inr (Inr \<lparr>shape = n # sh, data = d\<rparr>)) s =
         topology_hessian k' (Inr (Inr \<lparr>shape = n # sh, data = d\<rparr>)) s"
  using assms by (simp add: topology_hessian_def outcome_defs c_int_nat)

lemma minkowski_side_converted:
  assumes "n < 2 ^ 31"
    and "\<And>mem m mp sg gx gy hxx hyy hxy nt t v0 v1 v2.
           k mem m mp (int n) sg gx gy hxx hyy hxy nt t v0 v1 v2 = k' mem m mp (int n) sg gx gy hxx hyy hxy nt t v0 v1 v2"
  shows "topology_minkowski k
           (Inr (Inr \<lparr>shape = n # sh, data = d\<rparr>, mask_obj, Inr gx, Inr gy, Inr hxx, Inr hyy, Inr hxy, Inr t, sigma)) s =
         topology_minkowski k'
           (Inr (Inr \<lparr>shape = n # sh, data = d\<rparr>, mask_obj, Inr gx, Inr gy, Inr hxx, Inr hyy, Inr hxy, Inr t, sigma)) s"
proof (cases mask_obj)
  case Py_None
  with assms show ?thesis by (simp add: topology_minkowski_def outcome_defs c_int_nat)
next
  case (Obj x)
  with assms show ?thesis by (cases x) (simp_all add: topology_minkowski_def outcome_defs c_int_nat)
qed

lemma minkowski_side:
  assumes "n < 2 ^ 31"
    and "\<And>mem m mp sg gx gy hxx hyy hxy nt t v0 v1 v2.
           k mem m mp (int n) sg gx gy hxx hyy hxy nt t v0 v1 v2 = k' mem m mp (int n) sg gx gy hxx hyy hxy nt t v0 v1 v2"
  shows "topology_minkowski k
           (Inr (Inr \<lparr>shape = n # sh, data = d\<rparr>, mask_obj, gx, gy, hxx, hyy, hxy, t, sigma)) s =
         topology_minkowski k'
           (Inr (Inr \<lparr>shape = n # sh, data = d\<rparr>, mask_obj, gx, gy, hxx, hyy, hxy, t, sigma)) s"
proof (cases "isl gx \<or> isl gy \<or> isl hxx \<or> isl hyy \<or> isl hxy \<or> isl t")
  case True
  then show ?thesis by (rule minkowski_unconverted_outcome)
next
  case False
  then show ?thesis
    by (rule all_converted) (simp add: minkowski_side_converted [of n k k', OF assms])
qed

lemma peakCount_any_map:
  assumes "n < 2 ^ 31" "1 \<le> N" "N < 2 ^ 31" "next_allocs_ok 1 s"
  shows "\<exists>r s'. topology_peakCount peak_count
            (Inr (Inr \<lparr>shape = n # sh, data = d\<rparr>, map_pyarg Inr mko, Inr \<lparr>shape = N # dt, data = td\<rparr>, sigma)) s
              = Returns (Some r) s'
          \<and> err_indicator s' = err_indicator s
          \<and> value_of r = Vector (DoubleArray \<lparr>shape = [N - 1],
               data = peak_count (junk s) d (case mko of Py_None \<Rightarrow> None | Obj mk \<Rightarrow> Some (data mk)) (int n) sigma
                        (int N) td (replicate (N - 1) 0)\<rparr>)"
  using assms(4) int_args [OF assms(2,3)] c_int_nat [OF assms(1)]
  by (cases mko) (simp_all add: topology_peakCount_def eval_defs)

lemma minkowski_any_map:
  assumes "n < 2 ^ 31" "1 \<le> N" "N < 2 ^ 31" "next_allocs_ok 4 s"
  shows "\<exists>r s'. topology_minkowski minkowski_functionals
            (Inr (Inr \<lparr>shape = n # sh, data = d\<rparr>, map_pyarg Inr mko, Inr gx, Inr gy, Inr hxx, Inr hyy, Inr hxy,
                  Inr \<lparr>shape = N # dt, data = td\<rparr>, sigma)) s
              = Returns (Some r) s'
          \<and> err_indicator s' = err_indicator s
          \<and> (let out = minkowski_functionals (junk s) d (case mko of Py_None \<Rightarrow> None | Obj mk \<Rightarrow> Some (data mk))
                          (int n) sigma (data gx) (data gy) (data hxx) (data hyy) (data hxy) (int N) td
                          (replicate (N - 1) 0) (replicate (N - 1) 0) (replicate (N - 1) 0)
              in value_of r = Vectors [Some (DoubleArray \<lparr>shape = [N - 1], data = fst out\<rparr>),
                                       Some (DoubleArray \<lparr>shape = [N - 1], data = fst (snd out)\<rparr>),
                                       Some (DoubleArray \<lparr>shape = [N - 1], data = snd (snd out)\<rparr>)])"
  using assms(4) int_args [OF assms(2,3)] c_int_nat [OF assms(1)]
  by (cases mko) (simp_all add: topology_minkowski_def eval_defs INT_MIN_def)

lemma gradient_any_map:
  assumes "n < 2 ^ 30" "next_allocs_ok 3 s"
  shows "\<exists>r s'. topology_gradient gradient_xy (Inr (Inr \<lparr>shape = n # sh, data = d\<rparr>)) s = Returns (Some r) s'
          \<and> err_indicator s' = err_indicator s
          \<and> (let h = length (refcnt s);
                  out = gradient_xy (junk s) d (map (junk s (Suc h)) [0 ..< n * n])
                          (map (junk s (Suc (Suc h))) [0 ..< n * n]) (int n)
              in value_of r = Vectors [Some (DoubleArray \<lparr>shape = [n, n], data = fst out\<rparr>),
                                       Some (DoubleArray \<lparr>shape = [n, n], data = snd out\<rparr>)])"
  using assms(2) side_args [OF assms(1)]
  by (simp add: topology_gradient_def eval_defs Py_DECREF_def)

lemma hessian_any_map:
  assumes "n < 2 ^ 30" "next_allocs_ok 4 s"
  shows "\<exists>r s'. topology_hessian hessian (Inr (Inr \<lparr>shape = n # sh, data = d\<rparr>)) s = Returns (Some r) s'
          \<and> err_indicator s' = err_indicator s
          \<and> (let h = length (refcnt s);
                  out = hessian (junk s) d (map (junk s (Suc h)) [0 ..< n * n])
                          (map (junk s (Suc (Suc h))) [0 ..< n * n])
                          (map (junk s (Suc (Suc (Suc h)))) [0 ..< n * n]) (int n)
              in value_of r = Vectors [Some (DoubleArray \<lparr>shape = [n, n], data = fst out\<rparr>),
                                       Some (DoubleArray \<lparr>shape = [n, n], data = fst (snd out)\<rparr>),
                                       Some (DoubleArray \<lparr>shape = [n, n], data = snd (snd out)\<rparr>)])"
  using assms(2) side_args [OF assms(1)]
  by (simp add: topology_hessian_def eval_defs Py_DECREF_def)

text \<open>
  C10, as amended. In \<^verbatim>\<open>peakCount\<close>, \<^verbatim>\<open>gradient\<close>, \<^verbatim>\<open>hessian\<close> and \<^verbatim>\<open>minkowski\<close> the side
  length handed to the kernel is the first dimension \<open>n\<close> of the map, for \<open>n\<close> at most
  \<open>2^31 - 1\<close>; no other dimension is read. A map that is not square is accepted without
  error and processed as a square map of side \<open>n\<close>: when the other arguments are arrays
  (with \<open>N\<close> thresholds, \<open>1 \<le> N \<le> 2^31 - 1\<close>) and the outputs can be allocated (in \<^verbatim>\<open>gradient\<close>
  and \<^verbatim>\<open>hessian\<close>, whose outputs are \<open>n \<times> n\<close>, for \<open>n\<close> at most \<open>2^30 - 1\<close>), the call returns
  what the kernel computed when it was handed the buffer of the map and the side \<open>n\<close>, and
  leaves the error indicator as it was. The outcome of any call is the same for a map
  with the same buffer and first dimension and any further dimensions, and two kernels
  that agree whenever their side length is \<open>n\<close> give the same outcome.
\<close>

theorem C10_side_from_first_dimension:
  "(n < 2 ^ 31 \<and> 1 \<le> N \<and> N < 2 ^ 31 \<and> next_allocs_ok 1 s \<longrightarrow>
      (\<exists>r s'. topology_peakCount peak_count
            (Inr (Inr \<lparr>shape = n # sh, data = d\<rparr>, map_pyarg Inr mko, Inr \<lparr>shape = N # dt, data = td\<rparr>, sigma)) s
              = Returns (Some r) s'
          \<and> err_indicator s' = err_indicator s
          \<and> value_of r = Vector (DoubleArray \<lparr>shape = [N - 1],
               data = peak_count (junk s) d (case mko of Py_None \<Rightarrow> None | Obj mk \<Rightarrow> Some (data mk)) (int n) sigma
                        (int N) td (replicate (N - 1) 0)\<rparr>)))
   \<and> (n < 2 ^ 30 \<and> next_allocs_ok 3 s \<longrightarrow>
      (\<exists>r s'. topology_gradient gradient_xy (Inr (Inr \<lparr>shape = n # sh, data = d\<rparr>)) s = Returns (Some r) s'
          \<and> err_indicator s' = err_indicator s
          \<and> (let h = length (refcnt s);
                  out = gradient_xy (junk s) d (map (junk s (Suc h)) [0 ..< n * n])
                          (map (junk s (Suc (Suc h))) [0 ..< n * n]) (int n)
              in value_of r = Vectors [Some (DoubleArray \<lparr>shape = [n, n], data = fst out\<rparr>),
                                       Some (DoubleArray \<lparr>shape = [n, n], data = snd out\<rparr>)])))
   \<and> (n < 2 ^ 30 \<and> next_allocs_ok 4 s \<longrightarrow>
      (\<exists>r s'. topology_hessian hessian (Inr (Inr \<lparr>shape = n # sh, data = d\<rparr>)) s = Returns (Some r) s'
          \<and> err_indicator s' = err_indicator s
          \<and> (let h = length (refcnt s);
                  out = hessian (junk s) d (map (junk s (Suc h)) [0 ..< n * n])
                          (map (junk s (Suc (Suc h))) [0 ..< n * n])
                          (map (junk s (Suc (Suc (Suc h)))) [0 ..< n * n]) (int n)
              in value_of r = Vectors [Some (DoubleArray \<lparr>shape = [n, n], data = fst out\<rparr>),
                                       Some (DoubleArray \<lparr>shape = [n, n], data = fst (snd out)\<rparr>),
                                       Some (DoubleArray \<lparr>shape = [n, n], data = snd (snd out)\<rparr>)])))
   \<and> (n < 2 ^ 31 \<and> 1 \<le> N \<and> N < 2 ^ 31 \<and> next_allocs_ok 4 s \<longrightarrow>
      (\<exists>r s'. topology_minkowski minkowski_functionals
            (Inr (Inr \<lparr>shape = n # sh, data = d\<rparr>, map_pyarg Inr mko, Inr gx, Inr gy, Inr hxx, Inr hyy, Inr hxy,
                  Inr \<lparr>shape = N # dt, data = td\<rparr>, sigma)) s
              = Returns (Some r) s'
          \<and> err_indicator s' = err_indicator s
          \<and> (let out = minkowski_functionals (junk s) d (case mko of Py_None \<Rightarrow> None | Obj mk \<Rightarrow> Some (data mk))
                          (int n) sigma (data gx) (data gy) (data hxx) (data hyy) (data hxy) (int N) td
                          (replicate (N - 1) 0) (replicate (N - 1) 0) (replicate (N - 1) 0)
              in value_of r = Vectors [Some (DoubleArray \<lparr>shape = [N - 1], data = fst out\<rparr>),
                                       Some (DoubleArray \<lparr>shape = [N - 1], data = fst (snd out)\<rparr>),
                                       Some (DoubleArray \<lparr>shape = [N - 1], data = snd (snd out)\<rparr>)])))
   \<and> topology_peakCount peak_count
     (Inr (Inr \<lparr>shape = n # sh, data = d\<rparr>, mask_obj, thresholds_obj, sigma)) s =
   topology_peakCount peak_count
     (Inr (Inr \<lparr>shape = n # sh', data = d\<rparr>, mask_obj, thresholds_obj, sigma)) s
   \<and> topology_gradient gradient_xy
     (Inr (Inr \<lparr>shape = n # sh, data = d\<rparr>)) s =
   topology_gradient gradient_xy
     (Inr (Inr \<lparr>shape = n # sh', data = d\<rparr>)) s
   \<and> topology_hessian hessian
     (Inr (Inr \<lparr>shape = n # sh, data = d\<rparr>)) s =
   topology_hessian hessian
     (Inr (Inr \<lparr>shape = n # sh', data = d\<rparr>)) s
   \<and> topology_minkowski minkowski_functionals
     (Inr (Inr \<lparr>shape = n # sh, data = d\<rparr>, mask_obj, grad_x_obj, grad_y_obj, hess_xx_obj, hess_yy_obj, hess_xy_obj, thresholds_obj, sigma)) s =
   topology_minkowski minkowski_functionals
     (Inr (Inr \<lparr>shape = n # sh', data = d\<rparr>, mask_obj, grad_x_obj, grad_y_obj, hess_xx_obj, hess_yy_obj, hess_xy_obj, thresholds_obj, sigma)) s
   \<and> (n < 2 ^ 31 \<and> (\<forall>mem m mp sg nt t out. peak_count mem m mp (int n) sg nt t out = peak_count' mem m mp (int n) sg nt t out) \<longrightarrow>
      topology_peakCount peak_count (Inr (Inr \<lparr>shape = n # sh, data = d\<rparr>, mask_obj, thresholds_obj, sigma)) s =
      topology_peakCount peak_count' (Inr (Inr \<lparr>shape = n # sh, data = d\<rparr>, mask_obj, thresholds_obj, sigma)) s)
   \<and> (n < 2 ^ 31 \<and> (\<forall>mem m gx gy. gradient_xy mem m gx gy (int n) = gradient_xy' mem m gx gy (int n)) \<longrightarrow>
      topology_gradient gradient_xy (Inr (Inr \<lparr>shape = n # sh, data = d\<rparr>)) s =
      topology_gradient gradient_xy' (Inr (Inr \<lparr>shape = n # sh, data = d\<rparr>)) s)
   \<and> (n < 2 ^ 31 \<and> (\<forall>mem m hxx hyy hxy. hessian mem m hxx hyy hxy (int n) = hessian' mem m hxx hyy hxy (int n)) \<longrightarrow>
      topology_hessian hessian (Inr (Inr \<lparr>shape = n # sh, data = d\<rparr>)) s =
      topology_hessian hessian' (Inr (Inr \<lparr>shape = n # sh, data = d\<rparr>)) s)
   \<and> (n < 2 ^ 31 \<and> (\<forall>mem m mp sg gx gy hxx hyy hxy nt t v0 v1 v2. minkowski_functionals mem m mp (int n) sg gx gy hxx hyy hxy nt t v0 v1 v2 = minkowski_functionals' mem m mp (int n) sg gx gy hxx hyy hxy nt t v0 v1 v2) \<longrightarrow>
      topology_minkowski minkowski_functionals (Inr (Inr \<lparr>shape = n # sh, data = d\<rparr>, mask_obj, grad_x_obj, grad_y_obj, hess_xx_obj, hess_yy_obj, hess_xy_obj, thresholds_obj, sigma)) s =
      topology_minkowski minkowski_functionals' (Inr (Inr \<lparr>shape = n # sh, data = d\<rparr>, mask_obj, grad_x_obj, grad_y_obj, hess_xx_obj, hess_yy_obj, hess_xy_obj, thresholds_obj, sigma)) s)"
proof -
  note explicit = peakCount_any_map [of n N s peak_count sh d mko dt td sigma]
    gradient_any_map [of n s gradient_xy sh d]
    hessian_any_map [of n s hessian sh d]
    minkowski_any_map [of n N s minkowski_functionals sh d mko gx gy hxx hyy hxy dt td sigma]
  note shapes = peakCount_map_shape [of peak_count n sh d mask_obj thresholds_obj sigma s sh']
    gradient_map_shape [of gradient_xy n sh d s sh']
    hessian_map_shape [of hessian n sh d s sh']
    minkowski_map_shape [of minkowski_functionals n sh d mask_obj grad_x_obj grad_y_obj hess_xx_obj hess_yy_obj
      hess_xy_obj thresholds_obj sigma s sh']
  note sides = peakCount_side [of n peak_count peak_count' sh d mask_obj thresholds_obj sigma s]
    gradient_side [of n gradient_xy gradient_xy' sh d s]
    hessian_side [of n hessian hessian' sh d s]
    minkowski_side [of n minkowski_functionals minkowski_functionals' sh d mask_obj grad_x_obj grad_y_obj
      hess_xx_obj hess_yy_obj hess_xy_obj thresholds_obj sigma s]
  from explicit shapes sides show ?thesis
    by (intro conjI impI; (elim conjE)?; blast)
qed

text \<open>
  A \<open>2 \<times> 3\<close> map: each entry point returns what its kernel computes with the side length
  2 (the kernels write their side length into the first output); and kernels that
  differ except for the side length 2 give the same outcome.
\<close>

theorem C10_side_from_first_dimension_witness:
  "(2 :: nat) < 2 ^ 31 \<and> (2 :: nat) < 2 ^ 30 \<and> 1 \<le> (2 :: nat) \<and> next_allocs_ok 1 \<lparr>err_indicator = None, refcnt = [], allocs = [], junk = (\<lambda>h i. 0 :: real)\<rparr> \<and> next_allocs_ok 3 \<lparr>err_indicator = None, refcnt = [], allocs = [], junk = (\<lambda>h i. 0 :: real)\<rparr> \<and> next_allocs_ok 4 \<lparr>err_indicator = None, refcnt = [], allocs = [], junk = (\<lambda>h i. 0 :: real)\<rparr>
   \<and> (\<exists>r s'. topology_peakCount (\<lambda>(mem :: nat \<Rightarrow> nat \<Rightarrow> real) (m :: real list) (mp :: bool list option) (n :: int) (sg :: real) (nt :: int) (t :: real list) (out :: real list). map (\<lambda>x. of_int n) out) (Inr (Inr \<lparr>shape = [2, 3], data = [0, 0, 9, 0, 0, 0 :: real]\<rparr>, Py_None, Inr \<lparr>shape = [2], data = [1, 2 :: real]\<rparr>, 1)) \<lparr>err_indicator = None, refcnt = [], allocs = [], junk = (\<lambda>h i. 0 :: real)\<rparr>
          = Returns (Some r) s'
        \<and> err_indicator s' = None
        \<and> value_of r = Vector (DoubleArray \<lparr>shape = [1], data = [2]\<rparr>))
   \<and> (\<exists>r s'. topology_gradient (\<lambda>(mem :: nat \<Rightarrow> nat \<Rightarrow> real) (m :: real list) (gx :: real list) (gy :: real list) (n :: int). (map (\<lambda>x. of_int n) gx, gy)) (Inr (Inr \<lparr>shape = [2, 3], data = [0, 0, 9, 0, 0, 0 :: real]\<rparr>)) \<lparr>err_indicator = None, refcnt = [], allocs = [], junk = (\<lambda>h i. 0 :: real)\<rparr>
          = Returns (Some r) s'
        \<and> err_indicator s' = None
        \<and> value_of r = Vectors [Some (DoubleArray \<lparr>shape = [2, 2], data = [2, 2, 2, 2]\<rparr>), Some (DoubleArray \<lparr>shape = [2, 2], data = [0, 0, 0, 0]\<rparr>)])
   \<and> (\<exists>r s'. topology_hessian (\<lambda>(mem :: nat \<Rightarrow> nat \<Rightarrow> real) (m :: real list) (hxx :: real list) (hyy :: real list) (hxy :: real list) (n :: int). (map (\<lambda>x. of_int n) hxx, hyy, hxy)) (Inr (Inr \<lparr>shape = [2, 3], data = [0, 0, 9, 0, 0, 0 :: real]\<rparr>)) \<lparr>err_indicator = None, refcnt = [], allocs = [], junk = (\<lambda>h i. 0 :: real)\<rparr>
          = Returns (Some r) s'
        \<and> err_indicator s' = None
        \<and> value_of r = Vectors [Some (DoubleArray \<lparr>shape = [2, 2], data = [2, 2, 2, 2]\<rparr>), Some (DoubleArray \<lparr>shape = [2, 2], data = [0, 0, 0, 0]\<rparr>), Some (DoubleArray \<lparr>shape = [2, 2], data = [0, 0, 0, 0]\<rparr>)])
   \<and> (\<exists>r s'. topology_minkowski (\<lambda>(mem :: nat \<Rightarrow> nat \<Rightarrow> real) (m :: real list) (mp :: bool list option) (n :: int) (sg :: real) (gx :: real list) (gy :: real list) (hxx :: real list) (hyy :: real list) (hxy :: real list) (nt :: int) (t :: real list) (v0 :: real list) (v1 :: real list) (v2 :: real list). (map (\<lambda>x. of_int n) v0, v1, v2)) (Inr (Inr \<lparr>shape = [2, 3], data = [0, 0, 9, 0, 0, 0 :: real]\<rparr>, Py_None, Inr \<lparr>shape = [1, 1], data = [0 :: real]\<rparr>, Inr \<lparr>shape = [1, 1], data = [0 :: real]\<rparr>, Inr \<lparr>shape = [1, 1], data = [0 :: real]\<rparr>, Inr \<lparr>shape = [1, 1], data = [0 :: real]\<rparr>, Inr \<lparr>shape = [1, 1], data = [0 :: real]\<rparr>, Inr \<lparr>shape = [2], data = [1, 2 :: real]\<rparr>, 1)) \<lparr>err_indicator = None, refcnt = [], allocs = [], junk = (\<lambda>h i. 0 :: real)\<rparr>
          = Returns (Some r) s'
        \<and> err_indicator s' = None
        \<and> value_of r = Vectors [Some (DoubleArray \<lparr>shape = [1], data = [2]\<rparr>), Some (DoubleArray \<lparr>shape = [1], data = [0]\<rparr>), Some (DoubleArray \<lparr>shape = [1], data = [0]\<rparr>)])
   \<and> (\<forall>mem m mp sg nt t out. (\<lambda>(mem :: nat \<Rightarrow> nat \<Rightarrow> real) (m :: real list) (mp :: bool list option) (n :: int) (sg :: real) (nt :: int) (t :: real list) (out :: real list). map (\<lambda>x. of_int n) out) mem m mp (int 2) sg nt t out = (\<lambda>(mem :: nat \<Rightarrow> nat \<Rightarrow> real) (m :: real list) (mp :: bool list option) (n :: int) (sg :: real) (nt :: int) (t :: real list) (out :: real list). map (\<lambda>x. 2) out) mem m mp (int 2) sg nt t out)
   \<and> topology_peakCount (\<lambda>(mem :: nat \<Rightarrow> nat \<Rightarrow> real) (m :: real list) (mp :: bool list option) (n :: int) (sg :: real) (nt :: int) (t :: real list) (out :: real list). map (\<lambda>x. of_int n) out) (Inr (Inr \<lparr>shape = [2, 3], data = [0, 0, 9, 0, 0, 0 :: real]\<rparr>, Py_None, Inr \<lparr>shape = [2], data = [1, 2 :: real]\<rparr>, 1)) \<lparr>err_indicator = None, refcnt = [], allocs = [], junk = (\<lambda>h i. 0 :: real)\<rparr> =
      topology_peakCount (\<lambda>(mem :: nat \<Rightarrow> nat \<Rightarrow> real) (m :: real list) (mp :: bool list option) (n :: int) (sg :: real) (nt :: int) (t :: real list) (out :: real list). map (\<lambda>x. 2) out) (Inr (Inr \<lparr>shape = [2, 3], data = [0, 0, 9, 0, 0, 0 :: real]\<rparr>, Py_None, Inr \<lparr>shape = [2], data = [1, 2 :: real]\<rparr>, 1)) \<lparr>err_indicator = None, refcnt = [], allocs = [], junk = (\<lambda>h i. 0 :: real)\<rparr>
   \<and> (\<forall>mem m gx gy. (\<lambda>(mem :: nat \<Rightarrow> nat \<Rightarrow> real) (m :: real list) (gx :: real list) (gy :: real list) (n :: int). (map (\<lambda>x. of_int n) gx, gy)) mem m gx gy (int 2) = (\<lambda>(mem :: nat \<Rightarrow> nat \<Rightarrow> real) (m :: real list) (gx :: real list) (gy :: real list) (n :: int). (map (\<lambda>x. 2) gx, gy)) mem m gx gy (int 2))
   \<and> topology_gradient (\<lambda>(mem :: nat \<Rightarrow> nat \<Rightarrow> real) (m :: real list) (gx :: real list) (gy :: real list) (n :: int). (map (\<lambda>x. of_int n) gx, gy)) (Inr (Inr \<lparr>shape = [2, 3], data = [0, 0, 9, 0, 0, 0 :: real]\<rparr>)) \<lparr>err_indicator = None, refcnt = [], allocs = [], junk = (\<lambda>h i. 0 :: real)\<rparr> =
      topology_gradient (\<lambda>(mem :: nat \<Rightarrow> nat \<Rightarrow> real) (m :: real list) (gx :: real list) (gy :: real list) (n :: int). (map (\<lambda>x. 2) gx, gy)) (Inr (Inr \<lparr>shape = [2, 3], data = [0, 0, 9, 0, 0, 0 :: real]\<rparr>)) \<lparr>err_indicator = None, refcnt = [], allocs = [], junk = (\<lambda>h i. 0 :: real)\<rparr>
   \<and> (\<forall>mem m hxx hyy hxy. (\<lambda>(mem :: nat \<Rightarrow> nat \<Rightarrow> real) (m :: real list) (hxx :: real list) (hyy :: real list) (hxy :: real list) (n :: int). (map (\<lambda>x. of_int n) hxx, hyy, hxy)) mem m hxx hyy hxy (int 2) = (\<lambda>(mem :: nat \<Rightarrow> nat \<Rightarrow> real) (m :: real list) (hxx :: real list) (hyy :: real list) (hxy :: real list) (n :: int). (map (\<lambda>x. 2) hxx, hyy, hxy)) mem m hxx hyy hxy (int 2))
   \<and> topology_hessian (\<lambda>(mem :: nat \<Rightarrow> nat \<Rightarrow> real) (m :: real list) (hxx :: real list) (hyy :: real list) (hxy :: real list) (n :: int). (map (\<lambda>x. of_int n) hxx, hyy, hxy)) (Inr (Inr \<lparr>shape = [2, 3], data = [0, 0, 9, 0, 0, 0 :: real]\<rparr>)) \<lparr>err_indicator = None, refcnt = [], allocs = [], junk = (\<lambda>h i. 0 :: real)\<rparr> =
      topology_hessian (\<lambda>(mem :: nat \<Rightarrow> nat \<Rightarrow> real) (m :: real list) (hxx :: real list) (hyy :: real list) (hxy :: real list) (n :: int). (map (\<lambda>x. 2) hxx, hyy, hxy)) (Inr (Inr \<lparr>shape = [2, 3], data = [0, 0, 9, 0, 0, 0 :: real]\<rparr>)) \<lparr>err_indicator = None, refcnt = [], allocs = [], junk = (\<lambda>h i. 0 :: real)\<rparr>
   \<and> (\<forall>mem m mp sg gx gy hxx hyy hxy nt t v0 v1 v2. (\<lambda>(mem :: nat \<Rightarrow> nat \<Rightarrow> real) (m :: real list) (mp :: bool list option) (n :: int) (sg :: real) (gx :: real list) (gy :: real list) (hxx :: real list) (hyy :: real list) (hxy :: real list) (nt :: int) (t :: real list) (v0 :: real list) (v1 :: real list) (v2 :: real list). (map (\<lambda>x. of_int n) v0, v1, v2)) mem m mp (int 2) sg gx gy hxx hyy hxy nt t v0 v1 v2 = (\<lambda>(mem :: nat \<Rightarrow> nat \<Rightarrow> real) (m :: real list) (mp :: bool list option) (n :: int) (sg :: real) (gx :: real list) (gy :: real list) (hxx :: real list) (hyy :: real list) (hxy :: real list) (nt :: int) (t :: real list) (v0 :: real list) (v1 :: real list) (v2 :: real list). (map (\<lambda>x. 2) v0, v1, v2)) mem m mp (int 2) sg gx gy hxx hyy hxy nt t v0 v1 v2)
   \<and> topology_minkowski (\<lambda>(mem :: nat \<Rightarrow> nat \<Rightarrow> real) (m :: real list) (mp :: bool list option) (n :: int) (sg :: real) (gx :: real list) (gy :: real list) (hxx :: real list) (hyy :: real list) (hxy :: real list) (nt :: int) (t :: real list) (v0 :: real list) (v1 :: real list) (v2 :: real list). (map (\<lambda>x. of_int n) v0, v1, v2)) (Inr (Inr \<lparr>shape = [2, 3], data = [0, 0, 9, 0, 0, 0 :: real]\<rparr>, Py_None, Inr \<lparr>shape = [1, 1], data = [0 :: real]\<rparr>, Inr \<lparr>shape = [1, 1], data = [0 :: real]\<rparr>, Inr \<lparr>shape = [1, 1], data = [0 :: real]\<rparr>, Inr \<lparr>shape = [1, 1], data = [0 :: real]\<rparr>, Inr \<lparr>shape = [1, 1], data = [0 :: real]\<rparr>, Inr \<lparr>shape = [2], data = [1, 2 :: real]\<rparr>, 1)) \<lparr>err_indicator = None, refcnt = [], allocs = [], junk = (\<lambda>h i. 0 :: real)\<rparr> =
      topology_minkowski (\<lambda>(mem :: nat \<Rightarrow> nat \<Rightarrow> real) (m :: real list) (mp :: bool list option) (n :: int) (sg :: real) (gx :: real list) (gy :: real list) (hxx :: real list) (hyy :: real list) (hxy :: real list) (nt :: int) (t :: real list) (v0 :: real list) (v1 :: real list) (v2 :: real list). (map (\<lambda>x. 2) v0, v1, v2)) (Inr (Inr \<lparr>shape = [2, 3], data = [0, 0, 9, 0, 0, 0 :: real]\<rparr>, Py_None, Inr \<lparr>shape = [1, 1], data = [0 :: real]\<rparr>, Inr \<lparr>shape = [1, 1], data = [0 :: real]\<rparr>, Inr \<lparr>shape = [1, 1], data = [0 :: real]\<rparr>, Inr \<lparr>shape = [1, 1], data = [0 :: real]\<rparr>, Inr \<lparr>shape = [1, 1], data = [0 :: real]\<rparr>, Inr \<lparr>shape = [2], data = [1, 2 :: real]\<rparr>, 1)) \<lparr>err_indicator = None, refcnt = [], allocs = [], junk = (\<lambda>h i. 0 :: real)\<rparr>"
proof -
  have b: "(2 :: nat) < 2 ^ 31" "(2 :: nat) < 2 ^ 30" "1 \<le> (2 :: nat)" "next_allocs_ok 1 \<lparr>err_indicator = None, refcnt = [], allocs = [], junk = (\<lambda>h i. 0 :: real)\<rparr>" "next_allocs_ok 3 \<lparr>err_indicator = None, refcnt = [], allocs = [], junk = (\<lambda>h i. 0 :: real)\<rparr>" "next_allocs_ok 4 \<lparr>err_indicator = None, refcnt = [], allocs = [], junk = (\<lambda>h i. 0 :: real)\<rparr>"
    by (simp_all add: next_allocs_ok_def)
  note t = C10_side_from_first_dimension [where n = 2 and sh = "[3]" and d = "[0, 0, 9, 0, 0, 0 :: real]" and s = "\<lparr>err_indicator = None, refcnt = [], allocs = [], junk = (\<lambda>h i. 0 :: real)\<rparr>"]
  note u = t [where N = 2 and mko = Py_None and dt = "[]" and td = "[1, 2 :: real]" and sigma = "1 :: real"]
  from u [where peak_count = "(\<lambda>(mem :: nat \<Rightarrow> nat \<Rightarrow> real) (m :: real list) (mp :: bool list option) (n :: int) (sg :: real) (nt :: int) (t :: real list) (out :: real list). map (\<lambda>x. of_int n) out)", THEN conjunct1] b
  have x1: "(\<exists>r s'. topology_peakCount (\<lambda>(mem :: nat \<Rightarrow> nat \<Rightarrow> real) (m :: real list) (mp :: bool list option) (n :: int) (sg :: real) (nt :: int) (t :: real list) (out :: real list). map (\<lambda>x. of_int n) out) (Inr (Inr \<lparr>shape = [2, 3], data = [0, 0, 9, 0, 0, 0 :: real]\<rparr>, Py_None, Inr \<lparr>shape = [2], data = [1, 2 :: real]\<rparr>, 1)) \<lparr>err_indicator = None, refcnt = [], allocs = [], junk = (\<lambda>h i. 0 :: real)\<rparr>
          = Returns (Some r) s'
        \<and> err_indicator s' = None
        \<and> value_of r = Vector (DoubleArray \<lparr>shape = [1], data = [2]\<rparr>))"
    by simp
  from t [where gradient_xy = "(\<lambda>(mem :: nat \<Rightarrow> nat \<Rightarrow> real) (m :: real list) (gx :: real list) (gy :: real list) (n :: int). (map (\<lambda>x. of_int n) gx, gy))", THEN conjunct2, THEN conjunct1] b
  have x2: "(\<exists>r s'. topology_gradient (\<lambda>(mem :: nat \<Rightarrow> nat \<Rightarrow> real) (m :: real list) (gx :: real list) (gy :: real list) (n :: int). (map (\<lambda>x. of_int n) gx, gy)) (Inr (Inr \<lparr>shape = [2, 3], data = [0, 0, 9, 0, 0, 0 :: real]\<rparr>)) \<lparr>err_indicator = None, refcnt = [], allocs = [], junk = (\<lambda>h i. 0 :: real)\<rparr>
          = Returns (Some r) s'
        \<and> err_indicator s' = None
        \<and> value_of r = Vectors [Some (DoubleArray \<lparr>shape = [2, 2], data = [2, 2, 2, 2]\<rparr>), Some (DoubleArray \<lparr>shape = [2, 2], data = [0, 0, 0, 0]\<rparr>)])"
    by (simp add: upt_rec)
  from t [where hessian = "(\<lambda>(mem :: nat \<Rightarrow> nat \<Rightarrow> real) (m :: real list) (hxx :: real list) (hyy :: real list) (hxy :: real list) (n :: int). (map (\<lambda>x. of_int n) hxx, hyy, hxy))", THEN conjunct2, THEN conjunct2, THEN conjunct1] b
  have x3: "(\<exists>r s'. topology_hessian (\<lambda>(mem :: nat \<Rightarrow> nat \<Rightarrow> real) (m :: real list) (hxx :: real list) (hyy :: real list) (hxy :: real list) (n :: int). (map (\<lambda>x. of_int n) hxx, hyy, hxy)) (Inr (Inr \<lparr>shape = [2, 3], data = [0, 0, 9, 0, 0, 0 :: real]\<rparr>)) \<lparr>err_indicator = None, refcnt = [], allocs = [], junk = (\<lambda>h i. 0 :: real)\<rparr>
          = Returns (Some r) s'
        \<and> err_indicator s' = None
        \<and> value_of r = Vectors [Some (DoubleArray \<lparr>shape = [2, 2], data = [2, 2, 2, 2]\<rparr>), Some (DoubleArray \<lparr>shape = [2, 2], data = [0, 0, 0, 0]\<rparr>), Some (DoubleArray \<lparr>shape = [2, 2], data = [0, 0, 0, 0]\<rparr>)])"
    by (simp add: upt_rec)
  from u [where minkowski_functionals = "(\<lambda>(mem :: nat \<Rightarrow> nat \<Rightarrow> real) (m :: real list) (mp :: bool list option) (n :: int) (sg :: real) (gx :: real list) (gy :: real list) (hxx :: real list) (hyy :: real list) (hxy :: real list) (nt :: int) (t :: real list) (v0 :: real list) (v1 :: real list) (v2 :: real list). (map (\<lambda>x. of_int n) v0, v1, v2))" and gx = "\<lparr>shape = [1, 1], data = [0 :: real]\<rparr>" and gy = "\<lparr>shape = [1, 1], data = [0 :: real]\<rparr>" and hxx = "\<lparr>shape = [1, 1], data = [0 :: real]\<rparr>" and hyy = "\<lparr>shape = [1, 1], data = [0 :: real]\<rparr>" and hxy = "\<lparr>shape = [1, 1], data = [0 :: real]\<rparr>",
      THEN conjunct2, THEN conjunct2, THEN conjunct2, THEN conjunct1] b
  have x4: "(\<exists>r s'. topology_minkowski (\<lambda>(mem :: nat \<Rightarrow> nat \<Rightarrow> real) (m :: real list) (mp :: bool list option) (n :: int) (sg :: real) (gx :: real list) (gy :: real list) (hxx :: real list) (hyy :: real list) (hxy :: real list) (nt :: int) (t :: real list) (v0 :: real list) (v1 :: real list) (v2 :: real list). (map (\<lambda>x. of_int n) v0, v1, v2)) (Inr (Inr \<lparr>shape = [2, 3], data = [0, 0, 9, 0, 0, 0 :: real]\<rparr>, Py_None, Inr \<lparr>shape = [1, 1], data = [0 :: real]\<rparr>, Inr \<lparr>shape = [1, 1], data = [0 :: real]\<rparr>, Inr \<lparr>shape = [1, 1], data = [0 :: real]\<rparr>, Inr \<lparr>shape = [1, 1], data = [0 :: real]\<rparr>, Inr \<lparr>shape = [1, 1], data = [0 :: real]\<rparr>, Inr \<lparr>shape = [2], data = [1, 2 :: real]\<rparr>, 1)) \<lparr>err_indicator = None, refcnt = [], allocs = [], junk = (\<lambda>h i. 0 :: real)\<rparr>
          = Returns (Some r) s'
        \<and> err_indicator s' = None
        \<and> value_of r = Vectors [Some (DoubleArray \<lparr>shape = [1], data = [2]\<rparr>), Some (DoubleArray \<lparr>shape = [1], data = [0]\<rparr>), Some (DoubleArray \<lparr>shape = [1], data = [0]\<rparr>)])"
    by simp
  have h1: "(\<forall>mem m mp sg nt t out. (\<lambda>(mem :: nat \<Rightarrow> nat \<Rightarrow> real) (m :: real list) (mp :: bool list option) (n :: int) (sg :: real) (nt :: int) (t :: real list) (out :: real list). map (\<lambda>x. of_int n) out) mem m mp (int 2) sg nt t out = (\<lambda>(mem :: nat \<Rightarrow> nat \<Rightarrow> real) (m :: real list) (mp :: bool list option) (n :: int) (sg :: real) (nt :: int) (t :: real list) (out :: real list). map (\<lambda>x. 2) out) mem m mp (int 2) sg nt t out)" by simp
  have e1: "topology_peakCount (\<lambda>(mem :: nat \<Rightarrow> nat \<Rightarrow> real) (m :: real list) (mp :: bool list option) (n :: int) (sg :: real) (nt :: int) (t :: real list) (out :: real list). map (\<lambda>x. of_int n) out) (Inr (Inr \<lparr>shape = [2, 3], data = [0, 0, 9, 0, 0, 0 :: real]\<rparr>, Py_None, Inr \<lparr>shape = [2], data = [1, 2 :: real]\<rparr>, 1)) \<lparr>err_indicator = None, refcnt = [], allocs = [], junk = (\<lambda>h i. 0 :: real)\<rparr> =
      topology_peakCount (\<lambda>(mem :: nat \<Rightarrow> nat \<Rightarrow> real) (m :: real list) (mp :: bool list option) (n :: int) (sg :: real) (nt :: int) (t :: real list) (out :: real list). map (\<lambda>x. 2) out) (Inr (Inr \<lparr>shape = [2, 3], data = [0, 0, 9, 0, 0, 0 :: real]\<rparr>, Py_None, Inr \<lparr>shape = [2], data = [1, 2 :: real]\<rparr>, 1)) \<lparr>err_indicator = None, refcnt = [], allocs = [], junk = (\<lambda>h i. 0 :: real)\<rparr>"
    using t [where peak_count = "(\<lambda>(mem :: nat \<Rightarrow> nat \<Rightarrow> real) (m :: real list) (mp :: bool list option) (n :: int) (sg :: real) (nt :: int) (t :: real list) (out :: real list). map (\<lambda>x. of_int n) out)" and peak_count' = "(\<lambda>(mem :: nat \<Rightarrow> nat \<Rightarrow> real) (m :: real list) (mp :: bool list option) (n :: int) (sg :: real) (nt :: int) (t :: real list) (out :: real list). map (\<lambda>x. 2) out)" and mask_obj = Py_None and thresholds_obj = "Inr \<lparr>shape = [2], data = [1, 2 :: real]\<rparr>" and sigma = 1, THEN conjunct2, THEN conjunct2, THEN conjunct2, THEN conjunct2, THEN conjunct2, THEN conjunct2, THEN conjunct2, THEN conjunct2, THEN conjunct1] by simp
  have h2: "(\<forall>mem m gx gy. (\<lambda>(mem :: nat \<Rightarrow> nat \<Rightarrow> real) (m :: real list) (gx :: real list) (gy :: real list) (n :: int). (map (\<lambda>x. of_int n) gx, gy)) mem m gx gy (int 2) = (\<lambda>(mem :: nat \<Rightarrow> nat \<Rightarrow> real) (m :: real list) (gx :: real list) (gy :: real list) (n :: int). (map (\<lambda>x. 2) gx, gy)) mem m gx gy (int 2))" by simp
  have e2: "topology_gradient (\<lambda>(mem :: nat \<Rightarrow> nat \<Rightarrow> real) (m :: real list) (gx :: real list) (gy :: real list) (n :: int). (map (\<lambda>x. of_int n) gx, gy)) (Inr (Inr \<lparr>shape = [2, 3], data = [0, 0, 9, 0, 0, 0 :: real]\<rparr>)) \<lparr>err_indicator = None, refcnt = [], allocs = [], junk = (\<lambda>h i. 0 :: real)\<rparr> =
      topology_gradient (\<lambda>(mem :: nat \<Rightarrow> nat \<Rightarrow> real) (m :: real list) (gx :: real list) (gy :: real list) (n :: int). (map (\<lambda>x. 2) gx, gy)) (Inr (Inr \<lparr>shape = [2, 3], data = [0, 0, 9, 0, 0, 0 :: real]\<rparr>)) \<lparr>err_indicator = None, refcnt = [], allocs = [], junk = (\<lambda>h i. 0 :: real)\<rparr>"
    using t [where gradient_xy = "(\<lambda>(mem :: nat \<Rightarrow> nat \<Rightarrow> real) (m :: real list) (gx :: real list) (gy :: real list) (n :: int). (map (\<lambda>x. of_int n) gx, gy))" and gradient_xy' = "(\<lambda>(mem :: nat \<Rightarrow> nat \<Rightarrow> real) (m :: real list) (gx :: real list) (gy :: real list) (n :: int). (map (\<lambda>x. 2) gx, gy))", THEN conjunct2, THEN conjunct2, THEN conjunct2, THEN conjunct2, THEN conjunct2, THEN conjunct2, THEN conjunct2, THEN conjunct2, THEN conjunct2, THEN conjunct1] by simp
  have h3: "(\<forall>mem m hxx hyy hxy. (\<lambda>(mem :: nat \<Rightarrow> nat \<Rightarrow> real) (m :: real list) (hxx :: real list) (hyy :: real list) (hxy :: real list) (n :: int). (map (\<lambda>x. of_int n) hxx, hyy, hxy)) mem m hxx hyy hxy (int 2) = (\<lambda>(mem :: nat \<Rightarrow> nat \<Rightarrow> real) (m :: real list) (hxx :: real list) (hyy :: real list) (hxy :: real list) (n :: int). (map (\<lambda>x. 2) hxx, hyy, hxy)) mem m hxx hyy hxy (int 2))" by simp
  have e3: "topology_hessian (\<lambda>(mem :: nat \<Rightarrow> nat \<Rightarrow> real) (m :: real list) (hxx :: real list) (hyy :: real list) (hxy :: real list) (n :: int). (map (\<lambda>x. of_int n) hxx, hyy, hxy)) (Inr (Inr \<lparr>shape = [2, 3], data = [0, 0, 9, 0, 0, 0 :: real]\<rparr>)) \<lparr>err_indicator = None, refcnt = [], allocs = [], junk = (\<lambda>h i. 0 :: real)\<rparr> =
      topology_hessian (\<lambda>(mem :: nat \<Rightarrow> nat \<Rightarrow> real) (m :: real list) (hxx :: real list) (hyy :: real list) (hxy :: real list) (n :: int). (map (\<lambda>x. 2) hxx, hyy, hxy)) (Inr (Inr \<lparr>shape = [2, 3], data = [0, 0, 9, 0, 0, 0 :: real]\<rparr>)) \<lparr>err_indicator = None, refcnt = [], allocs = [], junk = (\<lambda>h i. 0 :: real)\<rparr>"
    using t [where hessian = "(\<lambda>(mem :: nat \<Rightarrow> nat \<Rightarrow> real) (m :: real list) (hxx :: real list) (hyy :: real list) (hxy :: real list) (n :: int). (map (\<lambda>x. of_int n) hxx, hyy, hxy))" and hessian' = "(\<lambda>(mem :: nat \<Rightarrow> nat \<Rightarrow> real) (m :: real list) (hxx :: real list) (hyy :: real list) (hxy :: real list) (n :: int). (map (\<lambda>x. 2) hxx, hyy, hxy))", THEN conjunct2, THEN conjunct2, THEN conjunct2, THEN conjunct2, THEN conjunct2, THEN conjunct2, THEN conjunct2, THEN conjunct2, THEN conjunct2, THEN conjunct2, THEN conjunct1] by simp
  have h4: "(\<forall>mem m mp sg gx gy hxx hyy hxy nt t v0 v1 v2. (\<lambda>(mem :: nat \<Rightarrow> nat \<Rightarrow> real) (m :: real list) (mp :: bool list option) (n :: int) (sg :: real) (gx :: real list) (gy :: real list) (hxx :: real list) (hyy :: real list) (hxy :: real list) (nt :: int) (t :: real list) (v0 :: real list) (v1 :: real list) (v2 :: real list). (map (\<lambda>x. of_int n) v0, v1, v2)) mem m mp (int 2) sg gx gy hxx hyy hxy nt t v0 v1 v2 = (\<lambda>(mem :: nat \<Rightarrow> nat \<Rightarrow> real) (m :: real list) (mp :: bool list option) (n :: int) (sg :: real) (gx :: real list) (gy :: real list) (hxx :: real list) (hyy :: real list) (hxy :: real list) (nt :: int) (t :: real list) (v0 :: real list) (v1 :: real list) (v2 :: real list). (map (\<lambda>x. 2) v0, v1, v2)) mem m mp (int 2) sg gx gy hxx hyy hxy nt t v0 v1 v2)" by simp
  have e4: "topology_minkowski (\<lambda>(mem :: nat \<Rightarrow> nat \<Rightarrow> real) (m :: real list) (mp :: bool list option) (n :: int) (sg :: real) (gx :: real list) (gy :: real list) (hxx :: real list) (hyy :: real list) (hxy :: real list) (nt :: int) (t :: real list) (v0 :: real list) (v1 :: real list) (v2 :: real list). (map (\<lambda>x. of_int n) v0, v1, v2)) (Inr (Inr \<lparr>shape = [2, 3], data = [0, 0, 9, 0, 0, 0 :: real]\<rparr>, Py_None, Inr \<lparr>shape = [1, 1], data = [0 :: real]\<rparr>, Inr \<lparr>shape = [1, 1], data = [0 :: real]\<rparr>, Inr \<lparr>shape = [1, 1], data = [0 :: real]\<rparr>, Inr \<lparr>shape = [1, 1], data = [0 :: real]\<rparr>, Inr \<lparr>shape = [1, 1], data = [0 :: real]\<rparr>, Inr \<lparr>shape = [2], data = [1, 2 :: real]\<rparr>, 1)) \<lparr>err_indicator = None, refcnt = [], allocs = [], junk = (\<lambda>h i. 0 :: real)\<rparr> =
      topology_minkowski (\<lambda>(mem :: nat \<Rightarrow> nat \<Rightarrow> real) (m :: real list) (mp :: bool list option) (n :: int) (sg :: real) (gx :: real list) (gy :: real list) (hxx :: real list) (hyy :: real list) (hxy :: real list) (nt :: int) (t :: real list) (v0 :: real list) (v1 :: real list) (v2 :: real list). (map (\<lambda>x. 2) v0, v1, v2)) (Inr (Inr \<lparr>shape = [2, 3], data = [0, 0, 9, 0, 0, 0 :: real]\<rparr>, Py_None, Inr \<lparr>shape = [1, 1], data = [0 :: real]\<rparr>, Inr \<lparr>shape = [1, 1], data = [0 :: real]\<rparr>, Inr \<lparr>shape = [1, 1], data = [0 :: real]\<rparr>, Inr \<lparr>shape = [1, 1], data = [0 :: real]\<rparr>, Inr \<lparr>shape = [1, 1], data = [0 :: real]\<rparr>, Inr \<lparr>shape = [2], data = [1, 2 :: real]\<rparr>, 1)) \<lparr>err_indicator = None, refcnt = [], allocs = [], junk = (\<lambda>h i. 0 :: real)\<rparr>"
    using t [where minkowski_functionals = "(\<lambda>(mem :: nat \<Rightarrow> nat \<Rightarrow> real) (m :: real list) (mp :: bool list option) (n :: int) (sg :: real) (gx :: real list) (gy :: real list) (hxx :: real list) (hyy :: real list) (hxy :: real list) (nt :: int) (t :: real list) (v0 :: real list) (v1 :: real list) (v2 :: real list). (map (\<lambda>x. of_int n) v0, v1, v2))" and minkowski_functionals' = "(\<lambda>(mem :: nat \<Rightarrow> nat \<Rightarrow> real) (m :: real list) (mp :: bool list option) (n :: int) (sg :: real) (gx :: real list) (gy :: real list) (hxx :: real list) (hyy :: real list) (hxy :: real list) (nt :: int) (t :: real list) (v0 :: real list) (v1 :: real list) (v2 :: real list). (map (\<lambda>x. 2) v0, v1, v2))" and mask_obj = Py_None and thresholds_obj = "Inr \<lparr>shape = [2], data = [1, 2 :: real]\<rparr>" and sigma = 1 and grad_x_obj = "Inr \<lparr>shape = [1, 1], data = [0 :: real]\<rparr>" and grad_y_obj = "Inr \<lparr>shape = [1, 1], data = [0 :: real]\<rparr>" and hess_xx_obj = "Inr \<lparr>shape = [1, 1], data = [0 :: real]\<rparr>" and hess_yy_obj = "Inr \<lparr>shape = [1, 1], data = [0 :: real]\<rparr>" and hess_xy_obj = "Inr \<lparr>shape = [1, 1], data = [0 :: real]\<rparr>", THEN conjunct2, THEN conjunct2, THEN conjunct2, THEN conjunct2, THEN conjunct2, THEN conjunct2, THEN conjunct2, THEN conjunct2, THEN conjunct2, THEN conjunct2, THEN conjunct2] by simp
  from b x1 x2 x3 x4 h1 e1 h2 e2 h3 e3 h4 e4 show ?thesis by (intro conjI)
qed

text \<open>
  Without the bounds the claim fails. The side is not the first dimension for a map of
  \<open>2^32 + 2\<close> rows and one column: the kernel of \<^verbatim>\<open>hessian\<close> is handed the side length 2
  (it writes its side length into the first output here) and the outputs are \<open>2 \<times> 2\<close>.
  And a map of \<open>2^30\<close> rows and one column is not accepted by \<^verbatim>\<open>hessian\<close>: the call returns
  \<^verbatim>\<open>NULL\<close> with the \<^verbatim>\<open>ValueError\<close> of the outputs that are too big.
\<close>

theorem C10_counterexample:
  "returned (topology_hessian (\<lambda>(mem :: nat \<Rightarrow> nat \<Rightarrow> real) (m :: real list) (hxx :: real list) (hyy :: real list) (hxy :: real list) (n :: int). (map (\<lambda>x. of_int n) hxx, hyy, hxy))
      (Inr (Inr \<lparr>shape = [4294967298, 1], data = replicate 4294967298 0\<rparr>)) \<lparr>err_indicator = None, refcnt = [], allocs = [], junk = (\<lambda>h i. 0 :: real)\<rparr>)
     = Some (Vectors [Some (DoubleArray \<lparr>shape = [2, 2], data = [2, 2, 2, 2]\<rparr>),
                      Some (DoubleArray \<lparr>shape = [2, 2], data = [0, 0, 0, 0]\<rparr>),
                      Some (DoubleArray \<lparr>shape = [2, 2], data = [0, 0, 0, 0]\<rparr>)])
   \<and> (2 :: nat) \<noteq> 4294967298
   \<and> returned (topology_hessian (\<lambda>(mem :: nat \<Rightarrow> nat \<Rightarrow> real) (m :: real list) (hxx :: real list) (hyy :: real list) (hxy :: real list) (n :: int). (map (\<lambda>x. of_int n) hxx, hyy, hxy)) (Inr (Inr \<lparr>shape = [1073741824, 1], data = replicate 1073741824 0\<rparr>)) \<lparr>err_indicator = None, refcnt = [], allocs = [], junk = (\<lambda>h i. 0 :: real)\<rparr>) = None
   \<and> map_option err_indicator (state_after (topology_hessian (\<lambda>(mem :: nat \<Rightarrow> nat \<Rightarrow> real) (m :: real list) (hxx :: real list) (hyy :: real list) (hxy :: real list) (n :: int). (map (\<lambda>x. of_int n) hxx, hyy, hxy)) (Inr (Inr \<lparr>shape = [1073741824, 1], data = replicate 1073741824 0\<rparr>)) \<lparr>err_indicator = None, refcnt = [], allocs = [], junk = (\<lambda>h i. 0 :: real)\<rparr>)) = Some (Some ValueError)"
  by (simp add: hessian_returned c_int_def next_allocs_ok_def upt_rec)
     (simp add: topology_hessian_def outcome_defs state_after_def c_int_def)
subsection \<open>C9: the result does not depend on what earlier calls left\<close>

lemma next_allocs_ok_cong: "allocs s = allocs s' \<Longrightarrow> next_allocs_ok k s = next_allocs_ok k s'"
  by (simp add: next_allocs_ok_def)

lemma returned_eqI:
  assumes "\<And>v. returned a = Some v \<Longrightarrow> returned b = Some v"
    and "\<And>v. returned b = Some v \<Longrightarrow> returned a = Some v"
  shows "returned a = returned b"
  using assms by (cases "returned a"; cases "returned b") auto

lemma peakCount_returned_mono:
  assumes "allocs s = allocs s'"
    and "\<And>side dm md mko N dt td sigma.
          args = Inr (Inr \<lparr>shape = side # dm, data = md\<rparr>, map_pyarg Inr mko, Inr \<lparr>shape = N # dt, data = td\<rparr>, sigma) \<Longrightarrow>
          k (junk s) md (case mko of Py_None \<Rightarrow> None | Obj mk \<Rightarrow> Some (data mk)) (c_int (int side)) sigma (c_int (int N)) td (replicate (nat (c_int (int N) - 1)) 0) =
          k (junk s') md (case mko of Py_None \<Rightarrow> None | Obj mk \<Rightarrow> Some (data mk)) (c_int (int side)) sigma (c_int (int N)) td (replicate (nat (c_int (int N) - 1)) 0)"
    and "returned (topology_peakCount k args s) = Some v"
  shows "returned (topology_peakCount k args s') = Some v"
proof -
  from assms(3) obtain d0 dm md mko n0 dt td sigma where
    a: "args = Inr (Inr \<lparr>shape = d0 # dm, data = md\<rparr>, map_pyarg Inr mko, Inr \<lparr>shape = n0 # dt, data = td\<rparr>, sigma)"
    by (rule peakCount_returned_inv)
  from assms(2) [OF a] next_allocs_ok_cong [OF assms(1)] assms(3) a show ?thesis
    by (simp add: peakCount_returned split: if_splits)
qed

lemma minkowski_returned_mono:
  assumes "allocs s = allocs s'"
    and "\<And>side dm md mko gx gy hxx hyy hxy N dt td sigma.
          args = Inr (Inr \<lparr>shape = side # dm, data = md\<rparr>, map_pyarg Inr mko, Inr gx, Inr gy, Inr hxx, Inr hyy, Inr hxy,
                      Inr \<lparr>shape = N # dt, data = td\<rparr>, sigma) \<Longrightarrow>
          k (junk s) md (case mko of Py_None \<Rightarrow> None | Obj mk \<Rightarrow> Some (data mk)) (c_int (int side)) sigma (data gx) (data gy) (data hxx) (data hyy) (data hxy)
            (c_int (int N)) td (replicate (nat (c_int (int N) - 1)) 0) (replicate (nat (c_int (int N) - 1)) 0) (replicate (nat (c_int (int N) - 1)) 0) =
          k (junk s') md (case mko of Py_None \<Rightarrow> None | Obj mk \<Rightarrow> Some (data mk)) (c_int (int side)) sigma (data gx) (data gy) (data hxx) (data hyy) (data hxy)
            (c_int (int N)) td (replicate (nat (c_int (int N) - 1)) 0) (replicate (nat (c_int (int N) - 1)) 0) (replicate (nat (c_int (int N) - 1)) 0)"
    and "returned (topology_minkowski k args s) = Some v"
  shows "returned (topology_minkowski k args s') = Some v"
proof -
  from assms(3) obtain d0 dm md mko gx gy hxx hyy hxy n0 dt td sigma where
    a: "args = Inr (Inr \<lparr>shape = d0 # dm, data = md\<rparr>, map_pyarg Inr mko, Inr gx, Inr gy, Inr hxx, Inr hyy, Inr hxy,
                  Inr \<lparr>shape = n0 # dt, data = td\<rparr>, sigma)"
    by (rule minkowski_returned_inv)
  from assms(2) [OF a] next_allocs_ok_cong [OF assms(1)] assms(3) a show ?thesis
    by (simp add: minkowski_returned Let_def case_prod_unfold split: if_splits)
qed

lemma rfft2_returned_mono:
  assumes "allocs s = allocs s'"
    and "\<And>nx ny dm ft1_data ft2 angle N dt lv.
          args = Inr (Inr \<lparr>shape = nx # ny # dm, data = ft1_data\<rparr>, Inr ft2, angle, Inr \<lparr>shape = N # dt, data = lv\<rparr>) \<Longrightarrow>
          k (junk s) ft1_data (data ft2) (c_int (int nx)) (c_int (int ny)) angle (c_int (int N)) lv (replicate (nat (c_int (int N) - 1)) 0) =
          k (junk s') ft1_data (data ft2) (c_int (int nx)) (c_int (int ny)) angle (c_int (int N)) lv (replicate (nat (c_int (int N) - 1)) 0)"
    and "returned (topology_rfft2_azimuthal k args s) = Some v"
  shows "returned (topology_rfft2_azimuthal k args s') = Some v"
proof -
  from assms(3) obtain d0 d1 dm f1 ft2 angle n0 dt lv where
    a: "args = Inr (Inr \<lparr>shape = d0 # d1 # dm, data = f1\<rparr>, Inr ft2, angle, Inr \<lparr>shape = n0 # dt, data = lv\<rparr>)"
    by (rule rfft2_returned_inv)
  from assms(2) [OF a] next_allocs_ok_cong [OF assms(1)] assms(3) a show ?thesis
    by (simp add: rfft2_returned Let_def case_prod_unfold split: if_splits)
qed

lemma rfft3_returned_mono:
  assumes "allocs s = allocs s'"
    and "\<And>nx ny nz dm ft1_data ft2 kx ky kz N dt kv.
          args = Inr (Inr \<lparr>shape = nx # ny # nz # dm, data = ft1_data\<rparr>, Inr ft2, kx, ky, kz, Inr \<lparr>shape = N # dt, data = kv\<rparr>) \<Longrightarrow>
          k (junk s) ft1_data (data ft2) (c_int (int nx)) (c_int (int ny)) (c_int (int nz)) kx ky kz (c_int (int N)) kv (replicate (nat (c_int (int N) - 1)) 0) (replicate (nat (c_int (int N) - 1)) 0) =
          k (junk s') ft1_data (data ft2) (c_int (int nx)) (c_int (int ny)) (c_int (int nz)) kx ky kz (c_int (int N)) kv (replicate (nat (c_int (int N) - 1)) 0) (replicate (nat (c_int (int N) - 1)) 0)"
    and "returned (topology_rfft3_azimuthal k args s) = Some v"
  shows "returned (topology_rfft3_azimuthal k args s') = Some v"
proof -
  from assms(3) obtain d0 d1 d2 dm f1 ft2 kx ky kz n0 dt kv where
    a: "args = Inr (Inr \<lparr>shape = d0 # d1 # d2 # dm, data = f1\<rparr>, Inr ft2, kx, ky, kz,
                  Inr \<lparr>shape = n0 # dt, data = kv\<rparr>)"
    by (rule rfft3_returned_inv)
  from assms(2) [OF a] next_allocs_ok_cong [OF assms(1)] assms(3) a show ?thesis
    by (simp add: rfft3_returned Let_def case_prod_unfold split: if_splits)
qed

lemma gradient_returned_mono:
  assumes "allocs s = allocs s'"
    and "\<And>side dm md mem mem' gx gy gx' gy'.
           args = Inr (Inr \<lparr>shape = side # dm, data = md\<rparr>) \<Longrightarrow>
           length gx = nat (c_int (int side) * c_int (int side)) \<Longrightarrow> length gx' = length gx \<Longrightarrow>
           length gy = nat (c_int (int side) * c_int (int side)) \<Longrightarrow> length gy' = length gy \<Longrightarrow>
           k mem md gx gy (c_int (int side)) = k mem' md gx' gy' (c_int (int side))"
    and "returned (topology_gradient k args s) = Some v"
  shows "returned (topology_gradient k args s') = Some v"
proof -
  from assms(3) obtain d0 dm md where a: "args = Inr (Inr \<lparr>shape = d0 # dm, data = md\<rparr>)"
    by (rule gradient_returned_inv)
  let ?n = "nat (c_int (int d0) * c_int (int d0))"
  have "k (junk s) md (map (junk s (Suc (length (refcnt s)))) [0 ..< ?n])
             (map (junk s (Suc (Suc (length (refcnt s))))) [0 ..< ?n]) (c_int (int d0)) =
        k (junk s') md (map (junk s' (Suc (length (refcnt s')))) [0 ..< ?n])
             (map (junk s' (Suc (Suc (length (refcnt s'))))) [0 ..< ?n]) (c_int (int d0))"
    by (rule assms(2) [OF a]) simp_all
  with assms(3) a next_allocs_ok_cong [OF assms(1)] show ?thesis
    by (simp add: gradient_returned Let_def case_prod_unfold split: if_splits)
qed

lemma hessian_returned_mono:
  assumes "allocs s = allocs s'"
    and "\<And>side dm md mem mem' hxx hyy hxy hxx' hyy' hxy'.
           args = Inr (Inr \<lparr>shape = side # dm, data = md\<rparr>) \<Longrightarrow>
           length hxx = nat (c_int (int side) * c_int (int side)) \<Longrightarrow> length hxx' = length hxx \<Longrightarrow>
           length hyy = nat (c_int (int side) * c_int (int side)) \<Longrightarrow> length hyy' = length hyy \<Longrightarrow>
           length hxy = nat (c_int (int side) * c_int (int side)) \<Longrightarrow> length hxy' = length hxy \<Longrightarrow>
           k mem md hxx hyy hxy (c_int (int side)) = k mem' md hxx' hyy' hxy' (c_int (int side))"
    and "returned (topology_hessian k args s) = Some v"
  shows "returned (topology_hessian k args s') = Some v"
proof -
  from assms(3) obtain d0 dm md where a: "args = Inr (Inr \<lparr>shape = d0 # dm, data = md\<rparr>)"
    by (rule hessian_returned_inv)
  let ?n = "nat (c_int (int d0) * c_int (int d0))"
  have "k (junk s) md (map (junk s (Suc (length (refcnt s)))) [0 ..< ?n])
             (map (junk s (Suc (Suc (length (refcnt s))))) [0 ..< ?n])
             (map (junk s (Suc (Suc (Suc (length (refcnt s)))))) [0 ..< ?n]) (c_int (int d0)) =
        k (junk s') md (map (junk s' (Suc (length (refcnt s')))) [0 ..< ?n])
             (map (junk s' (Suc (Suc (length (refcnt s'))))) [0 ..< ?n])
             (map (junk s' (Suc (Suc (Suc (length (refcnt s')))))) [0 ..< ?n]) (c_int (int d0))"
    by (rule assms(2) [OF a]) simp_all
  with assms(3) a next_allocs_ok_cong [OF assms(1)] show ?thesis
    by (simp add: hessian_returned Let_def case_prod_unfold split: if_splits)
qed

text \<open>
  C9, as amended. The binding layer keeps no state of its own: the module has no
  variables, and an entry point reads nothing of the interpreter state but the outcome
  of its allocations. What a call returns is determined by its arguments, by the
  allocations that succeed and by what the kernel computes. So the value returned is
  the same in any two states of the interpreter (whatever the error indicator, the
  objects alive and the contents of the memory outside the buffers) in which the same
  allocations succeed, provided that what the kernel computes from the buffers and the
  numbers of the call does not depend on anything else: on these buffers it reads
  nothing past the end of a buffer (its result is the same whatever the memory outside
  them holds), and in \<^verbatim>\<open>gradient\<close> and \<^verbatim>\<open>hessian\<close>, whose outputs are allocated
  uninitialised, its result is the same whatever the output buffers held (it writes
  every sample).
\<close>

theorem C9_no_hidden_state:
  "(allocs s = allocs s' \<and>
      (\<forall>side dm md mko N dt td sigma mem mem'.
          peakCount_args = Inr (Inr \<lparr>shape = side # dm, data = md\<rparr>, map_pyarg Inr mko, Inr \<lparr>shape = N # dt, data = td\<rparr>, sigma) \<longrightarrow>
          peak_count mem md (case mko of Py_None \<Rightarrow> None | Obj mk \<Rightarrow> Some (data mk)) (c_int (int side)) sigma (c_int (int N)) td (replicate (nat (c_int (int N) - 1)) 0) =
          peak_count mem' md (case mko of Py_None \<Rightarrow> None | Obj mk \<Rightarrow> Some (data mk)) (c_int (int side)) sigma (c_int (int N)) td (replicate (nat (c_int (int N) - 1)) 0)) \<longrightarrow>
      returned (topology_peakCount peak_count peakCount_args s) = returned (topology_peakCount peak_count peakCount_args s'))
   \<and> (allocs s = allocs s' \<and>
      (\<forall>side dm md mem mem' gx gy gx' gy'.
          gradient_args = Inr (Inr \<lparr>shape = side # dm, data = md\<rparr>) \<and>
          length gx = nat (c_int (int side) * c_int (int side)) \<and> length gx' = length gx \<and>
          length gy = nat (c_int (int side) * c_int (int side)) \<and> length gy' = length gy \<longrightarrow>
          gradient_xy mem md gx gy (c_int (int side)) = gradient_xy mem' md gx' gy' (c_int (int side))) \<longrightarrow>
      returned (topology_gradient gradient_xy gradient_args s) = returned (topology_gradient gradient_xy gradient_args s'))
   \<and> (allocs s = allocs s' \<and>
      (\<forall>side dm md mem mem' hxx hyy hxy hxx' hyy' hxy'.
          hessian_args = Inr (Inr \<lparr>shape = side # dm, data = md\<rparr>) \<and>
          length hxx = nat (c_int (int side) * c_int (int side)) \<and> length hxx' = length hxx \<and>
          length hyy = nat (c_int (int side) * c_int (int side)) \<and> length hyy' = length hyy \<and>
          length hxy = nat (c_int (int side) * c_int (int side)) \<and> length hxy' = length hxy \<longrightarrow>
          hessian mem md hxx hyy hxy (c_int (int side)) = hessian mem' md hxx' hyy' hxy' (c_int (int side))) \<longrightarrow>
      returned (topology_hessian hessian hessian_args s) = returned (topology_hessian hessian hessian_args s'))
   \<and> (allocs s = allocs s' \<and>
      (\<forall>side dm md mko gx gy hxx hyy hxy N dt td sigma mem mem'.
          minkowski_args = Inr (Inr \<lparr>shape = side # dm, data = md\<rparr>, map_pyarg Inr mko, Inr gx, Inr gy, Inr hxx, Inr hyy, Inr hxy,
                                Inr \<lparr>shape = N # dt, data = td\<rparr>, sigma) \<longrightarrow>
          minkowski_functionals mem md (case mko of Py_None \<Rightarrow> None | Obj mk \<Rightarrow> Some (data mk)) (c_int (int side)) sigma (data gx) (data gy) (data hxx) (data hyy) (data hxy) (c_int (int N)) td (replicate (nat (c_int (int N) - 1)) 0) (replicate (nat (c_int (int N) - 1)) 0) (replicate (nat (c_int (int N) - 1)) 0) =
          minkowski_functionals mem' md (case mko of Py_None \<Rightarrow> None | Obj mk \<Rightarrow> Some (data mk)) (c_int (int side)) sigma (data gx) (data gy) (data hxx) (data hyy) (data hxy) (c_int (int N)) td (replicate (nat (c_int (int N) - 1)) 0) (replicate (nat (c_int (int N) - 1)) 0) (replicate (nat (c_int (int N) - 1)) 0)) \<longrightarrow>
      returned (topology_minkowski minkowski_functionals minkowski_args s) = returned (topology_minkowski minkowski_functionals minkowski_args s'))
   \<and> (allocs s = allocs s' \<and>
      (\<forall>nx ny dm ft1_data ft2 angle N dt lv mem mem'.
          rfft2_args = Inr (Inr \<lparr>shape = nx # ny # dm, data = ft1_data\<rparr>, Inr ft2, angle, Inr \<lparr>shape = N # dt, data = lv\<rparr>) \<longrightarrow>
          azimuthal_2d mem ft1_data (data ft2) (c_int (int nx)) (c_int (int ny)) angle (c_int (int N)) lv (replicate (nat (c_int (int N) - 1)) 0) =
          azimuthal_2d mem' ft1_data (data ft2) (c_int (int nx)) (c_int (int ny)) angle (c_int (int N)) lv (replicate (nat (c_int (int N) - 1)) 0)) \<longrightarrow>
      returned (topology_rfft2_azimuthal azimuthal_2d rfft2_args s) = returned (topology_rfft2_azimuthal azimuthal_2d rfft2_args s'))
   \<and> (allocs s = allocs s' \<and>
      (\<forall>nx ny nz dm ft1_data ft2 kx ky kz N dt kv mem mem'.
          rfft3_args = Inr (Inr \<lparr>shape = nx # ny # nz # dm, data = ft1_data\<rparr>, Inr ft2, kx, ky, kz, Inr \<lparr>shape = N # dt, data = kv\<rparr>) \<longrightarrow>
          azimuthal_3d mem ft1_data (data ft2) (c_int (int nx)) (c_int (int ny)) (c_int (int nz)) kx ky kz (c_int (int N)) kv (replicate (nat (c_int (int N) - 1)) 0) (replicate (nat (c_int (int N) - 1)) 0) =
          azimuthal_3d mem' ft1_data (data ft2) (c_int (int nx)) (c_int (int ny)) (c_int (int nz)) kx ky kz (c_int (int N)) kv (replicate (nat (c_int (int N) - 1)) 0) (replicate (nat (c_int (int N) - 1)) 0)) \<longrightarrow>
      returned (topology_rfft3_azimuthal azimuthal_3d rfft3_args s) = returned (topology_rfft3_azimuthal azimuthal_3d rfft3_args s'))"
proof (intro conjI impI)
  assume a: "allocs s = allocs s' \<and>
      (\<forall>side dm md mko N dt td sigma mem mem'.
          peakCount_args = Inr (Inr \<lparr>shape = side # dm, data = md\<rparr>, map_pyarg Inr mko, Inr \<lparr>shape = N # dt, data = td\<rparr>, sigma) \<longrightarrow>
          peak_count mem md (case mko of Py_None \<Rightarrow> None | Obj mk \<Rightarrow> Some (data mk)) (c_int (int side)) sigma (c_int (int N)) td (replicate (nat (c_int (int N) - 1)) 0) =
          peak_count mem' md (case mko of Py_None \<Rightarrow> None | Obj mk \<Rightarrow> Some (data mk)) (c_int (int side)) sigma (c_int (int N)) td (replicate (nat (c_int (int N) - 1)) 0))"
  then have e: "allocs s = allocs s'" "allocs s' = allocs s" by simp_all
  from a have k: "peakCount_args = Inr (Inr \<lparr>shape = side # dm, data = md\<rparr>, map_pyarg Inr mko, Inr \<lparr>shape = N # dt, data = td\<rparr>, sigma) \<Longrightarrow>
          peak_count mem md (case mko of Py_None \<Rightarrow> None | Obj mk \<Rightarrow> Some (data mk)) (c_int (int side)) sigma (c_int (int N)) td (replicate (nat (c_int (int N) - 1)) 0) =
          peak_count mem' md (case mko of Py_None \<Rightarrow> None | Obj mk \<Rightarrow> Some (data mk)) (c_int (int side)) sigma (c_int (int N)) td (replicate (nat (c_int (int N) - 1)) 0)"
    for side dm md mko N dt td sigma mem mem' by blast
  show "returned (topology_peakCount peak_count peakCount_args s) = returned (topology_peakCount peak_count peakCount_args s')"
  proof (rule returned_eqI)
    fix v assume r: "returned (topology_peakCount peak_count peakCount_args s) = Some v"
    show "returned (topology_peakCount peak_count peakCount_args s') = Some v"
      by (rule peakCount_returned_mono [OF e(1) _ r]) (erule k)
  next
    fix v assume r: "returned (topology_peakCount peak_count peakCount_args s') = Some v"
    show "returned (topology_peakCount peak_count peakCount_args s) = Some v"
      by (rule peakCount_returned_mono [OF e(2) _ r]) (erule k)
  qed
next
  assume a: "allocs s = allocs s' \<and>
      (\<forall>side dm md mko gx gy hxx hyy hxy N dt td sigma mem mem'.
          minkowski_args = Inr (Inr \<lparr>shape = side # dm, data = md\<rparr>, map_pyarg Inr mko, Inr gx, Inr gy, Inr hxx, Inr hyy, Inr hxy,
                                Inr \<lparr>shape = N # dt, data = td\<rparr>, sigma) \<longrightarrow>
          minkowski_functionals mem md (case mko of Py_None \<Rightarrow> None | Obj mk \<Rightarrow> Some (data mk)) (c_int (int side)) sigma (data gx) (data gy) (data hxx) (data hyy) (data hxy) (c_int (int N)) td (replicate (nat (c_int (int N) - 1)) 0) (replicate (nat (c_int (int N) - 1)) 0) (replicate (nat (c_int (int N) - 1)) 0) =
          minkowski_functionals mem' md (case mko of Py_None \<Rightarrow> None | Obj mk \<Rightarrow> Some (data mk)) (c_int (int side)) sigma (data gx) (data gy) (data hxx) (data hyy) (data hxy) (c_int (int N)) td (replicate (nat (c_int (int N) - 1)) 0) (replicate (nat (c_int (int N) - 1)) 0) (replicate (nat (c_int (int N) - 1)) 0))"
  then have e: "allocs s = allocs s'" "allocs s' = allocs s" by simp_all
  from a have k: "minkowski_args = Inr (Inr \<lparr>shape = side # dm, data = md\<rparr>, map_pyarg Inr mko, Inr gx, Inr gy, Inr hxx, Inr hyy, Inr hxy,
                      Inr \<lparr>shape = N # dt, data = td\<rparr>, sigma) \<Longrightarrow>
          minkowski_functionals mem md (case mko of Py_None \<Rightarrow> None | Obj mk \<Rightarrow> Some (data mk)) (c_int (int side)) sigma (data gx) (data gy) (data hxx) (data hyy) (data hxy)
            (c_int (int N)) td (replicate (nat (c_int (int N) - 1)) 0) (replicate (nat (c_int (int N) - 1)) 0) (replicate (nat (c_int (int N) - 1)) 0) =
          minkowski_functionals mem' md (case mko of Py_None \<Rightarrow> None | Obj mk \<Rightarrow> Some (data mk)) (c_int (int side)) sigma (data gx) (data gy) (data hxx) (data hyy) (data hxy)
            (c_int (int N)) td (replicate (nat (c_int (int N) - 1)) 0) (replicate (nat (c_int (int N) - 1)) 0) (replicate (nat (c_int (int N) - 1)) 0)"
    for side dm md mko gx gy hxx hyy hxy N dt td sigma mem mem' by blast
  show "returned (topology_minkowski minkowski_functionals minkowski_args s) =
             returned (topology_minkowski minkowski_functionals minkowski_args s')"
  proof (rule returned_eqI)
    fix v assume r: "returned (topology_minkowski minkowski_functionals minkowski_args s) = Some v"
    show "returned (topology_minkowski minkowski_functionals minkowski_args s') = Some v"
      by (rule minkowski_returned_mono [OF e(1) _ r]) (erule k)
  next
    fix v assume r: "returned (topology_minkowski minkowski_functionals minkowski_args s') = Some v"
    show "returned (topology_minkowski minkowski_functionals minkowski_args s) = Some v"
      by (rule minkowski_returned_mono [OF e(2) _ r]) (erule k)
  qed
next
  assume a: "allocs s = allocs s' \<and>
      (\<forall>nx ny dm ft1_data ft2 angle N dt lv mem mem'.
          rfft2_args = Inr (Inr \<lparr>shape = nx # ny # dm, data = ft1_data\<rparr>, Inr ft2, angle, Inr \<lparr>shape = N # dt, data = lv\<rparr>) \<longrightarrow>
          azimuthal_2d mem ft1_data (data ft2) (c_int (int nx)) (c_int (int ny)) angle (c_int (int N)) lv (replicate (nat (c_int (int N) - 1)) 0) =
          azimuthal_2d mem' ft1_data (data ft2) (c_int (int nx)) (c_int (int ny)) angle (c_int (int N)) lv (replicate (nat (c_int (int N) - 1)) 0))"
  then have e: "allocs s = allocs s'" "allocs s' = allocs s" by simp_all
  from a have k: "rfft2_args = Inr (Inr \<lparr>shape = nx # ny # dm, data = ft1_data\<rparr>, Inr ft2, angle, Inr \<lparr>shape = N # dt, data = lv\<rparr>) \<Longrightarrow>
          azimuthal_2d mem ft1_data (data ft2) (c_int (int nx)) (c_int (int ny)) angle (c_int (int N)) lv (replicate (nat (c_int (int N) - 1)) 0) =
          azimuthal_2d mem' ft1_data (data ft2) (c_int (int nx)) (c_int (int ny)) angle (c_int (int N)) lv (replicate (nat (c_int (int N) - 1)) 0)"
    for nx ny dm ft1_data ft2 angle N dt lv mem mem' by blast
  show "returned (topology_rfft2_azimuthal azimuthal_2d rfft2_args s) =
             returned (topology_rfft2_azimuthal azimuthal_2d rfft2_args s')"
  proof (rule returned_eqI)
    fix v assume r: "returned (topology_rfft2_azimuthal azimuthal_2d rfft2_args s) = Some v"
    show "returned (topology_rfft2_azimuthal azimuthal_2d rfft2_args s') = Some v"
      by (rule rfft2_returned_mono [OF e(1) _ r]) (erule k)
  next
    fix v assume r: "returned (topology_rfft2_azimuthal azimuthal_2d rfft2_args s') = Some v"
    show "returned (topology_rfft2_azimuthal azimuthal_2d rfft2_args s) = Some v"
      by (rule rfft2_returned_mono [OF e(2) _ r]) (erule k)
  qed
next
  assume a: "allocs s = allocs s' \<and>
      (\<forall>nx ny nz dm ft1_data ft2 kx ky kz N dt kv mem mem'.
          rfft3_args = Inr (Inr \<lparr>shape = nx # ny # nz # dm, data = ft1_data\<rparr>, Inr ft2, kx, ky, kz, Inr \<lparr>shape = N # dt, data = kv\<rparr>) \<longrightarrow>
          azimuthal_3d mem ft1_data (data ft2) (c_int (int nx)) (c_int (int ny)) (c_int (int nz)) kx ky kz (c_int (int N)) kv (replicate (nat (c_int (int N) - 1)) 0) (replicate (nat (c_int (int N) - 1)) 0) =
          azimuthal_3d mem' ft1_data (data ft2) (c_int (int nx)) (c_int (int ny)) (c_int (int nz)) kx ky kz (c_int (int N)) kv (replicate (nat (c_int (int N) - 1)) 0) (replicate (nat (c_int (int N) - 1)) 0))"
  then have e: "allocs s = allocs s'" "allocs s' = allocs s" by simp_all
  from a have k: "rfft3_args = Inr (Inr \<lparr>shape = nx # ny # nz # dm, data = ft1_data\<rparr>, Inr ft2, kx, ky, kz, Inr \<lparr>shape = N # dt, data = kv\<rparr>) \<Longrightarrow>
          azimuthal_3d mem ft1_data (data ft2) (c_int (int nx)) (c_int (int ny)) (c_int (int nz)) kx ky kz (c_int (int N)) kv (replicate (nat (c_int (int N) - 1)) 0) (replicate (nat (c_int (int N) - 1)) 0) =
          azimuthal_3d mem' ft1_data (data ft2) (c_int (int nx)) (c_int (int ny)) (c_int (int nz)) kx ky kz (c_int (int N)) kv (replicate (nat (c_int (int N) - 1)) 0) (replicate (nat (c_int (int N) - 1)) 0)"
    for nx ny nz dm ft1_data ft2 kx ky kz N dt kv mem mem' by blast
  show "returned (topology_rfft3_azimuthal azimuthal_3d rfft3_args s) =
             returned (topology_rfft3_azimuthal azimuthal_3d rfft3_args s')"
  proof (rule returned_eqI)
    fix v assume r: "returned (topology_rfft3_azimuthal azimuthal_3d rfft3_args s) = Some v"
    show "returned (topology_rfft3_azimuthal azimuthal_3d rfft3_args s') = Some v"
      by (rule rfft3_returned_mono [OF e(1) _ r]) (erule k)
  next
    fix v assume r: "returned (topology_rfft3_azimuthal azimuthal_3d rfft3_args s') = Some v"
    show "returned (topology_rfft3_azimuthal azimuthal_3d rfft3_args s) = Some v"
      by (rule rfft3_returned_mono [OF e(2) _ r]) (erule k)
  qed
next
  assume a: "allocs s = allocs s' \<and>
      (\<forall>side dm md mem mem' gx gy gx' gy'.
          gradient_args = Inr (Inr \<lparr>shape = side # dm, data = md\<rparr>) \<and>
          length gx = nat (c_int (int side) * c_int (int side)) \<and> length gx' = length gx \<and>
          length gy = nat (c_int (int side) * c_int (int side)) \<and> length gy' = length gy \<longrightarrow>
          gradient_xy mem md gx gy (c_int (int side)) = gradient_xy mem' md gx' gy' (c_int (int side)))"
  then have e: "allocs s = allocs s'" "allocs s' = allocs s" by simp_all
  from a have k: "gradient_args = Inr (Inr \<lparr>shape = side # dm, data = md\<rparr>) \<Longrightarrow>
           length gx = nat (c_int (int side) * c_int (int side)) \<Longrightarrow> length gx' = length gx \<Longrightarrow>
           length gy = nat (c_int (int side) * c_int (int side)) \<Longrightarrow> length gy' = length gy \<Longrightarrow>
           gradient_xy mem md gx gy (c_int (int side)) = gradient_xy mem' md gx' gy' (c_int (int side))"
    for side dm md mem mem' gx gy gx' gy' by blast
  show "returned (topology_gradient gradient_xy gradient_args s) = returned (topology_gradient gradient_xy gradient_args s')"
  proof (rule returned_eqI)
    fix v assume r: "returned (topology_gradient gradient_xy gradient_args s) = Some v"
    show "returned (topology_gradient gradient_xy gradient_args s') = Some v"
      by (rule gradient_returned_mono [OF e(1) _ r]) (erule k, assumption+)
  next
    fix v assume r: "returned (topology_gradient gradient_xy gradient_args s') = Some v"
    show "returned (topology_gradient gradient_xy gradient_args s) = Some v"
      by (rule gradient_returned_mono [OF e(2) _ r]) (erule k, assumption+)
  qed
next
  assume a: "allocs s = allocs s' \<and>
      (\<forall>side dm md mem mem' hxx hyy hxy hxx' hyy' hxy'.
          hessian_args = Inr (Inr \<lparr>shape = side # dm, data = md\<rparr>) \<and>
          length hxx = nat (c_int (int side) * c_int (int side)) \<and> length hxx' = length hxx \<and>
          length hyy = nat (c_int (int side) * c_int (int side)) \<and> length hyy' = length hyy \<and>
          length hxy = nat (c_int (int side) * c_int (int side)) \<and> length hxy' = length hxy \<longrightarrow>
          hessian mem md hxx hyy hxy (c_int (int side)) = hessian mem' md hxx' hyy' hxy' (c_int (int side)))"
  then have e: "allocs s = allocs s'" "allocs s' = allocs s" by simp_all
  from a have k: "hessian_args = Inr (Inr \<lparr>shape = side # dm, data = md\<rparr>) \<Longrightarrow>
           length hxx = nat (c_int (int side) * c_int (int side)) \<Longrightarrow> length hxx' = length hxx \<Longrightarrow>
           length hyy = nat (c_int (int side) * c_int (int side)) \<Longrightarrow> length hyy' = length hyy \<Longrightarrow>
           length hxy = nat (c_int (int side) * c_int (int side)) \<Longrightarrow> length hxy' = length hxy \<Longrightarrow>
           hessian mem md hxx hyy hxy (c_int (int side)) = hessian mem' md hxx' hyy' hxy' (c_int (int side))"
    for side dm md mem mem' hxx hyy hxy hxx' hyy' hxy' by blast
  show "returned (topology_hessian hessian hessian_args s) = returned (topology_hessian hessian hessian_args s')"
  proof (rule returned_eqI)
    fix v assume r: "returned (topology_hessian hessian hessian_args s) = Some v"
    show "returned (topology_hessian hessian hessian_args s') = Some v"
      by (rule hessian_returned_mono [OF e(1) _ r]) (erule k, assumption+)
  next
    fix v assume r: "returned (topology_hessian hessian hessian_args s') = Some v"
    show "returned (topology_hessian hessian hessian_args s) = Some v"
      by (rule hessian_returned_mono [OF e(2) _ r]) (erule k, assumption+)
  qed
qed

text \<open>
  The six entry points, each called in a fresh state and in a state with an error
  pending, objects alive and other contents of memory. The kernel of \<^verbatim>\<open>peakCount\<close> reads
  the fourth sample of its map, which the \<open>2 \<times> 2\<close> map has; the kernels of \<^verbatim>\<open>gradient\<close> and
  \<^verbatim>\<open>hessian\<close> write every sample of their outputs.
\<close>

theorem C9_no_hidden_state_witness:
  "allocs \<lparr>err_indicator = None, refcnt = [], allocs = [], junk = (\<lambda>h i. 0 :: real)\<rparr> = allocs \<lparr>err_indicator = Some ValueError, refcnt = [1, 0], allocs = [], junk = (\<lambda>h i. 7 :: real)\<rparr>
   \<and> returned (topology_peakCount (\<lambda>(mem :: nat \<Rightarrow> nat \<Rightarrow> real) (m :: real list) (mp :: bool list option) (n :: int) (sg :: real) (nt :: int) (t :: real list) (out :: real list). out[0 := (m @ map (mem 0) [0 ..< 4]) ! 3])
        (Inr (Inr \<lparr>shape = [2, 2], data = [0, 0, 9, 5 :: real]\<rparr>, Py_None, Inr \<lparr>shape = [3], data = [1, 2, 3 :: real]\<rparr>, 1))
        \<lparr>err_indicator = None, refcnt = [], allocs = [], junk = (\<lambda>h i. 0 :: real)\<rparr>) =
     returned (topology_peakCount (\<lambda>(mem :: nat \<Rightarrow> nat \<Rightarrow> real) (m :: real list) (mp :: bool list option) (n :: int) (sg :: real) (nt :: int) (t :: real list) (out :: real list). out[0 := (m @ map (mem 0) [0 ..< 4]) ! 3])
        (Inr (Inr \<lparr>shape = [2, 2], data = [0, 0, 9, 5 :: real]\<rparr>, Py_None, Inr \<lparr>shape = [3], data = [1, 2, 3 :: real]\<rparr>, 1))
        \<lparr>err_indicator = Some ValueError, refcnt = [1, 0], allocs = [], junk = (\<lambda>h i. 7 :: real)\<rparr>)
   \<and> returned (topology_gradient (\<lambda>(mem :: nat \<Rightarrow> nat \<Rightarrow> real) (m :: real list) (gx :: real list) (gy :: real list) (n :: int). (map (\<lambda>x. 1 :: real) gx, map (\<lambda>x. 2 :: real) gy))
        (Inr (Inr \<lparr>shape = [2, 2], data = [0, 0, 9, 5 :: real]\<rparr>))
        \<lparr>err_indicator = None, refcnt = [], allocs = [], junk = (\<lambda>h i. 0 :: real)\<rparr>) =
     returned (topology_gradient (\<lambda>(mem :: nat \<Rightarrow> nat \<Rightarrow> real) (m :: real list) (gx :: real list) (gy :: real list) (n :: int). (map (\<lambda>x. 1 :: real) gx, map (\<lambda>x. 2 :: real) gy))
        (Inr (Inr \<lparr>shape = [2, 2], data = [0, 0, 9, 5 :: real]\<rparr>))
        \<lparr>err_indicator = Some ValueError, refcnt = [1, 0], allocs = [], junk = (\<lambda>h i. 7 :: real)\<rparr>)
   \<and> returned (topology_hessian (\<lambda>(mem :: nat \<Rightarrow> nat \<Rightarrow> real) (m :: real list) (hxx :: real list) (hyy :: real list) (hxy :: real list) (n :: int). (map (\<lambda>x. 1 :: real) hxx, map (\<lambda>x. 2 :: real) hyy, map (\<lambda>x. 3 :: real) hxy))
        (Inr (Inr \<lparr>shape = [2, 2], data = [0, 0, 9, 5 :: real]\<rparr>))
        \<lparr>err_indicator = None, refcnt = [], allocs = [], junk = (\<lambda>h i. 0 :: real)\<rparr>) =
     returned (topology_hessian (\<lambda>(mem :: nat \<Rightarrow> nat \<Rightarrow> real) (m :: real list) (hxx :: real list) (hyy :: real list) (hxy :: real list) (n :: int). (map (\<lambda>x. 1 :: real) hxx, map (\<lambda>x. 2 :: real) hyy, map (\<lambda>x. 3 :: real) hxy))
        (Inr (Inr \<lparr>shape = [2, 2], data = [0, 0, 9, 5 :: real]\<rparr>))
        \<lparr>err_indicator = Some ValueError, refcnt = [1, 0], allocs = [], junk = (\<lambda>h i. 7 :: real)\<rparr>)
   \<and> returned (topology_minkowski (\<lambda>(mem :: nat \<Rightarrow> nat \<Rightarrow> real) (m :: real list) (mp :: bool list option) (n :: int) (sg :: real) (gx :: real list) (gy :: real list) (hxx :: real list) (hyy :: real list) (hxy :: real list) (nt :: int) (t :: real list) (v0 :: real list) (v1 :: real list) (v2 :: real list). (v0[0 := 1], v1, v2[1 := 1]))
        (Inr (Inr \<lparr>shape = [2, 2], data = [0, 0, 9, 5 :: real]\<rparr>, Py_None, Inr \<lparr>shape = [1, 1], data = [0 :: real]\<rparr>, Inr \<lparr>shape = [1, 1], data = [0 :: real]\<rparr>, Inr \<lparr>shape = [1, 1], data = [0 :: real]\<rparr>, Inr \<lparr>shape = [1, 1], data = [0 :: real]\<rparr>, Inr \<lparr>shape = [1, 1], data = [0 :: real]\<rparr>, Inr \<lparr>shape = [3], data = [1, 2, 3 :: real]\<rparr>, 1))
        \<lparr>err_indicator = None, refcnt = [], allocs = [], junk = (\<lambda>h i. 0 :: real)\<rparr>) =
     returned (topology_minkowski (\<lambda>(mem :: nat \<Rightarrow> nat \<Rightarrow> real) (m :: real list) (mp :: bool list option) (n :: int) (sg :: real) (gx :: real list) (gy :: real list) (hxx :: real list) (hyy :: real list) (hxy :: real list) (nt :: int) (t :: real list) (v0 :: real list) (v1 :: real list) (v2 :: real list). (v0[0 := 1], v1, v2[1 := 1]))
        (Inr (Inr \<lparr>shape = [2, 2], data = [0, 0, 9, 5 :: real]\<rparr>, Py_None, Inr \<lparr>shape = [1, 1], data = [0 :: real]\<rparr>, Inr \<lparr>shape = [1, 1], data = [0 :: real]\<rparr>, Inr \<lparr>shape = [1, 1], data = [0 :: real]\<rparr>, Inr \<lparr>shape = [1, 1], data = [0 :: real]\<rparr>, Inr \<lparr>shape = [1, 1], data = [0 :: real]\<rparr>, Inr \<lparr>shape = [3], data = [1, 2, 3 :: real]\<rparr>, 1))
        \<lparr>err_indicator = Some ValueError, refcnt = [1, 0], allocs = [], junk = (\<lambda>h i. 7 :: real)\<rparr>)
   \<and> returned (topology_rfft2_azimuthal (\<lambda>(mem :: nat \<Rightarrow> nat \<Rightarrow> real) (f1 :: complex list) (f2 :: complex list) (nx :: int) (ny :: int) (ang :: real) (nv :: int) (lv :: real list) (pw :: real list). (0 :: int, pw[1 := 4]))
        (Inr (Inr \<lparr>shape = [1, 1], data = [0 :: complex]\<rparr>, Inr \<lparr>shape = [1, 1], data = [0 :: complex]\<rparr>, 1, Inr \<lparr>shape = [3], data = [1, 2, 3 :: real]\<rparr>))
        \<lparr>err_indicator = None, refcnt = [], allocs = [], junk = (\<lambda>h i. 0 :: real)\<rparr>) =
     returned (topology_rfft2_azimuthal (\<lambda>(mem :: nat \<Rightarrow> nat \<Rightarrow> real) (f1 :: complex list) (f2 :: complex list) (nx :: int) (ny :: int) (ang :: real) (nv :: int) (lv :: real list) (pw :: real list). (0 :: int, pw[1 := 4]))
        (Inr (Inr \<lparr>shape = [1, 1], data = [0 :: complex]\<rparr>, Inr \<lparr>shape = [1, 1], data = [0 :: complex]\<rparr>, 1, Inr \<lparr>shape = [3], data = [1, 2, 3 :: real]\<rparr>))
        \<lparr>err_indicator = Some ValueError, refcnt = [1, 0], allocs = [], junk = (\<lambda>h i. 7 :: real)\<rparr>)
   \<and> returned (topology_rfft3_azimuthal (\<lambda>(mem :: nat \<Rightarrow> nat \<Rightarrow> real) (f1 :: complex list) (f2 :: complex list) (nx :: int) (ny :: int) (nz :: int) (kx :: real) (ky :: real) (kz :: real) (nv :: int) (kv :: real list) (pw :: real list) (hits :: int list). (0 :: int, pw[1 := 4], hits[1 := 1]))
        (Inr (Inr \<lparr>shape = [1, 1, 1], data = [0 :: complex]\<rparr>, Inr \<lparr>shape = [1, 1, 1], data = [0 :: complex]\<rparr>, 1, 1, 1, Inr \<lparr>shape = [3], data = [1, 2, 3 :: real]\<rparr>))
        \<lparr>err_indicator = None, refcnt = [], allocs = [], junk = (\<lambda>h i. 0 :: real)\<rparr>) =
     returned (topology_rfft3_azimuthal (\<lambda>(mem :: nat \<Rightarrow> nat \<Rightarrow> real) (f1 :: complex list) (f2 :: complex list) (nx :: int) (ny :: int) (nz :: int) (kx :: real) (ky :: real) (kz :: real) (nv :: int) (kv :: real list) (pw :: real list) (hits :: int list). (0 :: int, pw[1 := 4], hits[1 := 1]))
        (Inr (Inr \<lparr>shape = [1, 1, 1], data = [0 :: complex]\<rparr>, Inr \<lparr>shape = [1, 1, 1], data = [0 :: complex]\<rparr>, 1, 1, 1, Inr \<lparr>shape = [3], data = [1, 2, 3 :: real]\<rparr>))
        \<lparr>err_indicator = Some ValueError, refcnt = [1, 0], allocs = [], junk = (\<lambda>h i. 7 :: real)\<rparr>)"
proof -
  have a: "allocs \<lparr>err_indicator = None, refcnt = [], allocs = [], junk = (\<lambda>h i. 0 :: real)\<rparr> = allocs \<lparr>err_indicator = Some ValueError, refcnt = [1, 0], allocs = [], junk = (\<lambda>h i. 7 :: real)\<rparr>" by simp
  have i1: "(\<forall>side dm md mko N dt td sigma mem mem'.
          (Inr (Inr \<lparr>shape = [2, 2], data = [0, 0, 9, 5 :: real]\<rparr>, Py_None, Inr \<lparr>shape = [3], data = [1, 2, 3 :: real]\<rparr>, 1)) = Inr (Inr \<lparr>shape = side # dm, data = md\<rparr>, map_pyarg Inr mko, Inr \<lparr>shape = N # dt, data = td\<rparr>, sigma) \<longrightarrow>
          (\<lambda>(mem :: nat \<Rightarrow> nat \<Rightarrow> real) (m :: real list) (mp :: bool list option) (n :: int) (sg :: real) (nt :: int) (t :: real list) (out :: real list). out[0 := (m @ map (mem 0) [0 ..< 4]) ! 3]) mem md (case mko of Py_None \<Rightarrow> None | Obj mk \<Rightarrow> Some (data mk)) (c_int (int side)) sigma (c_int (int N)) td (replicate (nat (c_int (int N) - 1)) 0) =
          (\<lambda>(mem :: nat \<Rightarrow> nat \<Rightarrow> real) (m :: real list) (mp :: bool list option) (n :: int) (sg :: real) (nt :: int) (t :: real list) (out :: real list). out[0 := (m @ map (mem 0) [0 ..< 4]) ! 3]) mem' md (case mko of Py_None \<Rightarrow> None | Obj mk \<Rightarrow> Some (data mk)) (c_int (int side)) sigma (c_int (int N)) td (replicate (nat (c_int (int N) - 1)) 0))"
    by (simp add: upt_rec)
  have i2: "(\<forall>side dm md mem mem' gx gy gx' gy'.
          (Inr (Inr \<lparr>shape = [2, 2], data = [0, 0, 9, 5 :: real]\<rparr>)) = Inr (Inr \<lparr>shape = side # dm, data = md\<rparr>) \<and>
          length gx = nat (c_int (int side) * c_int (int side)) \<and> length gx' = length gx \<and>
          length gy = nat (c_int (int side) * c_int (int side)) \<and> length gy' = length gy \<longrightarrow>
          (\<lambda>(mem :: nat \<Rightarrow> nat \<Rightarrow> real) (m :: real list) (gx :: real list) (gy :: real list) (n :: int). (map (\<lambda>x. 1 :: real) gx, map (\<lambda>x. 2 :: real) gy)) mem md gx gy (c_int (int side)) = (\<lambda>(mem :: nat \<Rightarrow> nat \<Rightarrow> real) (m :: real list) (gx :: real list) (gy :: real list) (n :: int). (map (\<lambda>x. 1 :: real) gx, map (\<lambda>x. 2 :: real) gy)) mem' md gx' gy' (c_int (int side)))"
    by (simp add: map_replicate_const)
  have i3: "(\<forall>side dm md mem mem' hxx hyy hxy hxx' hyy' hxy'.
          (Inr (Inr \<lparr>shape = [2, 2], data = [0, 0, 9, 5 :: real]\<rparr>)) = Inr (Inr \<lparr>shape = side # dm, data = md\<rparr>) \<and>
          length hxx = nat (c_int (int side) * c_int (int side)) \<and> length hxx' = length hxx \<and>
          length hyy = nat (c_int (int side) * c_int (int side)) \<and> length hyy' = length hyy \<and>
          length hxy = nat (c_int (int side) * c_int (int side)) \<and> length hxy' = length hxy \<longrightarrow>
          (\<lambda>(mem :: nat \<Rightarrow> nat \<Rightarrow> real) (m :: real list) (hxx :: real list) (hyy :: real list) (hxy :: real list) (n :: int). (map (\<lambda>x. 1 :: real) hxx, map (\<lambda>x. 2 :: real) hyy, map (\<lambda>x. 3 :: real) hxy)) mem md hxx hyy hxy (c_int (int side)) = (\<lambda>(mem :: nat \<Rightarrow> nat \<Rightarrow> real) (m :: real list) (hxx :: real list) (hyy :: real list) (hxy :: real list) (n :: int). (map (\<lambda>x. 1 :: real) hxx, map (\<lambda>x. 2 :: real) hyy, map (\<lambda>x. 3 :: real) hxy)) mem' md hxx' hyy' hxy' (c_int (int side)))"
    by (simp add: map_replicate_const)
  have i4: "(\<forall>side dm md mko gx gy hxx hyy hxy N dt td sigma mem mem'.
          (Inr (Inr \<lparr>shape = [2, 2], data = [0, 0, 9, 5 :: real]\<rparr>, Py_None, Inr \<lparr>shape = [1, 1], data = [0 :: real]\<rparr>, Inr \<lparr>shape = [1, 1], data = [0 :: real]\<rparr>, Inr \<lparr>shape = [1, 1], data = [0 :: real]\<rparr>, Inr \<lparr>shape = [1, 1], data = [0 :: real]\<rparr>, Inr \<lparr>shape = [1, 1], data = [0 :: real]\<rparr>, Inr \<lparr>shape = [3], data = [1, 2, 3 :: real]\<rparr>, 1)) = Inr (Inr \<lparr>shape = side # dm, data = md\<rparr>, map_pyarg Inr mko, Inr gx, Inr gy, Inr hxx, Inr hyy, Inr hxy,
                                Inr \<lparr>shape = N # dt, data = td\<rparr>, sigma) \<longrightarrow>
          (\<lambda>(mem :: nat \<Rightarrow> nat \<Rightarrow> real) (m :: real list) (mp :: bool list option) (n :: int) (sg :: real) (gx :: real list) (gy :: real list) (hxx :: real list) (hyy :: real list) (hxy :: real list) (nt :: int) (t :: real list) (v0 :: real list) (v1 :: real list) (v2 :: real list). (v0[0 := 1], v1, v2[1 := 1])) mem md (case mko of Py_None \<Rightarrow> None | Obj mk \<Rightarrow> Some (data mk)) (c_int (int side)) sigma (data gx) (data gy) (data hxx) (data hyy) (data hxy) (c_int (int N)) td (replicate (nat (c_int (int N) - 1)) 0) (replicate (nat (c_int (int N) - 1)) 0) (replicate (nat (c_int (int N) - 1)) 0) =
          (\<lambda>(mem :: nat \<Rightarrow> nat \<Rightarrow> real) (m :: real list) (mp :: bool list option) (n :: int) (sg :: real) (gx :: real list) (gy :: real list) (hxx :: real list) (hyy :: real list) (hxy :: real list) (nt :: int) (t :: real list) (v0 :: real list) (v1 :: real list) (v2 :: real list). (v0[0 := 1], v1, v2[1 := 1])) mem' md (case mko of Py_None \<Rightarrow> None | Obj mk \<Rightarrow> Some (data mk)) (c_int (int side)) sigma (data gx) (data gy) (data hxx) (data hyy) (data hxy) (c_int (int N)) td (replicate (nat (c_int (int N) - 1)) 0) (replicate (nat (c_int (int N) - 1)) 0) (replicate (nat (c_int (int N) - 1)) 0))"
    by simp
  have i5: "(\<forall>nx ny dm ft1_data ft2 angle N dt lv mem mem'.
          (Inr (Inr \<lparr>shape = [1, 1], data = [0 :: complex]\<rparr>, Inr \<lparr>shape = [1, 1], data = [0 :: complex]\<rparr>, 1, Inr \<lparr>shape = [3], data = [1, 2, 3 :: real]\<rparr>)) = Inr (Inr \<lparr>shape = nx # ny # dm, data = ft1_data\<rparr>, Inr ft2, angle, Inr \<lparr>shape = N # dt, data = lv\<rparr>) \<longrightarrow>
          (\<lambda>(mem :: nat \<Rightarrow> nat \<Rightarrow> real) (f1 :: complex list) (f2 :: complex list) (nx :: int) (ny :: int) (ang :: real) (nv :: int) (lv :: real list) (pw :: real list). (0 :: int, pw[1 := 4])) mem ft1_data (data ft2) (c_int (int nx)) (c_int (int ny)) angle (c_int (int N)) lv (replicate (nat (c_int (int N) - 1)) 0) =
          (\<lambda>(mem :: nat \<Rightarrow> nat \<Rightarrow> real) (f1 :: complex list) (f2 :: complex list) (nx :: int) (ny :: int) (ang :: real) (nv :: int) (lv :: real list) (pw :: real list). (0 :: int, pw[1 := 4])) mem' ft1_data (data ft2) (c_int (int nx)) (c_int (int ny)) angle (c_int (int N)) lv (replicate (nat (c_int (int N) - 1)) 0))"
    by simp
  have i6: "(\<forall>nx ny nz dm ft1_data ft2 kx ky kz N dt kv mem mem'.
          (Inr (Inr \<lparr>shape = [1, 1, 1], data = [0 :: complex]\<rparr>, Inr \<lparr>shape = [1, 1, 1], data = [0 :: complex]\<rparr>, 1, 1, 1, Inr \<lparr>shape = [3], data = [1, 2, 3 :: real]\<rparr>)) = Inr (Inr \<lparr>shape = nx # ny # nz # dm, data = ft1_data\<rparr>, Inr ft2, kx, ky, kz, Inr \<lparr>shape = N # dt, data = kv\<rparr>) \<longrightarrow>
          (\<lambda>(mem :: nat \<Rightarrow> nat \<Rightarrow> real) (f1 :: complex list) (f2 :: complex list) (nx :: int) (ny :: int) (nz :: int) (kx :: real) (ky :: real) (kz :: real) (nv :: int) (kv :: real list) (pw :: real list) (hits :: int list). (0 :: int, pw[1 := 4], hits[1 := 1])) mem ft1_data (data ft2) (c_int (int nx)) (c_int (int ny)) (c_int (int nz)) kx ky kz (c_int (int N)) kv (replicate (nat (c_int (int N) - 1)) 0) (replicate (nat (c_int (int N) - 1)) 0) =
          (\<lambda>(mem :: nat \<Rightarrow> nat \<Rightarrow> real) (f1 :: complex list) (f2 :: complex list) (nx :: int) (ny :: int) (nz :: int) (kx :: real) (ky :: real) (kz :: real) (nv :: int) (kv :: real list) (pw :: real list) (hits :: int list). (0 :: int, pw[1 := 4], hits[1 := 1])) mem' ft1_data (data ft2) (c_int (int nx)) (c_int (int ny)) (c_int (int nz)) kx ky kz (c_int (int N)) kv (replicate (nat (c_int (int N) - 1)) 0) (replicate (nat (c_int (int N) - 1)) 0))"
    by simp
  note t = C9_no_hidden_state [where s = "\<lparr>err_indicator = None, refcnt = [], allocs = [], junk = (\<lambda>h i. 0 :: real)\<rparr>" and s' = "\<lparr>err_indicator = Some ValueError, refcnt = [1, 0], allocs = [], junk = (\<lambda>h i. 7 :: real)\<rparr>"]
  from t [where peak_count = "(\<lambda>(mem :: nat \<Rightarrow> nat \<Rightarrow> real) (m :: real list) (mp :: bool list option) (n :: int) (sg :: real) (nt :: int) (t :: real list) (out :: real list). out[0 := (m @ map (mem 0) [0 ..< 4]) ! 3])" and peakCount_args = "Inr (Inr \<lparr>shape = [2, 2], data = [0, 0, 9, 5 :: real]\<rparr>, Py_None, Inr \<lparr>shape = [3], data = [1, 2, 3 :: real]\<rparr>, 1)", THEN conjunct1] a i1
  have e1: "returned (topology_peakCount (\<lambda>(mem :: nat \<Rightarrow> nat \<Rightarrow> real) (m :: real list) (mp :: bool list option) (n :: int) (sg :: real) (nt :: int) (t :: real list) (out :: real list). out[0 := (m @ map (mem 0) [0 ..< 4]) ! 3])
        (Inr (Inr \<lparr>shape = [2, 2], data = [0, 0, 9, 5 :: real]\<rparr>, Py_None, Inr \<lparr>shape = [3], data = [1, 2, 3 :: real]\<rparr>, 1))
        \<lparr>err_indicator = None, refcnt = [], allocs = [], junk = (\<lambda>h i. 0 :: real)\<rparr>) =
     returned (topology_peakCount (\<lambda>(mem :: nat \<Rightarrow> nat \<Rightarrow> real) (m :: real list) (mp :: bool list option) (n :: int) (sg :: real) (nt :: int) (t :: real list) (out :: real list). out[0 := (m @ map (mem 0) [0 ..< 4]) ! 3])
        (Inr (Inr \<lparr>shape = [2, 2], data = [0, 0, 9, 5 :: real]\<rparr>, Py_None, Inr \<lparr>shape = [3], data = [1, 2, 3 :: real]\<rparr>, 1))
        \<lparr>err_indicator = Some ValueError, refcnt = [1, 0], allocs = [], junk = (\<lambda>h i. 7 :: real)\<rparr>)"
    by blast
  from t [where gradient_xy = "(\<lambda>(mem :: nat \<Rightarrow> nat \<Rightarrow> real) (m :: real list) (gx :: real list) (gy :: real list) (n :: int). (map (\<lambda>x. 1 :: real) gx, map (\<lambda>x. 2 :: real) gy))" and gradient_args = "Inr (Inr \<lparr>shape = [2, 2], data = [0, 0, 9, 5 :: real]\<rparr>)", THEN conjunct2, THEN conjunct1] a i2
  have e2: "returned (topology_gradient (\<lambda>(mem :: nat \<Rightarrow> nat \<Rightarrow> real) (m :: real list) (gx :: real list) (gy :: real list) (n :: int). (map (\<lambda>x. 1 :: real) gx, map (\<lambda>x. 2 :: real) gy))
        (Inr (Inr \<lparr>shape = [2, 2], data = [0, 0, 9, 5 :: real]\<rparr>))
        \<lparr>err_indicator = None, refcnt = [], allocs = [], junk = (\<lambda>h i. 0 :: real)\<rparr>) =
     returned (topology_gradient (\<lambda>(mem :: nat \<Rightarrow> nat \<Rightarrow> real) (m :: real list) (gx :: real list) (gy :: real list) (n :: int). (map (\<lambda>x. 1 :: real) gx, map (\<lambda>x. 2 :: real) gy))
        (Inr (Inr \<lparr>shape = [2, 2], data = [0, 0, 9, 5 :: real]\<rparr>))
        \<lparr>err_indicator = Some ValueError, refcnt = [1, 0], allocs = [], junk = (\<lambda>h i. 7 :: real)\<rparr>)"
    by blast
  from t [where hessian = "(\<lambda>(mem :: nat \<Rightarrow> nat \<Rightarrow> real) (m :: real list) (hxx :: real list) (hyy :: real list) (hxy :: real list) (n :: int). (map (\<lambda>x. 1 :: real) hxx, map (\<lambda>x. 2 :: real) hyy, map (\<lambda>x. 3 :: real) hxy))" and hessian_args = "Inr (Inr \<lparr>shape = [2, 2], data = [0, 0, 9, 5 :: real]\<rparr>)", THEN conjunct2, THEN conjunct2, THEN conjunct1] a i3
  have e3: "returned (topology_hessian (\<lambda>(mem :: nat \<Rightarrow> nat \<Rightarrow> real) (m :: real list) (hxx :: real list) (hyy :: real list) (hxy :: real list) (n :: int). (map (\<lambda>x. 1 :: real) hxx, map (\<lambda>x. 2 :: real) hyy, map (\<lambda>x. 3 :: real) hxy))
        (Inr (Inr \<lparr>shape = [2, 2], data = [0, 0, 9, 5 :: real]\<rparr>))
        \<lparr>err_indicator = None, refcnt = [], allocs = [], junk = (\<lambda>h i. 0 :: real)\<rparr>) =
     returned (topology_hessian (\<lambda>(mem :: nat \<Rightarrow> nat \<Rightarrow> real) (m :: real list) (hxx :: real list) (hyy :: real list) (hxy :: real list) (n :: int). (map (\<lambda>x. 1 :: real) hxx, map (\<lambda>x. 2 :: real) hyy, map (\<lambda>x. 3 :: real) hxy))
        (Inr (Inr \<lparr>shape = [2, 2], data = [0, 0, 9, 5 :: real]\<rparr>))
        \<lparr>err_indicator = Some ValueError, refcnt = [1, 0], allocs = [], junk = (\<lambda>h i. 7 :: real)\<rparr>)"
    by blast
  from t [where minkowski_functionals = "(\<lambda>(mem :: nat \<Rightarrow> nat \<Rightarrow> real) (m :: real list) (mp :: bool list option) (n :: int) (sg :: real) (gx :: real list) (gy :: real list) (hxx :: real list) (hyy :: real list) (hxy :: real list) (nt :: int) (t :: real list) (v0 :: real list) (v1 :: real list) (v2 :: real list). (v0[0 := 1], v1, v2[1 := 1]))" and minkowski_args = "Inr (Inr \<lparr>shape = [2, 2], data = [0, 0, 9, 5 :: real]\<rparr>, Py_None, Inr \<lparr>shape = [1, 1], data = [0 :: real]\<rparr>, Inr \<lparr>shape = [1, 1], data = [0 :: real]\<rparr>, Inr \<lparr>shape = [1, 1], data = [0 :: real]\<rparr>, Inr \<lparr>shape = [1, 1], data = [0 :: real]\<rparr>, Inr \<lparr>shape = [1, 1], data = [0 :: real]\<rparr>, Inr \<lparr>shape = [3], data = [1, 2, 3 :: real]\<rparr>, 1)", THEN conjunct2, THEN conjunct2, THEN conjunct2, THEN conjunct1] a i4
  have e4: "returned (topology_minkowski (\<lambda>(mem :: nat \<Rightarrow> nat \<Rightarrow> real) (m :: real list) (mp :: bool list option) (n :: int) (sg :: real) (gx :: real list) (gy :: real list) (hxx :: real list) (hyy :: real list) (hxy :: real list) (nt :: int) (t :: real list) (v0 :: real list) (v1 :: real list) (v2 :: real list). (v0[0 := 1], v1, v2[1 := 1]))
        (Inr (Inr \<lparr>shape = [2, 2], data = [0, 0, 9, 5 :: real]\<rparr>, Py_None, Inr \<lparr>shape = [1, 1], data = [0 :: real]\<rparr>, Inr \<lparr>shape = [1, 1], data = [0 :: real]\<rparr>, Inr \<lparr>shape = [1, 1], data = [0 :: real]\<rparr>, Inr \<lparr>shape = [1, 1], data = [0 :: real]\<rparr>, Inr \<lparr>shape = [1, 1], data = [0 :: real]\<rparr>, Inr \<lparr>shape = [3], data = [1, 2, 3 :: real]\<rparr>, 1))
        \<lparr>err_indicator = None, refcnt = [], allocs = [], junk = (\<lambda>h i. 0 :: real)\<rparr>) =
     returned (topology_minkowski (\<lambda>(mem :: nat \<Rightarrow> nat \<Rightarrow> real) (m :: real list) (mp :: bool list option) (n :: int) (sg :: real) (gx :: real list) (gy :: real list) (hxx :: real list) (hyy :: real list) (hxy :: real list) (nt :: int) (t :: real list) (v0 :: real list) (v1 :: real list) (v2 :: real list). (v0[0 := 1], v1, v2[1 := 1]))
        (Inr (Inr \<lparr>shape = [2, 2], data = [0, 0, 9, 5 :: real]\<rparr>, Py_None, Inr \<lparr>shape = [1, 1], data = [0 :: real]\<rparr>, Inr \<lparr>shape = [1, 1], data = [0 :: real]\<rparr>, Inr \<lparr>shape = [1, 1], data = [0 :: real]\<rparr>, Inr \<lparr>shape = [1, 1], data = [0 :: real]\<rparr>, Inr \<lparr>shape = [1, 1], data = [0 :: real]\<rparr>, Inr \<lparr>shape = [3], data = [1, 2, 3 :: real]\<rparr>, 1))
        \<lparr>err_indicator = Some ValueError, refcnt = [1, 0], allocs = [], junk = (\<lambda>h i. 7 :: real)\<rparr>)"
    by blast
  from t [where azimuthal_2d = "(\<lambda>(mem :: nat \<Rightarrow> nat \<Rightarrow> real) (f1 :: complex list) (f2 :: complex list) (nx :: int) (ny :: int) (ang :: real) (nv :: int) (lv :: real list) (pw :: real list). (0 :: int, pw[1 := 4]))" and rfft2_args = "Inr (Inr \<lparr>shape = [1, 1], data = [0 :: complex]\<rparr>, Inr \<lparr>shape = [1, 1], data = [0 :: complex]\<rparr>, 1, Inr \<lparr>shape = [3], data = [1, 2, 3 :: real]\<rparr>)", THEN conjunct2, THEN conjunct2, THEN conjunct2, THEN conjunct2, THEN conjunct1] a i5
  have e5: "returned (topology_rfft2_azimuthal (\<lambda>(mem :: nat \<Rightarrow> nat \<Rightarrow> real) (f1 :: complex list) (f2 :: complex list) (nx :: int) (ny :: int) (ang :: real) (nv :: int) (lv :: real list) (pw :: real list). (0 :: int, pw[1 := 4]))
        (Inr (Inr \<lparr>shape = [1, 1], data = [0 :: complex]\<rparr>, Inr \<lparr>shape = [1, 1], data = [0 :: complex]\<rparr>, 1, Inr \<lparr>shape = [3], data = [1, 2, 3 :: real]\<rparr>))
        \<lparr>err_indicator = None, refcnt = [], allocs = [], junk = (\<lambda>h i. 0 :: real)\<rparr>) =
     returned (topology_rfft2_azimuthal (\<lambda>(mem :: nat \<Rightarrow> nat \<Rightarrow> real) (f1 :: complex list) (f2 :: complex list) (nx :: int) (ny :: int) (ang :: real) (nv :: int) (lv :: real list) (pw :: real list). (0 :: int, pw[1 := 4]))
        (Inr (Inr \<lparr>shape = [1, 1], data = [0 :: complex]\<rparr>, Inr \<lparr>shape = [1, 1], data = [0 :: complex]\<rparr>, 1, Inr \<lparr>shape = [3], data = [1, 2, 3 :: real]\<rparr>))
        \<lparr>err_indicator = Some ValueError, refcnt = [1, 0], allocs = [], junk = (\<lambda>h i. 7 :: real)\<rparr>)"
    by blast
  from t [where azimuthal_3d = "(\<lambda>(mem :: nat \<Rightarrow> nat \<Rightarrow> real) (f1 :: complex list) (f2 :: complex list) (nx :: int) (ny :: int) (nz :: int) (kx :: real) (ky :: real) (kz :: real) (nv :: int) (kv :: real list) (pw :: real list) (hits :: int list). (0 :: int, pw[1 := 4], hits[1 := 1]))" and rfft3_args = "Inr (Inr \<lparr>shape = [1, 1, 1], data = [0 :: complex]\<rparr>, Inr \<lparr>shape = [1, 1, 1], data = [0 :: complex]\<rparr>, 1, 1, 1, Inr \<lparr>shape = [3], data = [1, 2, 3 :: real]\<rparr>)", THEN conjunct2, THEN conjunct2, THEN conjunct2, THEN conjunct2, THEN conjunct2] a i6
  have e6: "returned (topology_rfft3_azimuthal (\<lambda>(mem :: nat \<Rightarrow> nat \<Rightarrow> real) (f1 :: complex list) (f2 :: complex list) (nx :: int) (ny :: int) (nz :: int) (kx :: real) (ky :: real) (kz :: real) (nv :: int) (kv :: real list) (pw :: real list) (hits :: int list). (0 :: int, pw[1 := 4], hits[1 := 1]))
        (Inr (Inr \<lparr>shape = [1, 1, 1], data = [0 :: complex]\<rparr>, Inr \<lparr>shape = [1, 1, 1], data = [0 :: complex]\<rparr>, 1, 1, 1, Inr \<lparr>shape = [3], data = [1, 2, 3 :: real]\<rparr>))
        \<lparr>err_indicator = None, refcnt = [], allocs = [], junk = (\<lambda>h i. 0 :: real)\<rparr>) =
     returned (topology_rfft3_azimuthal (\<lambda>(mem :: nat \<Rightarrow> nat \<Rightarrow> real) (f1 :: complex list) (f2 :: complex list) (nx :: int) (ny :: int) (nz :: int) (kx :: real) (ky :: real) (kz :: real) (nv :: int) (kv :: real list) (pw :: real list) (hits :: int list). (0 :: int, pw[1 := 4], hits[1 := 1]))
        (Inr (Inr \<lparr>shape = [1, 1, 1], data = [0 :: complex]\<rparr>, Inr \<lparr>shape = [1, 1, 1], data = [0 :: complex]\<rparr>, 1, 1, 1, Inr \<lparr>shape = [3], data = [1, 2, 3 :: real]\<rparr>))
        \<lparr>err_indicator = Some ValueError, refcnt = [1, 0], allocs = [], junk = (\<lambda>h i. 7 :: real)\<rparr>)"
    by blast
  from a e1 e2 e3 e4 e5 e6 show ?thesis by (intro conjI)
qed

text \<open>
  The claim as stated, for every kernel and every input, fails: two calls with the same
  arguments return different values. With a kernel of \<^verbatim>\<open>gradient\<close> that leaves its outputs
  as it finds them, the arrays returned hold what the uninitialised memory held. With
  the kernel of \<^verbatim>\<open>peakCount\<close> that reads the fourth sample of a map of side 2, a \<open>2 \<times> 1\<close> map
  (which is accepted, its side being 2) makes it read past the two samples of the
  buffer. In both cases the same allocations succeed in the two states. And the same
  call returns its vector in one state and nothing in a state in which the output
  cannot be allocated.
\<close>

theorem C9_counterexample:
  "allocs \<lparr>err_indicator = None, refcnt = [], allocs = [], junk = (\<lambda>h i. 0 :: real)\<rparr> = allocs \<lparr>err_indicator = Some ValueError, refcnt = [1, 0], allocs = [], junk = (\<lambda>h i. 7 :: real)\<rparr>
   \<and> returned (topology_gradient (\<lambda>(mem :: nat \<Rightarrow> nat \<Rightarrow> real) (m :: real list) (gx :: real list) (gy :: real list) (n :: int). (gx, gy)) (Inr (Inr \<lparr>shape = [2, 2], data = [0, 0, 9, 5 :: real]\<rparr>)) \<lparr>err_indicator = None, refcnt = [], allocs = [], junk = (\<lambda>h i. 0 :: real)\<rparr>)
       = Some (Vectors [Some (DoubleArray \<lparr>shape = [2, 2], data = [0, 0, 0, 0]\<rparr>), Some (DoubleArray \<lparr>shape = [2, 2], data = [0, 0, 0, 0]\<rparr>)])
   \<and> returned (topology_gradient (\<lambda>(mem :: nat \<Rightarrow> nat \<Rightarrow> real) (m :: real list) (gx :: real list) (gy :: real list) (n :: int). (gx, gy)) (Inr (Inr \<lparr>shape = [2, 2], data = [0, 0, 9, 5 :: real]\<rparr>)) \<lparr>err_indicator = Some ValueError, refcnt = [1, 0], allocs = [], junk = (\<lambda>h i. 7 :: real)\<rparr>)
       = Some (Vectors [Some (DoubleArray \<lparr>shape = [2, 2], data = [7, 7, 7, 7]\<rparr>), Some (DoubleArray \<lparr>shape = [2, 2], data = [7, 7, 7, 7]\<rparr>)])
   \<and> returned (topology_peakCount (\<lambda>(mem :: nat \<Rightarrow> nat \<Rightarrow> real) (m :: real list) (mp :: bool list option) (n :: int) (sg :: real) (nt :: int) (t :: real list) (out :: real list). out[0 := (m @ map (mem 0) [0 ..< 4]) ! 3]) (Inr (Inr \<lparr>shape = [2, 1], data = [5, 6 :: real]\<rparr>, Py_None, Inr \<lparr>shape = [2], data = [1, 2 :: real]\<rparr>, 1)) \<lparr>err_indicator = None, refcnt = [], allocs = [], junk = (\<lambda>h i. 0 :: real)\<rparr>)
       = Some (Vector (DoubleArray \<lparr>shape = [1], data = [0]\<rparr>))
   \<and> returned (topology_peakCount (\<lambda>(mem :: nat \<Rightarrow> nat \<Rightarrow> real) (m :: real list) (mp :: bool list option) (n :: int) (sg :: real) (nt :: int) (t :: real list) (out :: real list). out[0 := (m @ map (mem 0) [0 ..< 4]) ! 3]) (Inr (Inr \<lparr>shape = [2, 1], data = [5, 6 :: real]\<rparr>, Py_None, Inr \<lparr>shape = [2], data = [1, 2 :: real]\<rparr>, 1)) \<lparr>err_indicator = Some ValueError, refcnt = [1, 0], allocs = [], junk = (\<lambda>h i. 7 :: real)\<rparr>)
       = Some (Vector (DoubleArray \<lparr>shape = [1], data = [7]\<rparr>))
   \<and> returned (topology_peakCount (\<lambda>(mem :: nat \<Rightarrow> nat \<Rightarrow> real) (m :: real list) (mp :: bool list option) (n :: int) (sg :: real) (nt :: int) (t :: real list) (out :: real list). out[0 := (m @ map (mem 0) [0 ..< 4]) ! 3]) (Inr (Inr \<lparr>shape = [2, 2], data = [0, 0, 9, 5 :: real]\<rparr>, Py_None, Inr \<lparr>shape = [2], data = [1, 2 :: real]\<rparr>, 1)) \<lparr>err_indicator = None, refcnt = [], allocs = [], junk = (\<lambda>h i. 0 :: real)\<rparr>)
       = Some (Vector (DoubleArray \<lparr>shape = [1], data = [5]\<rparr>))
   \<and> returned (topology_peakCount (\<lambda>(mem :: nat \<Rightarrow> nat \<Rightarrow> real) (m :: real list) (mp :: bool list option) (n :: int) (sg :: real) (nt :: int) (t :: real list) (out :: real list). out[0 := (m @ map (mem 0) [0 ..< 4]) ! 3]) (Inr (Inr \<lparr>shape = [2, 2], data = [0, 0, 9, 5 :: real]\<rparr>, Py_None, Inr \<lparr>shape = [2], data = [1, 2 :: real]\<rparr>, 1)) \<lparr>err_indicator = None, refcnt = [], allocs = [False], junk = (\<lambda>h i. 0 :: real)\<rparr>) = None"
  using peakCount_returned [where mko = Py_None and 'a = real, simplified]
  by (simp add: gradient_returned c_int_def next_allocs_ok_def upt_rec)
subsection \<open>C6: failures\<close>

text \<open>
  C6 does not hold of the code. \<^verbatim>\<open>gradient\<close>, \<^verbatim>\<open>hessian\<close> and \<^verbatim>\<open>rfft3_azimuthal\<close> do not test the
  result of \<^verbatim>\<open>PyTuple_New\<close>: when the output arrays are allocated and the tuple is not, the
  \<^verbatim>\<open>NULL\<close> tuple is handed to \<^verbatim>\<open>PyTuple_SetItem\<close>, which is undefined, and the caller
  receives neither \<^verbatim>\<open>NULL\<close> nor an error. \<^verbatim>\<open>minkowski\<close> tests the tuple with its arrays: in the
  same situation it releases everything and returns \<^verbatim>\<open>NULL\<close> with the \<^verbatim>\<open>MemoryError\<close> set.
  When the azimuthal kernel signals failure, \<^verbatim>\<open>rfft2_azimuthal\<close> releases the inputs and the
  output buffer and returns \<^verbatim>\<open>NULL\<close>; it sets no exception itself.
\<close>

theorem C6_unchecked_tuple:
  "topology_gradient gradient_xy (Inr (Inr \<lparr>shape = [1, 1], data = [0 :: real]\<rparr>)) \<lparr>err_indicator = None, refcnt = [], allocs = [True, True, False], junk = (\<lambda>h i. 0 :: real)\<rparr> = Undefined
   \<and> topology_hessian hessian (Inr (Inr \<lparr>shape = [1, 1], data = [0 :: real]\<rparr>)) \<lparr>err_indicator = None, refcnt = [], allocs = [True, True, True, False], junk = (\<lambda>h i. 0 :: real)\<rparr> = Undefined
   \<and> topology_rfft3_azimuthal (\<lambda>mem f1 f2 nx ny nz kx ky kz nv kv pw hits. (0, pw, hits))
       (Inr (Inr \<lparr>shape = [1, 1, 1], data = [0 :: complex]\<rparr>, Inr \<lparr>shape = [1, 1, 1], data = [0 :: complex]\<rparr>, 1, 1, 1, Inr \<lparr>shape = [3], data = [1, 2, 3 :: real]\<rparr>)) \<lparr>err_indicator = None, refcnt = [], allocs = [True, True, False], junk = (\<lambda>h i. 0 :: real)\<rparr> = Undefined
   \<and> topology_minkowski minkowski_functionals
       (Inr (Inr \<lparr>shape = [1, 1], data = [0 :: real]\<rparr>, Py_None, Inr \<lparr>shape = [1, 1], data = [0 :: real]\<rparr>, Inr \<lparr>shape = [1, 1], data = [0 :: real]\<rparr>, Inr \<lparr>shape = [1, 1], data = [0 :: real]\<rparr>, Inr \<lparr>shape = [1, 1], data = [0 :: real]\<rparr>, Inr \<lparr>shape = [1, 1], data = [0 :: real]\<rparr>,
              Inr \<lparr>shape = [3], data = [1, 2, 3 :: real]\<rparr>, 1)) \<lparr>err_indicator = None, refcnt = [], allocs = [True, True, True, False], junk = (\<lambda>h i. 0 :: real)\<rparr>
       = Returns None \<lparr>err_indicator = Some MemoryError, refcnt = [0, 0, 0, 0, 0, 0, 0, 0, 0, 0], allocs = [],
                         junk = (\<lambda>h i. 0)\<rparr>
   \<and> topology_rfft2_azimuthal (\<lambda>mem f1 f2 nx ny ang nv lv pw. (1, pw))
       (Inr (Inr \<lparr>shape = [1, 1], data = [0 :: complex]\<rparr>, Inr \<lparr>shape = [1, 1], data = [0 :: complex]\<rparr>, 1, Inr \<lparr>shape = [3], data = [1, 2, 3 :: real]\<rparr>)) \<lparr>err_indicator = None, refcnt = [], allocs = [], junk = (\<lambda>h i. 0 :: real)\<rparr>
       = Returns None \<lparr>err_indicator = None, refcnt = [0, 0, 0, 0], allocs = [], junk = (\<lambda>h i. 0)\<rparr>"
proof (intro conjI)
  show "topology_gradient gradient_xy (Inr (Inr \<lparr>shape = [1, 1], data = [0 :: real]\<rparr>)) \<lparr>err_indicator = None, refcnt = [], allocs = [True, True, False], junk = (\<lambda>h i. 0 :: real)\<rparr> = Undefined"
    by (simp add: topology_gradient_def outcome_defs take_alloc_def c_int_def)
  show "topology_hessian hessian (Inr (Inr \<lparr>shape = [1, 1], data = [0 :: real]\<rparr>)) \<lparr>err_indicator = None, refcnt = [], allocs = [True, True, True, False], junk = (\<lambda>h i. 0 :: real)\<rparr> = Undefined"
    by (simp add: topology_hessian_def outcome_defs take_alloc_def c_int_def)
  show "topology_rfft3_azimuthal (\<lambda>mem f1 f2 nx ny nz kx ky kz nv kv pw hits. (0, pw, hits))
       (Inr (Inr \<lparr>shape = [1, 1, 1], data = [0 :: complex]\<rparr>, Inr \<lparr>shape = [1, 1, 1], data = [0 :: complex]\<rparr>, 1, 1, 1, Inr \<lparr>shape = [3], data = [1, 2, 3 :: real]\<rparr>)) \<lparr>err_indicator = None, refcnt = [], allocs = [True, True, False], junk = (\<lambda>h i. 0 :: real)\<rparr> = Undefined"
    by (simp add: topology_rfft3_azimuthal_def outcome_defs take_alloc_def c_int_def)
  show "topology_minkowski minkowski_functionals
       (Inr (Inr \<lparr>shape = [1, 1], data = [0 :: real]\<rparr>, Py_None, Inr \<lparr>shape = [1, 1], data = [0 :: real]\<rparr>, Inr \<lparr>shape = [1, 1], data = [0 :: real]\<rparr>, Inr \<lparr>shape = [1, 1], data = [0 :: real]\<rparr>, Inr \<lparr>shape = [1, 1], data = [0 :: real]\<rparr>, Inr \<lparr>shape = [1, 1], data = [0 :: real]\<rparr>,
              Inr \<lparr>shape = [3], data = [1, 2, 3 :: real]\<rparr>, 1)) \<lparr>err_indicator = None, refcnt = [], allocs = [True, True, True, False], junk = (\<lambda>h i. 0 :: real)\<rparr>
       = Returns None \<lparr>err_indicator = Some MemoryError, refcnt = [0, 0, 0, 0, 0, 0, 0, 0, 0, 0], allocs = [],
                         junk = (\<lambda>h i. 0)\<rparr>"
    by (simp add: topology_minkowski_def outcome_defs take_alloc_def c_int_def INT_MIN_def Py_DECREF_tuple_def)
  show "topology_rfft2_azimuthal (\<lambda>mem f1 f2 nx ny ang nv lv pw. (1, pw))
       (Inr (Inr \<lparr>shape = [1, 1], data = [0 :: complex]\<rparr>, Inr \<lparr>shape = [1, 1], data = [0 :: complex]\<rparr>, 1, Inr \<lparr>shape = [3], data = [1, 2, 3 :: real]\<rparr>)) \<lparr>err_indicator = None, refcnt = [], allocs = [], junk = (\<lambda>h i. 0 :: real)\<rparr>
       = Returns None \<lparr>err_indicator = None, refcnt = [0, 0, 0, 0], allocs = [], junk = (\<lambda>h i. 0)\<rparr>"
    by (simp add: topology_rfft2_azimuthal_def outcome_defs take_alloc_def c_int_def)
qed
end
